theory Spec2Isabelle
  imports Main
begin

section \<open>The slow server: a shallow embedding of \<^verbatim>\<open>slow-server/server.py\<close>\<close>

text \<open>
  The program is eleven lines: a handler class \<^verbatim>\<open>SlowHandler\<close> whose only method
  \<^verbatim>\<open>do_GET\<close> sleeps five seconds and then writes a fixed reply, and one statement that
  builds an \<^verbatim>\<open>HTTPServer\<close> on \<^verbatim>\<open>("0.0.0.0", 80)\<close> and calls
  \<^verbatim>\<open>serve_forever()\<close>. Everything else it does is done by the methods it inherits from
  \<^verbatim>\<open>http.server.BaseHTTPRequestHandler\<close> and \<^verbatim>\<open>socketserver.TCPServer\<close>; those
  methods are embedded here next to the program's own, each under the name it has in
  Python (as CPython 3.11 defines it), as state transformers on the handler and on the
  server.

  Effects are explicit. Time is a clock in whole seconds that only \<^verbatim>\<open>time.sleep\<close>
  advances; what leaves the process (bytes given to the socket, lines on standard
  error) is appended to a trace in the order it happens; an exception is a value.
\<close>

subsection \<open>Exceptions and observable events\<close>

datatype exn =
    BrokenPipeError
  | ConnectionResetError
  | TimeoutError
  | OSError
  | AttributeError
  | TypeError
  | KeyboardInterrupt

text \<open>\<^verbatim>\<open>except Exception\<close> catches every exception above but \<^verbatim>\<open>KeyboardInterrupt\<close>,
  which derives from \<^verbatim>\<open>BaseException\<close> only.\<close>

fun is_Exception :: "exn \<Rightarrow> bool" where
  "is_Exception KeyboardInterrupt = False"
| "is_Exception _ = True"

datatype event =
    Slept nat          \<comment> \<open>\<^verbatim>\<open>time.sleep(n)\<close> ran to its end\<close>
  | Sent string        \<comment> \<open>\<^verbatim>\<open>sendall\<close> handed these bytes to the connection\<close>
  | SendFailed exn     \<comment> \<open>\<^verbatim>\<open>sendall\<close> was called and raised\<close>
  | Logged string      \<comment> \<open>\<^verbatim>\<open>log_message\<close> wrote this line to standard error\<close>
  | Traceback exn      \<comment> \<open>\<^verbatim>\<open>handle_error\<close> printed the traceback of this exception\<close>

subsection \<open>What the interpreter and the operating system supply\<close>

text \<open>
  Six values the program's output depends on are not in its text: the interpreter's
  version string (\<^verbatim>\<open>sys_version\<close>, such as \<^verbatim>\<open>Python/3.11.10\<close>), the date at a given
  clock value as a header field and as a log line print it, \<^verbatim>\<open>repr\<close> of a string and
  of an exception, and the value the \<^verbatim>\<open>email\<close> parser finds for a field name in a
  block of header lines (\<^verbatim>\<open>self.headers.get(name, "")\<close>). They are parameters.
\<close>

record env =
  sys_version :: string
  date_time_string :: "nat \<Rightarrow> string"
  log_date_time_string :: "nat \<Rightarrow> string"
  py_repr :: "string \<Rightarrow> string"
  exn_repr :: "exn \<Rightarrow> string"
  header_get :: "string \<Rightarrow> string \<Rightarrow> string"

subsection \<open>Connections and the handler object\<close>

text \<open>
  A connection: the bytes the peer sends on it, and how the peer behaves towards writes.
  A byte and the character that \<^verbatim>\<open>iso-8859-1\<close> decodes it to are the same value of type
  \<^typ>\<open>char\<close>. \<open>accepts\<close> is the number of \<^verbatim>\<open>sendall\<close> calls that succeed before the peer
  is gone (0: it has hung up before the first write); the call after that raises
  \<open>write_error\<close>. Reading does not fail and does not wait for ever: the peer has sent
  all its bytes and has shut down its sending side, so that a read past the last byte
  finds the end of the input. (The handler reads past the last byte only when the input
  ends inside the request line or inside the block of header lines.)
\<close>

record connection =
  client_address :: string
  input :: string
  accepts :: nat
  write_error :: exn

text \<open>
  The handler object: the instance attributes of \<^verbatim>\<open>BaseHTTPRequestHandler\<close> that the
  program's run reads or writes (\<open>client_host\<close> is \<^verbatim>\<open>self.client_address[0]\<close>, \<open>rfile\<close>
  is what is still unread of the input, \<open>headers\<close> the block of header lines the
  message object was made from), the state of its socket (\<open>sendable\<close>,
  \<open>send_error_exn\<close>), and the world it acts on (\<open>clock\<close>, \<open>trace\<close>). \<open>command\<close> is
  \<open>None\<close> where Python has \<^verbatim>\<open>None\<close>, and \<open>headers_buffer\<close> is \<open>None\<close> while the
  attribute \<^verbatim>\<open>_headers_buffer\<close> does not exist.
\<close>

record handler =
  client_host :: string
  rfile :: string
  raw_requestline :: string
  requestline :: string
  command :: "string option"
  path :: string
  request_version :: string
  headers :: string
  close_connection :: bool
  headers_buffer :: "string list option"
  sendable :: nat
  send_error_exn :: exn
  clock :: nat
  trace :: "event list"

type_synonym action = "handler \<Rightarrow> exn option \<times> handler"

text \<open>Statements in sequence: the second runs only if the first did not raise.\<close>

definition seq :: "action \<Rightarrow> action \<Rightarrow> action" where
  "seq f g h = (case f h of (None, h') \<Rightarrow> g h' | (Some e, h') \<Rightarrow> (Some e, h'))"

fun block :: "action list \<Rightarrow> action" where
  "block [] h = (None, h)"
| "block (f # fs) h = seq f (block fs) h"

subsection \<open>Library primitives\<close>

definition CRLF :: string where
  "CRLF = [CHR 0x0D, CHR 0x0A]"

definition LF :: string where
  "LF = [CHR 0x0A]"

text \<open>\<^verbatim>\<open>"%d" % n\<close> for a natural number.\<close>

function str_nat :: "nat \<Rightarrow> string" where
  "str_nat n =
     (if n < 10 then [char_of (48 + n)]
      else str_nat (n div 10) @ [char_of (48 + n mod 10)])"
  by pat_completeness auto
termination
  by (relation "measure id") auto

declare str_nat.simps [simp del]

text \<open>\<^verbatim>\<open>time.sleep(n)\<close>.\<close>

definition time_sleep :: "nat \<Rightarrow> action" where
  "time_sleep n h = (None, h\<lparr>clock := clock h + n, trace := trace h @ [Slept n]\<rparr>)"

text \<open>\<^verbatim>\<open>self.wfile.write(b)\<close>: the write file of a stream handler is unbuffered
  (\<^verbatim>\<open>wbufsize = 0\<close>), so each call is one \<^verbatim>\<open>sendall\<close> on the socket.\<close>

definition wfile_write :: "string \<Rightarrow> action" where
  "wfile_write b h =
     (if sendable h = 0
      then (Some (send_error_exn h), h\<lparr>trace := trace h @ [SendFailed (send_error_exn h)]\<rparr>)
      else (None, h\<lparr>sendable := sendable h - 1, trace := trace h @ [Sent b]\<rparr>))"

text \<open>
  \<^verbatim>\<open>log_message\<close> writes one line to standard error: the client address, the local
  time, and the message in which \<^verbatim>\<open>_control_char_table\<close> has replaced every control
  character (code points 0 to 31 and 127 to 159) by \<^verbatim>\<open>\x\<close> and its two hexadecimal
  digits, and the backslash by two backslashes.
\<close>

definition hex_digit :: "nat \<Rightarrow> char" where
  "hex_digit d = (if d < 10 then char_of (48 + d) else char_of (87 + d))"

definition control_char_table :: "char \<Rightarrow> string" where
  "control_char_table c =
     (let n = (of_char c :: nat)
      in if n < 32 \<or> (127 \<le> n \<and> n < 160)
         then [CHR 0x5C, CHR ''x'', hex_digit (n div 16), hex_digit (n mod 16)]
         else if c = CHR 0x5C then [CHR 0x5C, CHR 0x5C]
         else [c])"

definition translate :: "string \<Rightarrow> string" where
  "translate s = concat (map control_char_table s)"

text \<open>\<^verbatim>\<open>"%s - - [%s] %s\n" % (self.address_string(), self.log_date_time_string(),
  message.translate(self._control_char_table))\<close>, for a client address and a clock
  value.\<close>

definition log_line :: "env \<Rightarrow> string \<Rightarrow> nat \<Rightarrow> string \<Rightarrow> string" where
  "log_line env host t message =
     host @ '' - - ['' @ log_date_time_string env t @ ''] '' @ translate message @ LF"

definition log_message :: "env \<Rightarrow> string \<Rightarrow> action" where
  "log_message env message h =
     (None, h\<lparr>trace := trace h @ [Logged (log_line env (client_host h) (clock h) message)]\<rparr>)"

text \<open>The entries of \<^verbatim>\<open>BaseHTTPRequestHandler.responses\<close> (built from
  \<^verbatim>\<open>http.HTTPStatus\<close>) for the status codes this program sends.\<close>

definition responses :: "(nat \<times> string \<times> string) list" where
  "responses =
     [(100, ''Continue'', ''Request received, please continue''),
      (200, ''OK'', ''Request fulfilled, document follows''),
      (400, ''Bad Request'', ''Bad request syntax or unsupported method''),
      (414, ''Request-URI Too Long'', ''URI is too long''),
      (431, ''Request Header Fields Too Large'',
            ''The server is unwilling to process the request because its header '' @
            ''fields are too large''),
      (501, ''Not Implemented'', ''Server does not support this operation''),
      (505, ''HTTP Version Not Supported'', ''Cannot fulfill request'')]"

definition protocol_version :: string where
  "protocol_version = ''HTTP/1.0''"

definition server_version :: string where
  "server_version = ''BaseHTTP/0.6''"

definition version_string :: "env \<Rightarrow> string" where
  "version_string env = server_version @ '' '' @ sys_version env"

text \<open>The header lines are collected in \<^verbatim>\<open>self._headers_buffer\<close>, which is created on
  first use; \<^verbatim>\<open>send_response_only\<close> and \<^verbatim>\<open>send_header\<close> add a line to it unless the
  request is an HTTP/0.9 request, and \<^verbatim>\<open>end_headers\<close> adds the empty line and writes the
  buffer to the connection in one piece.\<close>

definition buffer_append :: "string \<Rightarrow> handler \<Rightarrow> handler" where
  "buffer_append line h =
     h\<lparr>headers_buffer := Some ((case headers_buffer h of None \<Rightarrow> [] | Some b \<Rightarrow> b) @ [line])\<rparr>"

definition send_response_only :: "nat \<Rightarrow> string option \<Rightarrow> action" where
  "send_response_only code message h =
     (if request_version h \<noteq> ''HTTP/0.9''
      then
        (let msg = (case message of
                      Some m \<Rightarrow> m
                    | None \<Rightarrow> (case map_of responses code of
                                 Some (short, long) \<Rightarrow> short
                               | None \<Rightarrow> ''''))
         in (None, buffer_append
                     (protocol_version @ '' '' @ str_nat code @ '' '' @ msg @ CRLF) h))
      else (None, h))"

text \<open>\<^verbatim>\<open>str.lower\<close>, used only to compare with words of ASCII letters, for which the
  letters \<^verbatim>\<open>A\<close> to \<^verbatim>\<open>Z\<close> are all that matter.\<close>

definition lower :: "string \<Rightarrow> string" where
  "lower s =
     map (\<lambda>c. if 65 \<le> (of_char c :: nat) \<and> (of_char c :: nat) \<le> 90
              then char_of (of_char c + (32::nat)) else c) s"

definition send_header :: "string \<Rightarrow> string \<Rightarrow> action" where
  "send_header keyword v h =
     (let h1 = (if request_version h \<noteq> ''HTTP/0.9''
                then buffer_append (keyword @ '': '' @ v @ CRLF) h else h)
      in (None,
          if lower keyword = ''connection''
          then (if lower v = ''close'' then h1\<lparr>close_connection := True\<rparr>
                else if lower v = ''keep-alive'' then h1\<lparr>close_connection := False\<rparr>
                else h1)
          else h1))"

definition flush_headers :: action where
  "flush_headers h =
     (case headers_buffer h of
        None \<Rightarrow> (None, h)
      | Some b \<Rightarrow> seq (wfile_write (concat b)) (\<lambda>h'. (None, h'\<lparr>headers_buffer := Some []\<rparr>)) h)"

definition end_headers :: action where
  "end_headers h =
     (if request_version h \<noteq> ''HTTP/0.9''
      then (case headers_buffer h of
              None \<Rightarrow> (Some AttributeError, h)
            | Some b \<Rightarrow> flush_headers (h\<lparr>headers_buffer := Some (b @ [CRLF])\<rparr>))
      else (None, h))"

text \<open>\<^verbatim>\<open>send_response\<close> logs the request, then buffers the status line and the
  header fields \<^verbatim>\<open>Server\<close> and \<^verbatim>\<open>Date\<close>, the date being the time of the call.\<close>

definition log_request :: "env \<Rightarrow> nat \<Rightarrow> action" where
  "log_request env code h =
     log_message env
       ([CHR 0x22] @ requestline h @ [CHR 0x22] @ '' '' @ str_nat code @ '' -'') h"

definition send_response :: "env \<Rightarrow> nat \<Rightarrow> string option \<Rightarrow> action" where
  "send_response env code message =
     block [log_request env code,
            send_response_only code message,
            send_header ''Server'' (version_string env),
            (\<lambda>h. send_header ''Date'' (date_time_string env (clock h)) h)]"

text \<open>\<^verbatim>\<open>html.escape(s, quote=False)\<close> and \<^verbatim>\<open>s.encode('UTF-8')\<close> for a string of
  code points below 256.\<close>

definition html_escape :: "string \<Rightarrow> string" where
  "html_escape s =
     concat (map (\<lambda>c. if c = CHR ''&'' then ''&amp;''
                      else if c = CHR ''<'' then ''&lt;''
                      else if c = CHR ''>'' then ''&gt;''
                      else [c]) s)"

definition utf8_encode :: "string \<Rightarrow> string" where
  "utf8_encode s =
     concat (map (\<lambda>c. if (of_char c :: nat) < 128 then [c]
                      else [char_of (192 + (of_char c :: nat) div 64),
                            char_of (128 + (of_char c :: nat) mod 64)]) s)"

text \<open>\<^verbatim>\<open>DEFAULT_ERROR_MESSAGE % {'code': code, 'message': m, 'explain': e}\<close>.\<close>

definition error_message_format :: "nat \<Rightarrow> string \<Rightarrow> string \<Rightarrow> string" where
  "error_message_format code m e =
     ''<!DOCTYPE HTML>'' @ LF @
     ''<html lang='' @ [CHR 0x22] @ ''en'' @ [CHR 0x22] @ ''>'' @ LF @
     ''    <head>'' @ LF @
     ''        <meta charset='' @ [CHR 0x22] @ ''utf-8'' @ [CHR 0x22] @ ''>'' @ LF @
     ''        <title>Error response</title>'' @ LF @
     ''    </head>'' @ LF @
     ''    <body>'' @ LF @
     ''        <h1>Error response</h1>'' @ LF @
     ''        <p>Error code: '' @ str_nat code @ ''</p>'' @ LF @
     ''        <p>Message: '' @ m @ ''.</p>'' @ LF @
     ''        <p>Error code explanation: '' @ str_nat code @ '' - '' @ e @ ''.</p>'' @ LF @
     ''    </body>'' @ LF @
     ''</html>'' @ LF"

definition error_content_type :: string where
  "error_content_type = ''text/html;charset=utf-8''"

text \<open>\<^verbatim>\<open>send_error(code, message, explain)\<close>: the error is logged, the header block
  is sent with \<^verbatim>\<open>Connection: close\<close>, and a page of HTML that explains the error
  follows unless the status forbids a body or the request was a \<^verbatim>\<open>HEAD\<close>.\<close>

definition log_error :: "env \<Rightarrow> string \<Rightarrow> action" where
  "log_error env msg = log_message env msg"

definition send_error :: "env \<Rightarrow> nat \<Rightarrow> string option \<Rightarrow> string option \<Rightarrow> action" where
  "send_error env code message explain =
     (let (shortmsg, longmsg) =
            (case map_of responses code of Some p \<Rightarrow> p | None \<Rightarrow> (''???'', ''???''));
          msg = (case message of None \<Rightarrow> shortmsg | Some m \<Rightarrow> m);
          expl = (case explain of None \<Rightarrow> longmsg | Some x \<Rightarrow> x);
          body = (if 200 \<le> code \<and> code \<notin> {204, 205, 304}
                  then Some (utf8_encode
                         (error_message_format code (html_escape msg) (html_escape expl)))
                  else None)
      in block
           ([log_error env (''code '' @ str_nat code @ '', message '' @ msg),
             send_response env code (Some msg),
             send_header ''Connection'' ''close''] @
            (case body of
               None \<Rightarrow> []
             | Some b \<Rightarrow> [send_header ''Content-Type'' error_content_type,
                          send_header ''Content-Length'' (str_nat (length b))]) @
            [end_headers,
             (\<lambda>h. case body of
                    None \<Rightarrow> (None, h)
                  | Some b \<Rightarrow> if command h \<noteq> Some ''HEAD'' \<and> b \<noteq> [] then wfile_write b h
                             else (None, h))]))"

subsection \<open>The program's handler\<close>

text \<open>
  \<^verbatim>\<open>
  class SlowHandler(BaseHTTPRequestHandler):
      def do_GET(self):
          time.sleep(5)  # simulate slow processing
          self.send_response(200)
          self.send_header("Content-type", "text/plain")
          self.end_headers()
          self.wfile.write(b"Response from SLOW SERVER (5s delay)")
  \<close>
\<close>

definition do_GET :: "env \<Rightarrow> action" where
  "do_GET env =
     block [time_sleep 5,
            send_response env 200 None,
            send_header ''Content-type'' ''text/plain'',
            end_headers,
            wfile_write ''Response from SLOW SERVER (5s delay)'']"

text \<open>The methods \<^verbatim>\<open>hasattr(self, 'do_' + self.command)\<close> can find: the class defines
  \<^verbatim>\<open>do_GET\<close>, and none of its base classes has an attribute whose name starts with
  \<^verbatim>\<open>do_\<close>.\<close>

definition SlowHandler_methods :: "env \<Rightarrow> (string \<times> action) list" where
  "SlowHandler_methods env = [(''do_GET'', do_GET env)]"

subsection \<open>Reading and splitting the request\<close>

text \<open>\<^verbatim>\<open>rfile.readline(limit)\<close>: the bytes up to and including the first line feed, or
  the first \<open>limit\<close> bytes if the line is longer, and what is left of the input.\<close>

fun first_line :: "string \<Rightarrow> string" where
  "first_line [] = []"
| "first_line (c # cs) = (if c = CHR 0x0A then [c] else c # first_line cs)"

definition readline :: "nat \<Rightarrow> string \<Rightarrow> string \<times> string" where
  "readline limit inp =
     (let line = first_line inp
      in if length line \<le> limit then (line, drop (length line) inp)
         else (take limit inp, drop limit inp))"

text \<open>\<^verbatim>\<open>s.rstrip('\r\n')\<close>.\<close>

definition rstrip_crlf :: "string \<Rightarrow> string" where
  "rstrip_crlf s = rev (dropWhile (\<lambda>c. c = CHR 0x0D \<or> c = CHR 0x0A) (rev s))"

text \<open>\<^verbatim>\<open>s.split()\<close>: the words between runs of white space. Of the code points below
  256, \<^verbatim>\<open>str.isspace\<close> holds for 9 to 13, 28 to 32, 133 and 160.\<close>

definition isspace :: "char \<Rightarrow> bool" where
  "isspace c =
     (let n = (of_char c :: nat)
      in (9 \<le> n \<and> n \<le> 13) \<or> (28 \<le> n \<and> n \<le> 32) \<or> n = 133 \<or> n = 160)"

fun split_from :: "string \<Rightarrow> string \<Rightarrow> string list" where
  "split_from w [] = (if w = [] then [] else [w])"
| "split_from w (c # cs) =
     (if isspace c then (if w = [] then split_from [] cs else w # split_from [] cs)
      else split_from (w @ [c]) cs)"

definition split_words :: "string \<Rightarrow> string list" where
  "split_words s = split_from [] s"

text \<open>\<^verbatim>\<open>s.split(".")\<close>: the pieces between the dots, empty ones included.\<close>

fun split_dot :: "string \<Rightarrow> string list" where
  "split_dot [] = [[]]"
| "split_dot (c # cs) =
     (if c = CHR ''.'' then [] # split_dot cs
      else (case split_dot cs of w # ws \<Rightarrow> (c # w) # ws | [] \<Rightarrow> [[c]]))"

text \<open>\<^verbatim>\<open>str.isdigit\<close> holds, below 256, for the ten digits and for the superscripts
  one, two and three (185, 178, 179); \<^verbatim>\<open>int\<close> takes only the ten digits and raises
  \<^verbatim>\<open>ValueError\<close> on the rest.\<close>

definition isdigit :: "string \<Rightarrow> bool" where
  "isdigit s =
     (s \<noteq> [] \<and>
      list_all (\<lambda>c. (48 \<le> (of_char c :: nat) \<and> (of_char c :: nat) \<le> 57) \<or>
                    of_char c \<in> {178, 179, 185 :: nat}) s)"

definition int_of :: "string \<Rightarrow> nat option" where
  "int_of s =
     (if list_all (\<lambda>c. 48 \<le> (of_char c :: nat) \<and> (of_char c :: nat) \<le> 57) s
      then Some (foldl (\<lambda>n c. 10 * n + ((of_char c :: nat) - 48)) 0 s)
      else None)"

text \<open>
  The \<^verbatim>\<open>try\<close> block of \<^verbatim>\<open>parse_request\<close> that reads the version token: \<open>None\<close> where
  it raises \<^verbatim>\<open>ValueError\<close>.
  \<^verbatim>\<open>
  if not version.startswith('HTTP/'):
      raise ValueError
  base_version_number = version.split('/', 1)[1]
  version_number = base_version_number.split(".")
  if len(version_number) != 2:
      raise ValueError
  if any(not component.isdigit() for component in version_number):
      raise ValueError("non digit in http version")
  if any(len(component) > 10 for component in version_number):
      raise ValueError("unreasonable length http version")
  version_number = int(version_number[0]), int(version_number[1])
  \<close>
\<close>

definition base_version_number :: "string \<Rightarrow> string" where
  "base_version_number version = drop 5 version"

definition version_number :: "string \<Rightarrow> (nat \<times> nat) option" where
  "version_number version =
     (if take 5 version \<noteq> ''HTTP/'' then None
      else (case split_dot (base_version_number version) of
              [a, b] \<Rightarrow>
                if isdigit a \<and> isdigit b \<and> length a \<le> 10 \<and> length b \<le> 10
                then (case (int_of a, int_of b) of
                        (Some m, Some n) \<Rightarrow> Some (m, n)
                      | _ \<Rightarrow> None)
                else None
            | _ \<Rightarrow> None))"

text \<open>Python's order on pairs and on strings, as the comparisons
  \<^verbatim>\<open>version_number >= (1, 1)\<close> and \<^verbatim>\<open>self.protocol_version >= "HTTP/1.1"\<close> use it.\<close>

definition pair_ge :: "nat \<times> nat \<Rightarrow> nat \<times> nat \<Rightarrow> bool" where
  "pair_ge p q = (fst q < fst p \<or> (fst p = fst q \<and> snd q \<le> snd p))"

fun str_ge :: "string \<Rightarrow> string \<Rightarrow> bool" where
  "str_ge s [] = True"
| "str_ge [] (y # ys) = False"
| "str_ge (x # xs) (y # ys) =
     (if (of_char y :: nat) < of_char x then True
      else if (of_char x :: nat) = of_char y then str_ge xs ys
      else False)"

text \<open>
  \<^verbatim>\<open>http.client._read_headers\<close>, which \<^verbatim>\<open>parse_headers\<close> calls: it reads lines until
  an empty one or the end of the input, and raises \<^verbatim>\<open>LineTooLong\<close> on a line of more
  than 65536 bytes and \<^verbatim>\<open>HTTPException\<close> when it has read more than 100 lines. The first
  argument is the number of lines that may still be read.
\<close>

datatype header_error = LineTooLong | TooManyHeaders

fun read_headers :: "nat \<Rightarrow> string \<Rightarrow> (header_error + string list) \<times> string" where
  "read_headers 0 inp =
     (case readline 65537 inp of (line, rest) \<Rightarrow>
        if 65536 < length line then (Inl LineTooLong, rest)
        else (Inl TooManyHeaders, rest))"
| "read_headers (Suc n) inp =
     (case readline 65537 inp of (line, rest) \<Rightarrow>
        if 65536 < length line then (Inl LineTooLong, rest)
        else if line = CRLF \<or> line = LF \<or> line = [] then (Inr [line], rest)
        else (case read_headers n rest of
                (Inr lines, rest') \<Rightarrow> (Inr (line # lines), rest')
              | (Inl err, rest') \<Rightarrow> (Inl err, rest')))"

text \<open>\<^verbatim>\<open>str(err)\<close> for the two exceptions.\<close>

fun header_error_str :: "header_error \<Rightarrow> string" where
  "header_error_str LineTooLong = ''got more than 65536 bytes when reading header line''"
| "header_error_str TooManyHeaders = ''got more than 100 headers''"

subsection \<open>The base class's request loop\<close>

text \<open>
  \<^verbatim>\<open>parse_request\<close> returns whether the request may be dispatched; when it may not,
  it has already sent the error reply. The result here is that flag together with the
  outcome of the statements it ran. The method is translated block by block; each block
  either ends the method (left) or hands the handler on (right).
\<close>

type_synonym parse_result = "bool \<times> exn option \<times> handler"

definition default_request_version :: string where
  "default_request_version = ''HTTP/0.9''"

text \<open>\<^verbatim>\<open>self.send_error(...); return False\<close>.\<close>

definition refuse :: "env \<Rightarrow> nat \<Rightarrow> string \<Rightarrow> string option \<Rightarrow> handler \<Rightarrow> parse_result" where
  "refuse env code message explain h = (False, send_error env code (Some message) explain h)"

text \<open>
  \<^verbatim>\<open>
  if len(words) >= 3:  # Enough to determine protocol version
      version = words[-1]
      try:
          ...
      except (ValueError, IndexError):
          self.send_error(HTTPStatus.BAD_REQUEST, "Bad request version (%r)" % version)
          return False
      if version_number >= (1, 1) and self.protocol_version >= "HTTP/1.1":
          self.close_connection = False
      if version_number >= (2, 0):
          self.send_error(HTTPStatus.HTTP_VERSION_NOT_SUPPORTED,
                          "Invalid HTTP version (%s)" % base_version_number)
          return False
      self.request_version = version
  \<close>
\<close>

definition parse_version :: "env \<Rightarrow> string list \<Rightarrow> handler \<Rightarrow> parse_result + handler" where
  "parse_version env words h =
     (if 3 \<le> length words
      then
        (let version = last words
         in case version_number version of
              None \<Rightarrow>
                Inl (refuse env 400
                       (''Bad request version ('' @ py_repr env version @ '')'') None h)
            | Some vn \<Rightarrow>
                (let h1 = (if pair_ge vn (1, 1) \<and> str_ge protocol_version ''HTTP/1.1''
                           then h\<lparr>close_connection := False\<rparr> else h)
                 in if pair_ge vn (2, 0)
                    then Inl (refuse env 505
                                (''Invalid HTTP version ('' @ base_version_number version @ '')'')
                                None h1)
                    else Inr (h1\<lparr>request_version := version\<rparr>)))
      else Inr h)"

text \<open>
  \<^verbatim>\<open>
  if not 2 <= len(words) <= 3:
      self.send_error(HTTPStatus.BAD_REQUEST, "Bad request syntax (%r)" % requestline)
      return False
  command, path = words[:2]
  if len(words) == 2:
      self.close_connection = True
      if command != 'GET':
          self.send_error(HTTPStatus.BAD_REQUEST,
                          "Bad HTTP/0.9 request type (%r)" % command)
          return False
  self.command, self.path = command, path
  if self.path.startswith('//'):
      self.path = '/' + self.path.lstrip('/')  # Reduce to a single /
  \<close>
\<close>

definition parse_command :: "env \<Rightarrow> string list \<Rightarrow> handler \<Rightarrow> parse_result + handler" where
  "parse_command env words h =
     (if 2 \<le> length words \<and> length words \<le> 3
      then
        (let cmd = words ! 0; pth = words ! 1;
             h1 = (if length words = 2 then h\<lparr>close_connection := True\<rparr> else h)
         in if length words = 2 \<and> cmd \<noteq> ''GET''
            then Inl (refuse env 400
                        (''Bad HTTP/0.9 request type ('' @ py_repr env cmd @ '')'') None h1)
            else Inr (h1\<lparr>command := Some cmd,
                         path := (if take 2 pth = ''//''
                                  then CHR ''/'' # dropWhile (\<lambda>c. c = CHR ''/'') pth
                                  else pth)\<rparr>))
      else Inl (refuse env 400
                  (''Bad request syntax ('' @ py_repr env (requestline h) @ '')'') None h))"

text \<open>\<^verbatim>\<open>handle_expect_100\<close>: it sends the interim reply and returns \<^verbatim>\<open>True\<close>.\<close>

definition handle_expect_100 :: action where
  "handle_expect_100 = seq (send_response_only 100 None) end_headers"

text \<open>
  \<^verbatim>\<open>
  try:
      self.headers = http.client.parse_headers(self.rfile, _class=self.MessageClass)
  except http.client.LineTooLong as err:
      self.send_error(HTTPStatus.REQUEST_HEADER_FIELDS_TOO_LARGE, "Line too long", str(err))
      return False
  except http.client.HTTPException as err:
      self.send_error(HTTPStatus.REQUEST_HEADER_FIELDS_TOO_LARGE, "Too many headers", str(err))
      return False
  conntype = self.headers.get('Connection', "")
  if conntype.lower() == 'close':
      self.close_connection = True
  elif (conntype.lower() == 'keep-alive' and self.protocol_version >= "HTTP/1.1"):
      self.close_connection = False
  expect = self.headers.get('Expect', "")
  if (expect.lower() == "100-continue" and self.protocol_version >= "HTTP/1.1" and
          self.request_version >= "HTTP/1.1"):
      if not self.handle_expect_100():
          return False
  return True
  \<close>
\<close>

definition parse_headers :: "env \<Rightarrow> handler \<Rightarrow> parse_result" where
  "parse_headers env h =
     (case read_headers 100 (rfile h) of
        (Inl err, rest) \<Rightarrow>
          refuse env 431
            (case err of LineTooLong \<Rightarrow> ''Line too long'' | TooManyHeaders \<Rightarrow> ''Too many headers'')
            (Some (header_error_str err)) (h\<lparr>rfile := rest\<rparr>)
      | (Inr lines, rest) \<Rightarrow>
          (let h1 = h\<lparr>rfile := rest, headers := concat lines\<rparr>;
               conntype = header_get env ''Connection'' (headers h1);
               h2 = (if lower conntype = ''close'' then h1\<lparr>close_connection := True\<rparr>
                     else if lower conntype = ''keep-alive'' \<and>
                             str_ge protocol_version ''HTTP/1.1''
                     then h1\<lparr>close_connection := False\<rparr>
                     else h1);
               expect = header_get env ''Expect'' (headers h2)
           in if lower expect = ''100-continue'' \<and> str_ge protocol_version ''HTTP/1.1'' \<and>
                 str_ge (request_version h2) ''HTTP/1.1''
              then (True, handle_expect_100 h2)
              else (True, None, h2)))"

text \<open>
  \<^verbatim>\<open>
  self.command = None  # set in case of error on the first line
  self.request_version = version = self.default_request_version
  self.close_connection = True
  requestline = str(self.raw_requestline, 'iso-8859-1')
  requestline = requestline.rstrip('\r\n')
  self.requestline = requestline
  words = requestline.split()
  if len(words) == 0:
      return False
  \<close>
  and then the three blocks above.
\<close>

definition parse_request :: "env \<Rightarrow> handler \<Rightarrow> parse_result" where
  "parse_request env h =
     (let h1 = h\<lparr>command := None, request_version := default_request_version,
                 close_connection := True,
                 requestline := rstrip_crlf (raw_requestline h)\<rparr>;
          words = split_words (requestline h1)
      in if length words = 0 then (False, None, h1)
         else (case parse_version env words h1 of
                 Inl r \<Rightarrow> r
               | Inr h2 \<Rightarrow>
                   (case parse_command env words h2 of
                      Inl r \<Rightarrow> r
                    | Inr h3 \<Rightarrow> parse_headers env h3)))"

text \<open>A \<^verbatim>\<open>TimeoutError\<close> raised anywhere in \<^verbatim>\<open>handle_one_request\<close> is caught and
  logged.\<close>

definition except_TimeoutError :: "env \<Rightarrow> exn option \<times> handler \<Rightarrow> exn option \<times> handler" where
  "except_TimeoutError env res =
     (case res of
        (Some e, h') \<Rightarrow>
          (if e = TimeoutError
           then (None, (snd (log_error env (''Request timed out: '' @ exn_repr env e) h'))
                         \<lparr>close_connection := True\<rparr>)
           else (Some e, h'))
      | (None, h') \<Rightarrow> (None, h'))"

text \<open>
  \<^verbatim>\<open>
  def handle_one_request(self):
      try:
          self.raw_requestline = self.rfile.readline(65537)
          if len(self.raw_requestline) > 65536:
              self.requestline = ''
              self.request_version = ''
              self.command = ''
              self.send_error(HTTPStatus.REQUEST_URI_TOO_LONG)
              return
          if not self.raw_requestline:
              self.close_connection = True
              return
          if not self.parse_request():
              # An error code has been sent, just exit
              return
          mname = 'do_' + self.command
          if not hasattr(self, mname):
              self.send_error(HTTPStatus.NOT_IMPLEMENTED,
                              "Unsupported method (%r)" % self.command)
              return
          method = getattr(self, mname)
          method()
          self.wfile.flush() #actually send the response if not already done.
      except TimeoutError as e:
          self.log_error("Request timed out: %r", e)
          self.close_connection = True
          return
  \<close>
  The write file is unbuffered, so \<^verbatim>\<open>flush\<close> does nothing. An exception raised inside
  \<^verbatim>\<open>parse_request\<close> leaves the method at once.
\<close>

definition handle_one_request :: "env \<Rightarrow> action" where
  "handle_one_request env h =
     except_TimeoutError env
       (case readline 65537 (rfile h) of (line, rest) \<Rightarrow>
          (let h1 = h\<lparr>raw_requestline := line, rfile := rest\<rparr>
           in if 65536 < length line
              then send_error env 414 None None
                     (h1\<lparr>requestline := [], request_version := [], command := Some []\<rparr>)
              else if line = [] then (None, h1\<lparr>close_connection := True\<rparr>)
              else (case parse_request env h1 of (ok, res) \<Rightarrow>
                      if ok \<and> fst res = None
                      then (case command (snd res) of
                              None \<Rightarrow> (Some TypeError, snd res)
                            | Some cmd \<Rightarrow>
                                (case map_of (SlowHandler_methods env) (''do_'' @ cmd) of
                                   None \<Rightarrow>
                                     send_error env 501
                                       (Some (''Unsupported method ('' @ py_repr env cmd @ '')''))
                                       None (snd res)
                                 | Some method \<Rightarrow> method (snd res)))
                      else res)))"

text \<open>
  \<^verbatim>\<open>
  def handle(self):
      self.close_connection = True
      self.handle_one_request()
      while not self.close_connection:
          self.handle_one_request()
  \<close>
\<close>

function handle_loop :: "env \<Rightarrow> action" where
  "handle_loop env h =
     (let res = handle_one_request env h
      in if fst res = None \<and> \<not> close_connection (snd res) then handle_loop env (snd res)
         else res)"
  by pat_completeness auto

definition handle :: "env \<Rightarrow> action" where
  "handle env h = handle_loop env (h\<lparr>close_connection := True\<rparr>)"

subsection \<open>The server\<close>

text \<open>
  \<^verbatim>\<open>HTTPServer\<close> is \<^verbatim>\<open>socketserver.TCPServer\<close> with no mix-in: one thread, which
  accepts a connection, builds the handler, runs it to its end, closes the connection,
  and only then looks at the listening socket again. The server keeps, for every
  connection it has closed, when it accepted it, what happened on it, and when it
  closed it.
\<close>

record conn_log =
  peer :: string
  accepted_at :: nat
  events :: "event list"
  closed_at :: nat

record server =
  server_address :: "string \<times> nat"
  shutdown_flag :: bool        \<comment> \<open>\<^verbatim>\<open>BaseServer.__shutdown_request\<close>\<close>
  now :: nat
  served :: "conn_log list"

text \<open>The handler object for an accepted connection (\<^verbatim>\<open>BaseRequestHandler.__init__\<close>
  up to and including \<^verbatim>\<open>setup()\<close>).\<close>

definition handler_setup :: "connection \<Rightarrow> nat \<Rightarrow> handler" where
  "handler_setup c t =
     \<lparr>client_host = client_address c, rfile = input c, raw_requestline = [],
      requestline = [], command = None, path = [], request_version = [], headers = [],
      close_connection = True, headers_buffer = None,
      sendable = accepts c, send_error_exn = write_error c,
      clock = t, trace = []\<rparr>"

text \<open>\<^verbatim>\<open>shutdown_request(request)\<close>: the connection is shut down and closed.\<close>

definition shutdown_request :: "connection \<Rightarrow> event list \<Rightarrow> nat \<Rightarrow> server \<Rightarrow> server" where
  "shutdown_request c evs t s =
     s\<lparr>now := t,
       served := served s @
         [\<lparr>peer = client_address c, accepted_at = now s, events = evs, closed_at = t\<rparr>]\<rparr>"

text \<open>
  \<^verbatim>\<open>
  def _handle_request_noblock(self):
      request, client_address = self.get_request()
      if self.verify_request(request, client_address):
          try:
              self.process_request(request, client_address)
          except Exception:
              self.handle_error(request, client_address)
              self.shutdown_request(request)
          except:
              self.shutdown_request(request)
              raise
  \<close>
  \<^verbatim>\<open>process_request\<close> is \<^verbatim>\<open>finish_request\<close> (the handler's constructor, which runs
  \<^verbatim>\<open>setup()\<close>, \<^verbatim>\<open>handle()\<close> and, whatever happens, \<^verbatim>\<open>finish()\<close>, which closes the
  handler's files and writes nothing) followed by \<^verbatim>\<open>shutdown_request\<close>;
  \<^verbatim>\<open>handle_error\<close> prints a traceback. The connection is one that \<^verbatim>\<open>accept\<close> has
  returned.
\<close>

definition finish_request :: "env \<Rightarrow> connection \<Rightarrow> nat \<Rightarrow> exn option \<times> handler" where
  "finish_request env c t = handle env (handler_setup c t)"

definition handle_request_noblock :: "env \<Rightarrow> connection \<Rightarrow> server \<Rightarrow> exn option \<times> server" where
  "handle_request_noblock env c s =
     (case finish_request env c (now s) of
        (None, h) \<Rightarrow> (None, shutdown_request c (trace h) (clock h) s)
      | (Some e, h) \<Rightarrow>
          if is_Exception e
          then (None, shutdown_request c (trace h @ [Traceback e]) (clock h) s)
          else (Some e, shutdown_request c (trace h) (clock h) s))"

text \<open>
  What reaches the process while it serves: a connection to accept; the interrupt
  signal, which Python raises as \<^verbatim>\<open>KeyboardInterrupt\<close> in the main thread; or the
  termination signal, for which the program installs no handler, so that the operating
  system ends the process. Signals are taken to arrive while the server waits for a
  connection. The loop of \<^verbatim>\<open>serve_forever\<close> runs
  \<^verbatim>\<open>while not self.__shutdown_request\<close>; when the list is used up the server is still in
  the loop, waiting in \<^verbatim>\<open>select\<close>.
\<close>

datatype stimulus = Incoming connection | Sigint | Sigterm

datatype run =
    Returned server          \<comment> \<open>\<^verbatim>\<open>serve_forever\<close> returned\<close>
  | Raised exn "server option"  \<comment> \<open>an exception left the program\<close>
  | Signalled nat server     \<comment> \<open>a signal with no handler ended the process\<close>
  | Waiting server           \<comment> \<open>still in the loop\<close>

fun serve_forever :: "env \<Rightarrow> stimulus list \<Rightarrow> server \<Rightarrow> run" where
  "serve_forever env [] s = (if shutdown_flag s then Returned s else Waiting s)"
| "serve_forever env (x # xs) s =
     (if shutdown_flag s then Returned s
      else (case x of
              Sigint \<Rightarrow> Raised KeyboardInterrupt (Some s)
            | Sigterm \<Rightarrow> Signalled 15 s
            | Incoming c \<Rightarrow>
                (case handle_request_noblock env c s of
                   (None, s') \<Rightarrow> serve_forever env xs s'
                 | (Some e, s') \<Rightarrow> Raised e (Some s'))))"

text \<open>The constructor \<^verbatim>\<open>HTTPServer(server_address, SlowHandler)\<close>: it binds and
  listens; \<open>bind_error\<close> is what \<^verbatim>\<open>socket.bind\<close> raises, if anything.\<close>

definition HTTPServer :: "exn option \<Rightarrow> string \<times> nat \<Rightarrow> exn + server" where
  "HTTPServer bind_error addr =
     (case bind_error of
        Some e \<Rightarrow> Inl e
      | None \<Rightarrow> Inr \<lparr>server_address = addr, shutdown_flag = False, now = 0, served = []\<rparr>)"

text \<open>
  The program's last line, with what the operating system hands the process: the
  command line, the outcome of \<^verbatim>\<open>bind\<close>, and what arrives afterwards.
  \<^verbatim>\<open>
  HTTPServer(("0.0.0.0", 80), SlowHandler).serve_forever()
  \<close>
\<close>

definition main :: "env \<Rightarrow> string list \<Rightarrow> exn option \<Rightarrow> stimulus list \<Rightarrow> run" where
  "main env argv bind_error stimuli =
     (case HTTPServer bind_error (''0.0.0.0'', 80) of
        Inl e \<Rightarrow> Raised e None
      | Inr s \<Rightarrow> serve_forever env stimuli s)"

text \<open>
  How the process ends: with status 0 when the script runs to its end, with status 1
  and a traceback on an uncaught exception, killed by the interrupt signal (number 2) on
  an uncaught \<^verbatim>\<open>KeyboardInterrupt\<close>, killed by the signal itself when it has no handler.
\<close>

datatype status = Exited nat | Killed nat | Running

fun exit_status :: "run \<Rightarrow> status" where
  "exit_status (Returned s) = Exited 0"
| "exit_status (Raised e s) = (if e = KeyboardInterrupt then Killed 2 else Exited 1)"
| "exit_status (Signalled n s) = Killed n"
| "exit_status (Waiting s) = Running"

fun final_server :: "run \<Rightarrow> server option" where
  "final_server (Returned s) = Some s"
| "final_server (Raised e s) = s"
| "final_server (Signalled n s) = Some s"
| "final_server (Waiting s) = Some s"

subsection \<open>What a client and an observer see\<close>

text \<open>The bytes that reached the peer, in order.\<close>

fun wire :: "event list \<Rightarrow> string" where
  "wire [] = []"
| "wire (Sent b # es) = b @ wire es"
| "wire (e # es) = wire es"

text \<open>The total time slept.\<close>

fun slept :: "event list \<Rightarrow> nat" where
  "slept [] = 0"
| "slept (Slept n # es) = n + slept es"
| "slept (e # es) = slept es"

text \<open>The clock value at each attempt to write (bytes sent, or a send that failed),
  for a trace that starts at clock value \<open>t\<close>.\<close>

fun write_times :: "nat \<Rightarrow> event list \<Rightarrow> nat list" where
  "write_times t [] = []"
| "write_times t (Slept n # es) = write_times (t + n) es"
| "write_times t (Sent b # es) = t # write_times t es"
| "write_times t (SendFailed e # es) = t # write_times t es"
| "write_times t (e # es) = write_times t es"



text \<open>The reply as the specification prints it, line ends as HTTP has them.\<close>

definition spec_response :: string where
  "spec_response =
     ''HTTP/1.1 200 OK'' @ CRLF @
     ''Content-type: text/plain'' @ CRLF @
     CRLF @
     ''Response from SLOW SERVER (5s delay)''"

text \<open>The completion times of the connections served so far, in the order served.\<close>

definition completion_times :: "run \<Rightarrow> nat list" where
  "completion_times r =
     (case final_server r of None \<Rightarrow> [] | Some s \<Rightarrow> map closed_at (served s))"

text \<open>A list without its \<open>i\<close>-th element.\<close>

definition others :: "nat \<Rightarrow> 'a list \<Rightarrow> 'a list" where
  "others i xs = take i xs @ drop (Suc i) xs"

text \<open>The record of the connections served in a run.\<close>

definition served_of :: "run \<Rightarrow> conn_log list" where
  "served_of r = (case final_server r of None \<Rightarrow> [] | Some s \<Rightarrow> served s)"

text \<open>What happens on the connection and to the clock: the trace without the lines
  written to standard error.\<close>

fun on_connection :: "event list \<Rightarrow> event list" where
  "on_connection [] = []"
| "on_connection (Logged l # es) = on_connection es"
| "on_connection (Traceback e # es) = on_connection es"
| "on_connection (e # es) = e # on_connection es"

text \<open>
  Whether the base class hands the request at the head of an input to a method, and
  then with which command and which request version: the conditions under which
  \<^verbatim>\<open>parse_request\<close> returns \<^verbatim>\<open>True\<close> and \<^verbatim>\<open>handle_one_request\<close> reaches
  \<^verbatim>\<open>mname = 'do_' + self.command\<close>, read off the tests of the two methods. For
  \<^verbatim>\<open>parse_request\<close>, given the request line and the input after it: the line has three
  words, the third a version token below 2.0, or it has two words, the first of them
  \<^verbatim>\<open>GET\<close>; and the header lines are read without error. For \<^verbatim>\<open>handle_one_request\<close>:
  the request line is not longer than 65536 bytes and not empty, and \<^verbatim>\<open>parse_request\<close>
  accepts it. That these are the conditions, no more and no less, is proved of the two
  methods below (\<open>parse_request_accepts\<close>, \<open>parse_request_rejects\<close>,
  \<open>handle_one_request_dispatch\<close>, \<open>handle_one_request_refused\<close>).
\<close>

definition parsed_as :: "string \<Rightarrow> string \<Rightarrow> (string \<times> string) option" where
  "parsed_as line rest =
     (let words = split_words (rstrip_crlf line)
      in if length words = 3
         then (case version_number (last words) of
                 None \<Rightarrow> None
               | Some vn \<Rightarrow>
                   if pair_ge vn (2, 0) then None
                   else (case fst (read_headers 100 rest) of
                           Inl err \<Rightarrow> None
                         | Inr lines \<Rightarrow> Some (words ! 0, last words)))
         else if length words = 2 \<and> words ! 0 = ''GET''
         then (case fst (read_headers 100 rest) of
                 Inl err \<Rightarrow> None
               | Inr lines \<Rightarrow> Some (''GET'', default_request_version))
         else None)"

definition dispatch_of :: "string \<Rightarrow> (string \<times> string) option" where
  "dispatch_of inp =
     (case readline 65537 inp of (line, rest) \<Rightarrow>
        if line = [] \<or> 65536 < length line then None else parsed_as line rest)"

text \<open>Whether the request at the head of an input reaches \<^verbatim>\<open>do_GET\<close>.\<close>

definition calls_do_GET :: "string \<Rightarrow> bool" where
  "calls_do_GET inp = (map_option fst (dispatch_of inp) = Some ''GET'')"

subsection \<open>Concrete inputs\<close>

text \<open>An interpreter and a clock for the examples: the date at clock value \<open>t\<close> is
  printed as \<open>t\<close> seconds past a fixed instant, and \<^verbatim>\<open>repr\<close> puts a string between
  single quotes, as Python does for a string of letters.\<close>

definition example_env :: env where
  "example_env =
     \<lparr>sys_version = ''Python/3.11.10'',
      date_time_string = (\<lambda>t. ''Wed, 04 Nov 2026 10:00:'' @ (if t < 10 then ''0'' else []) @ str_nat t @ '' GMT''),
      log_date_time_string = (\<lambda>t. ''04/Nov/2026 10:00:'' @ (if t < 10 then ''0'' else []) @ str_nat t),
      py_repr = (\<lambda>s. [CHR 0x27] @ s @ [CHR 0x27]),
      exn_repr = (\<lambda>e. ''OSError()''),
      header_get = (\<lambda>name block. [])\<rparr>"

text \<open>The bytes of a request with one header field, and of a request without version
  token (an HTTP/0.9 request).\<close>

definition example_request :: "string \<Rightarrow> string \<Rightarrow> string \<Rightarrow> string" where
  "example_request m p v =
     m @ '' '' @ p @ '' '' @ v @ CRLF @ ''Host: backend'' @ CRLF @ CRLF"

definition simple_request :: "string \<Rightarrow> string \<Rightarrow> string" where
  "simple_request m p = m @ '' '' @ p @ CRLF"

definition connection_of :: "string \<Rightarrow> nat \<Rightarrow> connection" where
  "connection_of inp k =
     \<lparr>client_address = ''10.0.0.7'', input = inp, accepts = k, write_error = BrokenPipeError\<rparr>"

definition example_connection :: "string \<Rightarrow> string \<Rightarrow> nat \<Rightarrow> connection" where
  "example_connection m p k = connection_of (example_request m p ''HTTP/1.1'') k"

subsection \<open>Frame conditions\<close>

text \<open>
  What every statement of the handler except \<^verbatim>\<open>time.sleep\<close> leaves alone: it does not
  move the clock, it does not change the error the socket raises nor give it back
  capacity, it does not reopen a connection marked for closing, it only appends events
  none of which is a sleep (and none of which carries bytes if the peer was already
  gone), and it raises nothing but the socket's error or \<^verbatim>\<open>AttributeError\<close>.
\<close>

definition quiet_step :: "exn option \<times> handler \<Rightarrow> handler \<Rightarrow> bool" where
  "quiet_step res h =
     (clock (snd res) = clock h \<and>
      send_error_exn (snd res) = send_error_exn h \<and>
      sendable (snd res) \<le> sendable h \<and>
      (close_connection h \<longrightarrow> close_connection (snd res)) \<and>
      (\<exists>es. trace (snd res) = trace h @ es \<and> slept es = 0 \<and>
            (sendable h = 0 \<longrightarrow> wire es = [])) \<and>
      (\<forall>e. fst res = Some e \<longrightarrow> e = send_error_exn h \<or> e = AttributeError))"

definition quiet :: "action \<Rightarrow> bool" where
  "quiet f = (\<forall>h. quiet_step (f h) h)"

section \<open>Lemmas about the embedding\<close>

subsection \<open>Traces\<close>

lemma slept_append: "slept (xs @ ys) = slept xs + slept ys"
  by (induction xs rule: slept.induct) auto

lemma write_times_quiet: "slept es = 0 \<Longrightarrow> w \<in> set (write_times t es) \<Longrightarrow> w = t"
  by (induction t es rule: write_times.induct) auto

lemma wire_append: "wire (xs @ ys) = wire xs @ wire ys"
  by (induction xs rule: wire.induct) auto

subsection \<open>Frame conditions compose\<close>

lemma quiet_stepD_trace:
  "quiet_step res h \<Longrightarrow>
   \<exists>es. trace (snd res) = trace h @ es \<and> slept es = 0 \<and> (sendable h = 0 \<longrightarrow> wire es = [])"
  by (simp add: quiet_step_def)

lemma quiet_step_refl: "quiet_step (None, h) h"
  by (simp add: quiet_step_def)

lemma quiet_step_trans:
  assumes a: "quiet_step (None, h1) h" and b: "quiet_step (r, h2) h1"
  shows "quiet_step (r, h2) h"
proof -
  from a obtain es1 where es1: "trace h1 = trace h @ es1" "slept es1 = 0"
      "sendable h = 0 \<longrightarrow> wire es1 = []"
    unfolding quiet_step_def by auto
  from b obtain es2 where es2: "trace h2 = trace h1 @ es2" "slept es2 = 0"
      "sendable h1 = 0 \<longrightarrow> wire es2 = []"
    unfolding quiet_step_def by auto
  from a have a': "clock h1 = clock h" "send_error_exn h1 = send_error_exn h"
    "sendable h1 \<le> sendable h" "close_connection h \<longrightarrow> close_connection h1"
    unfolding quiet_step_def by simp_all
  from b have b': "clock h2 = clock h1" "send_error_exn h2 = send_error_exn h1"
    "sendable h2 \<le> sendable h1" "close_connection h1 \<longrightarrow> close_connection h2"
    "\<forall>e. r = Some e \<longrightarrow> e = send_error_exn h1 \<or> e = AttributeError"
    unfolding quiet_step_def by simp_all
  have tr0: "trace h2 = trace h @ (es1 @ es2)" using es1(1) es2(1) by simp
  have sl: "slept (es1 @ es2) = 0" using es1(2) es2(2) by (simp add: slept_append)
  have wr: "sendable h = 0 \<longrightarrow> wire (es1 @ es2) = []"
  proof
    assume z: "sendable h = 0"
    then have "sendable h1 = 0" using a'(3) by simp
    then show "wire (es1 @ es2) = []" using es1(3) es2(3) z by (simp add: wire_append)
  qed
  have tr: "\<exists>es. trace h2 = trace h @ es \<and> slept es = 0 \<and> (sendable h = 0 \<longrightarrow> wire es = [])"
    by (rule exI [of _ "es1 @ es2"]) (intro conjI tr0 sl wr)
  have c: "clock h2 = clock h" using a'(1) b'(1) by simp
  have x: "send_error_exn h2 = send_error_exn h" using a'(2) b'(2) by simp
  have s: "sendable h2 \<le> sendable h" using a'(3) b'(3) by simp
  have k: "close_connection h \<longrightarrow> close_connection h2" using a'(4) b'(4) by simp
  have e: "\<forall>e. r = Some e \<longrightarrow> e = send_error_exn h \<or> e = AttributeError"
    using b'(5) a'(2) by simp
  show ?thesis
    unfolding quiet_step_def fst_conv snd_conv
    by (intro conjI c x s k tr e)
qed

lemma quiet_seq:
  assumes "quiet f" "quiet g"
  shows "quiet (seq f g)"
  unfolding quiet_def
proof
  fix h
  obtain r1 h1 where f: "f h = (r1, h1)" by (cases "f h")
  have "quiet_step (f h) h" using assms(1) unfolding quiet_def by (rule spec)
  then have q1: "quiet_step (r1, h1) h" by (simp only: f)
  show "quiet_step (seq f g h) h"
  proof (cases r1)
    case (Some e)
    then have "seq f g h = (r1, h1)" by (simp add: seq_def f)
    then show ?thesis using q1 by (simp only:)
  next
    case None
    obtain r2 h2 where g: "g h1 = (r2, h2)" by (cases "g h1")
    have "quiet_step (g h1) h1" using assms(2) unfolding quiet_def by (rule spec)
    then have q2: "quiet_step (r2, h2) h1" by (simp only: g)
    have q1': "quiet_step (None, h1) h" using q1 None by (simp only:)
    have "seq f g h = (r2, h2)" by (simp add: seq_def f g None)
    then show ?thesis using quiet_step_trans [OF q1' q2] by (simp only:)
  qed
qed

lemma quiet_skip: "quiet (\<lambda>h. (None, h))"
  by (simp add: quiet_def quiet_step_refl)

lemma quiet_block: "(\<And>f. f \<in> set fs \<Longrightarrow> quiet f) \<Longrightarrow> quiet (block fs)"
proof (induction fs)
  case Nil
  have "block [] = (\<lambda>h. (None, h))" by (rule ext) simp
  then show ?case by (simp only: quiet_skip)
next
  case (Cons f fs)
  have eq: "block (f # fs) = seq f (block fs)" by (rule ext) simp
  have "quiet f" using Cons.prems by simp
  moreover have "quiet (block fs)" using Cons.IH Cons.prems by simp
  ultimately show ?case unfolding eq by (rule quiet_seq)
qed

subsection \<open>Every library statement but the sleep is quiet\<close>

lemma quiet_log_message: "quiet (log_message env m)"
  by (simp add: quiet_def quiet_step_def log_message_def)

lemma quiet_wfile_write: "quiet (wfile_write b)"
  by (simp add: quiet_def quiet_step_def wfile_write_def)

lemma quiet_step_buffer [simp]:
  "quiet_step res (h\<lparr>headers_buffer := b\<rparr>) = quiet_step res h"
  by (simp add: quiet_step_def)

lemma quiet_buffer_reset: "quiet (\<lambda>h. (None, h\<lparr>headers_buffer := b\<rparr>))"
  by (simp add: quiet_def quiet_step_def)

lemma quiet_log_request: "quiet (log_request env code)"
  by (simp add: quiet_def quiet_step_def log_request_def log_message_def)

lemma quiet_log_error: "quiet (log_error env m)"
  by (simp add: log_error_def quiet_log_message)

lemma quiet_send_response_only: "quiet (send_response_only code m)"
  by (simp add: quiet_def quiet_step_def send_response_only_def buffer_append_def Let_def)

lemma quiet_send_header:
  "lower k \<noteq> ''connection'' \<or> lower v \<noteq> ''keep-alive'' \<Longrightarrow> quiet (send_header k v)"
  by (auto simp add: quiet_def quiet_step_def send_header_def buffer_append_def Let_def)

lemma quiet_flush_headers: "quiet flush_headers"
  unfolding quiet_def
proof
  fix h
  show "quiet_step (flush_headers h) h"
  proof (cases "headers_buffer h")
    case None
    then show ?thesis by (simp add: flush_headers_def quiet_step_refl)
  next
    case (Some b)
    have "quiet (seq (wfile_write (concat b)) (\<lambda>h'. (None, h'\<lparr>headers_buffer := Some []\<rparr>)))"
      by (rule quiet_seq [OF quiet_wfile_write quiet_buffer_reset])
    then show ?thesis using Some by (simp add: flush_headers_def quiet_def)
  qed
qed

lemma quiet_end_headers: "quiet end_headers"
  unfolding quiet_def
proof
  fix h
  show "quiet_step (end_headers h) h"
  proof (cases "request_version h \<noteq> ''HTTP/0.9''")
    case False
    then show ?thesis by (simp add: end_headers_def quiet_step_refl)
  next
    case True
    show ?thesis
    proof (cases "headers_buffer h")
      case None
      then show ?thesis using True by (simp add: end_headers_def quiet_step_def)
    next
      case (Some b)
      have "quiet_step (flush_headers (h\<lparr>headers_buffer := Some (b @ [CRLF])\<rparr>))
              (h\<lparr>headers_buffer := Some (b @ [CRLF])\<rparr>)"
        using quiet_flush_headers unfolding quiet_def by (rule spec)
      then show ?thesis using True Some by (simp add: end_headers_def)
    qed
  qed
qed

lemma lower_Server: "lower ''Server'' \<noteq> ''connection''" by (simp add: lower_def)
lemma lower_Date: "lower ''Date'' \<noteq> ''connection''" by (simp add: lower_def)
lemma lower_Content_type: "lower ''Content-type'' \<noteq> ''connection''" by (simp add: lower_def)
lemma lower_Content_Type: "lower ''Content-Type'' \<noteq> ''connection''" by (simp add: lower_def)
lemma lower_Content_Length: "lower ''Content-Length'' \<noteq> ''connection''" by (simp add: lower_def)
lemma lower_close: "lower ''close'' \<noteq> ''keep-alive''" by (simp add: lower_def)

lemma quiet_send_header_key: "lower k \<noteq> ''connection'' \<Longrightarrow> quiet (send_header k v)"
  by (rule quiet_send_header) simp

lemma quiet_send_response: "quiet (send_response env code m)"
proof -
  have d: "quiet (\<lambda>h. send_header ''Date'' (date_time_string env (clock h)) h)"
    using quiet_send_header_key [OF lower_Date] unfolding quiet_def by simp
  have s: "quiet (send_header ''Server'' (version_string env))"
    by (rule quiet_send_header_key [OF lower_Server])
  show ?thesis
    unfolding send_response_def
    by (rule quiet_block) (auto simp: quiet_log_request quiet_send_response_only d s)
qed

lemma quiet_send_error: "quiet (send_error env code m x)"
proof -
  have c: "quiet (send_header ''Connection'' ''close'')"
    by (rule quiet_send_header) (simp add: lower_close)
  have t: "quiet (send_header ''Content-Type'' v)" for v
    by (rule quiet_send_header_key [OF lower_Content_Type])
  have l: "quiet (send_header ''Content-Length'' v)" for v
    by (rule quiet_send_header_key [OF lower_Content_Length])
  have w: "quiet (\<lambda>h. case body of None \<Rightarrow> (None, h)
                 | Some b \<Rightarrow> if command h \<noteq> Some ''HEAD'' \<and> b \<noteq> [] then wfile_write b h
                            else (None, h))" for body
  proof (cases body)
    case None
    then show ?thesis by (simp add: quiet_skip)
  next
    case (Some b)
    have "quiet_step (wfile_write b h) h" for h
      using quiet_wfile_write unfolding quiet_def by (rule spec)
    then show ?thesis using Some by (simp add: quiet_def quiet_step_refl)
  qed
  show ?thesis
    unfolding send_error_def Let_def split_def
    by (rule quiet_block)
       (auto simp: quiet_log_error quiet_send_response quiet_end_headers c t l w
          split: option.splits)
qed

lemma quiet_handle_expect_100: "quiet handle_expect_100"
  unfolding handle_expect_100_def
  by (rule quiet_seq [OF quiet_send_response_only quiet_end_headers])

lemma quiet_at: "quiet f \<Longrightarrow> quiet_step (f h) h"
  unfolding quiet_def by (rule spec)

subsection \<open>Attributes the frame conditions do not look at\<close>

lemma quiet_step_fields [simp]:
  "quiet_step res (h\<lparr>rfile := a\<rparr>) = quiet_step res h"
  "quiet_step res (h\<lparr>raw_requestline := a\<rparr>) = quiet_step res h"
  "quiet_step res (h\<lparr>requestline := a\<rparr>) = quiet_step res h"
  "quiet_step res (h\<lparr>command := b\<rparr>) = quiet_step res h"
  "quiet_step res (h\<lparr>path := a\<rparr>) = quiet_step res h"
  "quiet_step res (h\<lparr>request_version := a\<rparr>) = quiet_step res h"
  "quiet_step res (h\<lparr>headers := a\<rparr>) = quiet_step res h"
  by (simp_all add: quiet_step_def)

lemma quiet_step_result_fields [simp]:
  "quiet_step (r, h'\<lparr>rfile := a\<rparr>) h = quiet_step (r, h') h"
  "quiet_step (r, h'\<lparr>raw_requestline := a\<rparr>) h = quiet_step (r, h') h"
  "quiet_step (r, h'\<lparr>requestline := a\<rparr>) h = quiet_step (r, h') h"
  "quiet_step (r, h'\<lparr>command := b\<rparr>) h = quiet_step (r, h') h"
  "quiet_step (r, h'\<lparr>path := a\<rparr>) h = quiet_step (r, h') h"
  "quiet_step (r, h'\<lparr>request_version := a\<rparr>) h = quiet_step (r, h') h"
  "quiet_step (r, h'\<lparr>headers := a\<rparr>) h = quiet_step (r, h') h"
  by (simp_all add: quiet_step_def)

lemma quiet_step_closing: "quiet_step res (h\<lparr>close_connection := True\<rparr>) \<Longrightarrow> quiet_step res h"
  by (simp add: quiet_step_def)

lemma quiet_step_closed: "quiet_step (None, h\<lparr>close_connection := True\<rparr>) h"
  by (simp add: quiet_step_def)

lemma quiet_step_closes:
  "quiet_step res (h\<lparr>close_connection := True\<rparr>) \<Longrightarrow> close_connection (snd res)"
  by (simp add: quiet_step_def)

lemma quiet_step_keeps_closed:
  "quiet_step res h \<Longrightarrow> close_connection h \<Longrightarrow> close_connection (snd res)"
  by (simp add: quiet_step_def)

subsection \<open>What \<^verbatim>\<open>parse_request\<close> does\<close>

lemma protocol_old [simp]: "str_ge protocol_version ''HTTP/1.1'' = False"
  by (simp add: protocol_version_def)

lemma refuse_quiet:
  "quiet_step (snd (refuse env code m x h)) h \<and> \<not> fst (refuse env code m x h)"
  using quiet_at [OF quiet_send_error, of env code "Some m" x h] by (simp add: refuse_def)

lemma parse_version_quiet:
  "(case parse_version env ws h of
      Inl r \<Rightarrow> \<not> fst r \<and> quiet_step (snd r) h
    | Inr h' \<Rightarrow> h' = (if 3 \<le> length ws then h\<lparr>request_version := last ws\<rparr> else h))"
  by (simp add: parse_version_def Let_def refuse_quiet split: option.splits)

lemma parse_command_quiet:
  "(case parse_command env ws h of
      Inl r \<Rightarrow> \<not> fst r \<and> quiet_step (snd r) h
    | Inr h' \<Rightarrow> \<exists>p. h' = (if length ws = 2 then h\<lparr>close_connection := True\<rparr> else h)
                             \<lparr>command := Some (ws ! 0), path := p\<rparr>)"
  by (auto simp add: parse_command_def Let_def refuse_quiet
        intro: quiet_step_closing [OF refuse_quiet [THEN conjunct1]])

lemma parse_headers_quiet: "quiet_step (snd (parse_headers env h)) h"
proof (cases "read_headers 100 (rfile h)")
  case (Pair r rest)
  show ?thesis
  proof (cases r)
    case (Inl err)
    then show ?thesis using Pair refuse_quiet [of env 431 _ _ "h\<lparr>rfile := rest\<rparr>"]
      by (simp add: parse_headers_def)
  next
    case (Inr lines)
    then show ?thesis using Pair
      by (simp add: parse_headers_def Let_def quiet_step_def)
  qed
qed

lemma quiet_step_same:
  assumes "clock h' = clock h" "send_error_exn h' = send_error_exn h" "sendable h' = sendable h"
    "close_connection h' = close_connection h" "trace h' = trace h"
  shows "quiet_step res h' = quiet_step res h"
  using assms by (simp add: quiet_step_def)

lemma parse_request_quiet:
  "quiet_step (snd (parse_request env h)) h \<and> close_connection (snd (snd (parse_request env h)))"
proof -
  let ?h1 = "h\<lparr>command := None, request_version := default_request_version,
                 close_connection := True,
                 requestline := rstrip_crlf (raw_requestline h)\<rparr>"
  let ?ws = "split_words (requestline ?h1)"
  have c1: "close_connection ?h1" by simp
  have main: "quiet_step (snd (parse_request env h)) ?h1"
  proof (cases "length ?ws = 0")
    case True
    then show ?thesis by (simp add: parse_request_def Let_def quiet_step_refl)
  next
    case False
    note nz = this
    show ?thesis
    proof (cases "parse_version env ?ws ?h1")
      case (Inl r)
      with parse_version_quiet [where env=env and ws="?ws" and h="?h1"] have "quiet_step (snd r) ?h1" by simp
      then show ?thesis using nz Inl by (simp add: parse_request_def Let_def)
    next
      case (Inr h2)
      with parse_version_quiet [where env=env and ws="?ws" and h="?h1"]
      have h2: "h2 = (if 3 \<le> length ?ws then ?h1\<lparr>request_version := last ?ws\<rparr> else ?h1)"
        by simp
      then have q2: "quiet_step (None, h2) ?h1" by (simp add: quiet_step_def)
      show ?thesis
      proof (cases "parse_command env ?ws h2")
        case (Inl r)
        with parse_command_quiet [where env=env and ws="?ws" and h=h2] have "quiet_step (snd r) h2" by simp
        then have "quiet_step (fst (snd r), snd (snd r)) h2" by simp
        from quiet_step_trans [OF q2 this] have "quiet_step (snd r) ?h1" by simp
        then show ?thesis using nz Inr Inl by (simp add: parse_request_def Let_def)
      next
        case (Inr h3)
        with parse_command_quiet [where env=env and ws="?ws" and h=h2]
        obtain p where "h3 = (if length ?ws = 2 then h2\<lparr>close_connection := True\<rparr> else h2)
                             \<lparr>command := Some (?ws ! 0), path := p\<rparr>" by auto
        then have q3: "quiet_step (None, h3) h2" by (simp add: quiet_step_def)
        have q13: "quiet_step (None, h3) ?h1" by (rule quiet_step_trans [OF q2 q3])
        have "quiet_step (fst (snd (parse_headers env h3)), snd (snd (parse_headers env h3))) h3"
          using parse_headers_quiet [of env h3] by simp
        from quiet_step_trans [OF q13 this]
        have "quiet_step (snd (parse_headers env h3)) ?h1" by simp
        then show ?thesis using nz \<open>parse_version env ?ws ?h1 = Inr h2\<close> Inr
          by (simp add: parse_request_def Let_def)
      qed
    qed
  qed
  have a: "quiet_step (snd (parse_request env h)) h"
  proof -
    have "quiet_step (snd (parse_request env h)) ?h1 =
          quiet_step (snd (parse_request env h)) (h\<lparr>close_connection := True\<rparr>)"
      by (rule quiet_step_same) simp_all
    with main have "quiet_step (snd (parse_request env h)) (h\<lparr>close_connection := True\<rparr>)"
      by (simp only:)
    then show ?thesis by (rule quiet_step_closing)
  qed
  have b: "close_connection (snd (snd (parse_request env h)))"
    by (rule quiet_step_keeps_closed [OF main c1])
  show ?thesis by (intro conjI a b)
qed

lemma parse_request_accepts:
  assumes "parsed_as (raw_requestline h) (rfile h) = Some (cmd, v)"
  shows "fst (parse_request env h) \<and> fst (snd (parse_request env h)) = None \<and>
     command (snd (snd (parse_request env h))) = Some cmd \<and>
     request_version (snd (snd (parse_request env h))) = v \<and>
     requestline (snd (snd (parse_request env h))) = rstrip_crlf (raw_requestline h) \<and>
     client_host (snd (snd (parse_request env h))) = client_host h \<and>
     headers_buffer (snd (snd (parse_request env h))) = headers_buffer h \<and>
     sendable (snd (snd (parse_request env h))) = sendable h \<and>
     send_error_exn (snd (snd (parse_request env h))) = send_error_exn h \<and>
     clock (snd (snd (parse_request env h))) = clock h \<and>
     trace (snd (snd (parse_request env h))) = trace h"
proof -
  let ?ws = "split_words (rstrip_crlf (raw_requestline h))"
  obtain r rest where rh: "read_headers 100 (rfile h) = (r, rest)"
    by (cases "read_headers 100 (rfile h)")
  show ?thesis
  proof (cases "length ?ws = 3")
    case True
    with assms obtain vn lines where f: "version_number (last ?ws) = Some vn"
        "\<not> pair_ge vn (2, 0)" "r = Inr lines" "cmd = ?ws ! 0" "v = last ?ws"
      using rh by (auto simp add: parsed_as_def Let_def split: option.splits if_splits sum.splits)
    have ne: "?ws \<noteq> []" using True by auto
    show ?thesis using True f rh ne
      by (simp add: parse_request_def parse_version_def parse_command_def parse_headers_def
            Let_def)
  next
    case False
    with assms obtain lines where f: "length ?ws = 2" "?ws ! 0 = ''GET''" "r = Inr lines"
        "cmd = ''GET''" "v = default_request_version"
      using rh by (auto simp add: parsed_as_def Let_def split: option.splits if_splits sum.splits)
    have ne: "?ws \<noteq> []" using f(1) by auto
    show ?thesis using f rh ne
      by (simp add: parse_request_def parse_version_def parse_command_def parse_headers_def
            Let_def)
  qed
qed

lemma parse_request_rejects:
  assumes "parsed_as (raw_requestline h) (rfile h) = None"
  shows "\<not> (fst (parse_request env h) \<and> fst (snd (parse_request env h)) = None)"
proof -
  let ?ws = "split_words (rstrip_crlf (raw_requestline h))"
  obtain r rest where rh: "read_headers 100 (rfile h) = (r, rest)"
    by (cases "read_headers 100 (rfile h)")
  show ?thesis
    using assms rh
    by (auto simp add: parsed_as_def parse_request_def parse_version_def parse_command_def
          parse_headers_def Let_def refuse_def
          split: option.splits if_splits sum.splits)
qed

subsection \<open>An error reply closes the connection\<close>

lemma block_append: "block (fs @ gs) h = seq (block fs) (block gs) h"
proof (induction fs arbitrary: h)
  case Nil
  show ?case by (simp add: seq_def)
next
  case (Cons f fs)
  show ?case
  proof (cases "f h")
    case (Pair x h')
    then show ?thesis using Cons [of h'] by (cases x) (simp_all add: seq_def)
  qed
qed

lemma lower_Connection: "lower ''Connection'' = ''connection''" by code_simp
lemma lower_close_eq: "lower ''close'' = ''close''" by code_simp

lemmas prims0 = seq_def time_sleep_def wfile_write_def log_message_def log_request_def
  send_response_only_def send_header_def flush_headers_def end_headers_def send_response_def
  buffer_append_def responses_def protocol_version_def server_version_def
  version_string_def

lemma quiet_error_body:
  "quiet (\<lambda>h. case body of None \<Rightarrow> (None, h)
                 | Some b \<Rightarrow> if command h \<noteq> Some ''HEAD'' \<and> b \<noteq> [] then wfile_write b h
                            else (None, h))"
proof (cases body)
  case None
  then show ?thesis by (simp add: quiet_skip)
next
  case (Some b)
  have "quiet_step (wfile_write b h) h" for h
    using quiet_wfile_write unfolding quiet_def by (rule spec)
  then show ?thesis using Some by (simp add: quiet_def quiet_step_refl)
qed

lemma send_error_head:
  "fst (block [log_error env l, send_response env code (Some m),
               send_header ''Connection'' ''close''] h) = None \<and>
   close_connection (snd (block [log_error env l, send_response env code (Some m),
               send_header ''Connection'' ''close''] h))"
  by (simp add: prims0 log_error_def Let_def lower_Connection lower_close_eq lower_Server
        lower_Date)

lemma send_error_closes: "close_connection (snd (send_error env code m x h))"
proof -
  obtain shortmsg longmsg where sl:
    "(case map_of responses code of Some p \<Rightarrow> p | None \<Rightarrow> (''???'', ''???'')) = (shortmsg, longmsg)"
    by (cases "case map_of responses code of Some p \<Rightarrow> p | None \<Rightarrow> (''???'', ''???'')")
  define msg where "msg = (case m of None \<Rightarrow> shortmsg | Some m' \<Rightarrow> m')"
  define expl where "expl = (case x of None \<Rightarrow> longmsg | Some x' \<Rightarrow> x')"
  define body where "body = (if 200 \<le> code \<and> code \<notin> {204, 205, 304}
                  then Some (utf8_encode
                         (error_message_format code (html_escape msg) (html_escape expl)))
                  else None)"
  define A where "A = [log_error env (''code '' @ str_nat code @ '', message '' @ msg),
             send_response env code (Some msg),
             send_header ''Connection'' ''close'']"
  define B where "B = (case body of
               None \<Rightarrow> []
             | Some b \<Rightarrow> [send_header ''Content-Type'' error_content_type,
                          send_header ''Content-Length'' (str_nat (length b))]) @
            [end_headers,
             (\<lambda>h. case body of
                    None \<Rightarrow> (None, h)
                  | Some b \<Rightarrow> if command h \<noteq> Some ''HEAD'' \<and> b \<noteq> [] then wfile_write b h
                             else (None, h))]"
  have eq: "send_error env code m x h = block (A @ B) h"
    unfolding A_def B_def body_def msg_def expl_def
    by (simp only: send_error_def sl Let_def prod.case append_assoc)
  have qB: "quiet (block B)"
    unfolding B_def
    by (rule quiet_block)
       (auto simp: quiet_end_headers quiet_error_body
          quiet_send_header_key [OF lower_Content_Type]
          quiet_send_header_key [OF lower_Content_Length]
          split: option.splits)
  have hd: "fst (block A h) = None" "close_connection (snd (block A h))"
    unfolding A_def using send_error_head by simp_all
  have "block (A @ B) h = block B (snd (block A h))"
    using hd(1) by (cases "block A h") (simp add: block_append seq_def)
  then show ?thesis
    unfolding eq using quiet_step_keeps_closed [OF quiet_at [OF qB] hd(2)] by simp
qed


subsection \<open>One request\<close>

lemma handle_one_request_dispatch:
  assumes "dispatch_of (rfile h) = Some (cmd, v)"
  shows "\<exists>H. handle_one_request env h =
           except_TimeoutError env
             (case map_of (SlowHandler_methods env) (''do_'' @ cmd) of
                None \<Rightarrow> send_error env 501
                          (Some (''Unsupported method ('' @ py_repr env cmd @ '')'')) None H
              | Some method \<Rightarrow> method H) \<and>
         command H = Some cmd \<and> request_version H = v \<and>
         requestline H = rstrip_crlf (fst (readline 65537 (rfile h))) \<and>
         client_host H = client_host h \<and> headers_buffer H = headers_buffer h \<and>
         sendable H = sendable h \<and> send_error_exn H = send_error_exn h \<and>
         clock H = clock h \<and> trace H = trace h \<and> close_connection H"
proof -
  obtain line rest where rl: "readline 65537 (rfile h) = (line, rest)"
    by (cases "readline 65537 (rfile h)")
  let ?h1 = "h\<lparr>raw_requestline := line, rfile := rest\<rparr>"
  from assms rl have ln: "line \<noteq> []" "\<not> 65536 < length line"
    and pa: "parsed_as (raw_requestline ?h1) (rfile ?h1) = Some (cmd, v)"
    by (auto simp add: dispatch_of_def split: if_splits)
  note a = parse_request_accepts [OF pa, of env]
  note q = parse_request_quiet [of env ?h1]
  let ?H = "snd (snd (parse_request env ?h1))"
  have eq: "handle_one_request env h =
           except_TimeoutError env
             (case map_of (SlowHandler_methods env) (''do_'' @ cmd) of
                None \<Rightarrow> send_error env 501
                          (Some (''Unsupported method ('' @ py_repr env cmd @ '')'')) None ?H
              | Some method \<Rightarrow> method ?H)"
    using ln a by (simp add: handle_one_request_def rl Let_def split_def)
  have f: "command ?H = Some cmd" "request_version ?H = v"
    "requestline ?H = rstrip_crlf (fst (readline 65537 (rfile h)))"
    "client_host ?H = client_host h" "headers_buffer ?H = headers_buffer h"
    "sendable ?H = sendable h" "send_error_exn ?H = send_error_exn h"
    "clock ?H = clock h" "trace ?H = trace h" "close_connection ?H"
    using a q rl by simp_all
  show ?thesis
    by (rule exI [of _ ?H]) (intro conjI eq f)
qed

lemma handle_one_request_refused:
  assumes "dispatch_of (rfile h) = None"
  shows "\<exists>X. handle_one_request env h = except_TimeoutError env X \<and>
             quiet_step X h \<and> close_connection (snd X)"
proof -
  obtain line rest where rl: "readline 65537 (rfile h) = (line, rest)"
    by (cases "readline 65537 (rfile h)")
  let ?h1 = "h\<lparr>raw_requestline := line, rfile := rest\<rparr>"
  show ?thesis
  proof (cases "65536 < length line")
    case True
    let ?h2 = "?h1\<lparr>requestline := [], request_version := [], command := Some []\<rparr>"
    let ?X = "send_error env 414 None None ?h2"
    have eq: "handle_one_request env h = except_TimeoutError env ?X"
      using True by (simp add: handle_one_request_def rl Let_def)
    have "quiet_step ?X ?h2" by (rule quiet_at [OF quiet_send_error])
    moreover have "quiet_step ?X ?h2 = quiet_step ?X h" by (rule quiet_step_same) simp_all
    ultimately have q: "quiet_step ?X h" by simp
    have c: "close_connection (snd ?X)" by (rule send_error_closes)
    show ?thesis by (rule exI [of _ ?X]) (intro conjI eq q c)
  next
    case False
    note short = this
    show ?thesis
    proof (cases "line = []")
      case True
      let ?X = "(None, ?h1\<lparr>close_connection := True\<rparr>) :: exn option \<times> handler"
      have eq: "handle_one_request env h = except_TimeoutError env ?X"
        using True by (simp add: handle_one_request_def rl Let_def)
      have q: "quiet_step ?X h" by (simp add: quiet_step_def)
      have c: "close_connection (snd ?X)" by simp
      show ?thesis by (rule exI [of _ ?X]) (intro conjI eq q c)
    next
      case False
      with short assms rl have pa: "parsed_as (raw_requestline ?h1) (rfile ?h1) = None"
        by (simp add: dispatch_of_def)
      let ?X = "snd (parse_request env ?h1)"
      note r = parse_request_rejects [OF pa, of env]
      have eq: "handle_one_request env h = except_TimeoutError env ?X"
        using False short r by (auto simp add: handle_one_request_def rl Let_def split_def)
      note pq = parse_request_quiet [of env ?h1]
      have "quiet_step ?X ?h1 = quiet_step ?X h" by (rule quiet_step_same) simp_all
      with pq have q: "quiet_step ?X h" by simp
      have c: "close_connection (snd ?X)" using pq by simp
      show ?thesis by (rule exI [of _ ?X]) (intro conjI eq q c)
    qed
  qed
qed

subsection \<open>What \<^verbatim>\<open>do_GET\<close> and the dispatch do, whatever the peer does\<close>

lemma str_nat_200: "str_nat 200 = ''200''" by code_simp
lemma str_nat_501: "str_nat 501 = ''501''" by code_simp

lemmas prims = prims0 lower_def

lemma do_GET_seq: "do_GET env = seq (time_sleep 5)
    (block [send_response env 200 None, send_header ''Content-type'' ''text/plain'',
            end_headers, wfile_write ''Response from SLOW SERVER (5s delay)''])"
  by (rule ext) (simp add: do_GET_def)

lemma quiet_after_sleep: "quiet
    (block [send_response env 200 None, send_header ''Content-type'' ''text/plain'',
            end_headers, wfile_write ''Response from SLOW SERVER (5s delay)''])"
  by (rule quiet_block)
     (auto simp: quiet_send_response quiet_end_headers quiet_wfile_write
        quiet_send_header_key [OF lower_Content_type])

lemma do_GET_general:
  "clock (snd (do_GET env h)) = clock h + 5 \<and>
   send_error_exn (snd (do_GET env h)) = send_error_exn h \<and>
   (close_connection h \<longrightarrow> close_connection (snd (do_GET env h))) \<and>
   (\<exists>es. trace (snd (do_GET env h)) = trace h @ Slept 5 # es \<and> slept es = 0 \<and>
         (sendable h = 0 \<longrightarrow> wire es = [])) \<and>
   (\<forall>e. fst (do_GET env h) = Some e \<longrightarrow> e = send_error_exn h \<or> e = AttributeError)"
proof -
  let ?rest = "block [send_response env 200 None, send_header ''Content-type'' ''text/plain'',
            end_headers, wfile_write ''Response from SLOW SERVER (5s delay)'']"
  let ?h1 = "h\<lparr>clock := clock h + 5, trace := trace h @ [Slept 5]\<rparr>"
  have eq: "do_GET env h = ?rest ?h1"
    by (simp add: do_GET_seq seq_def time_sleep_def)
  have q: "quiet_step (?rest ?h1) ?h1"
    using quiet_after_sleep unfolding quiet_def by (rule spec)
  from quiet_stepD_trace [OF q]
  obtain es where es: "trace (snd (?rest ?h1)) = trace ?h1 @ es \<and> slept es = 0 \<and>
      (sendable ?h1 = 0 \<longrightarrow> wire es = [])"
    by (rule exE)
  have tr: "\<exists>es. trace (snd (?rest ?h1)) = trace h @ Slept 5 # es \<and> slept es = 0 \<and>
         (sendable h = 0 \<longrightarrow> wire es = [])"
    using es by (intro exI [of _ es]) simp
  from q have c: "clock (snd (?rest ?h1)) = clock h + 5"
    and x: "send_error_exn (snd (?rest ?h1)) = send_error_exn h"
    and k: "close_connection h \<longrightarrow> close_connection (snd (?rest ?h1))"
    and e: "\<forall>e. fst (?rest ?h1) = Some e \<longrightarrow> e = send_error_exn h \<or> e = AttributeError"
    unfolding quiet_step_def by simp_all
  show ?thesis unfolding eq by (intro conjI c x k tr e)
qed

lemma except_TimeoutError_facts:
  "clock (snd (except_TimeoutError env res)) = clock (snd res) \<and>
   send_error_exn (snd (except_TimeoutError env res)) = send_error_exn (snd res) \<and>
   (close_connection (snd res) \<longrightarrow> close_connection (snd (except_TimeoutError env res))) \<and>
   (\<exists>es. trace (snd (except_TimeoutError env res)) = trace (snd res) @ es \<and> slept es = 0 \<and>
         wire es = []) \<and>
   (\<forall>e. fst (except_TimeoutError env res) = Some e \<longrightarrow> fst res = Some e \<and> e \<noteq> TimeoutError)"
proof (cases res)
  case (Pair r h')
  show ?thesis
  proof (cases r)
    case None
    then show ?thesis using Pair by (simp add: except_TimeoutError_def)
  next
    case (Some e)
    then show ?thesis using Pair
      by (simp add: except_TimeoutError_def log_error_def log_message_def)
  qed
qed

lemma except_quiet:
  assumes q: "quiet_step X h" and c: "close_connection (snd X)"
  shows "clock (snd (except_TimeoutError env X)) = clock h \<and>
     close_connection (snd (except_TimeoutError env X)) \<and>
     send_error_exn (snd (except_TimeoutError env X)) = send_error_exn h \<and>
     (\<exists>es. trace (snd (except_TimeoutError env X)) = trace h @ es \<and> slept es = 0 \<and>
           (sendable h = 0 \<longrightarrow> wire es = [])) \<and>
     (\<forall>e. fst (except_TimeoutError env X) = Some e \<longrightarrow>
          (e = send_error_exn h \<or> e = AttributeError) \<and> e \<noteq> TimeoutError)"
proof -
  note x = except_TimeoutError_facts [of env X]
  from quiet_stepD_trace [OF q]
  obtain es where es: "trace (snd X) = trace h @ es \<and> slept es = 0 \<and>
         (sendable h = 0 \<longrightarrow> wire es = [])" by (rule exE)
  from x obtain es' where es': "trace (snd (except_TimeoutError env X)) = trace (snd X) @ es' \<and>
      slept es' = 0 \<and> wire es' = []" by (elim conjE exE) (rule that, simp)
  have tr: "\<exists>es. trace (snd (except_TimeoutError env X)) = trace h @ es \<and>
         slept es = 0 \<and> (sendable h = 0 \<longrightarrow> wire es = [])"
    using es es' by (intro exI [of _ "es @ es'"]) (simp add: slept_append wire_append)
  from q have q': "clock (snd X) = clock h" "send_error_exn (snd X) = send_error_exn h"
    "\<forall>e. fst X = Some e \<longrightarrow> e = send_error_exn h \<or> e = AttributeError"
    unfolding quiet_step_def by simp_all
  have ck: "clock (snd (except_TimeoutError env X)) = clock h" using x q'(1) by simp
  have k: "close_connection (snd (except_TimeoutError env X))" using x c by simp
  have se: "send_error_exn (snd (except_TimeoutError env X)) = send_error_exn h"
    using x q'(2) by simp
  have e: "\<forall>e. fst (except_TimeoutError env X) = Some e \<longrightarrow>
        (e = send_error_exn h \<or> e = AttributeError) \<and> e \<noteq> TimeoutError"
    using x q'(3) by simp
  show ?thesis by (intro conjI ck k se tr e)
qed

lemma methods_GET: "map_of (SlowHandler_methods env) (''do_'' @ ''GET'') = Some (do_GET env)"
  by (simp add: SlowHandler_methods_def)

lemma methods_other:
  "cmd \<noteq> ''GET'' \<Longrightarrow> map_of (SlowHandler_methods env) (''do_'' @ cmd) = None"
  by (simp add: SlowHandler_methods_def)

lemma handle_one_request_GET:
  assumes "dispatch_of (rfile h) = Some (''GET'', v)"
  shows "\<exists>H. handle_one_request env h = except_TimeoutError env (do_GET env H) \<and>
         command H = Some ''GET'' \<and> request_version H = v \<and>
         requestline H = rstrip_crlf (fst (readline 65537 (rfile h))) \<and>
         client_host H = client_host h \<and> headers_buffer H = headers_buffer h \<and>
         sendable H = sendable h \<and> send_error_exn H = send_error_exn h \<and>
         clock H = clock h \<and> trace H = trace h \<and> close_connection H"
  using handle_one_request_dispatch [OF assms, of env] by (simp only: methods_GET option.case)

lemma handle_one_request_other:
  assumes "dispatch_of (rfile h) = Some (cmd, v)" and "cmd \<noteq> ''GET''"
  shows "\<exists>H. handle_one_request env h =
           except_TimeoutError env
             (send_error env 501 (Some (''Unsupported method ('' @ py_repr env cmd @ '')''))
                None H) \<and>
         command H = Some cmd \<and> request_version H = v \<and>
         requestline H = rstrip_crlf (fst (readline 65537 (rfile h))) \<and>
         client_host H = client_host h \<and> headers_buffer H = headers_buffer h \<and>
         sendable H = sendable h \<and> send_error_exn H = send_error_exn h \<and>
         clock H = clock h \<and> trace H = trace h \<and> close_connection H"
  using handle_one_request_dispatch [OF assms(1), of env]
  by (simp only: methods_other [OF assms(2)] option.case)

lemma calls_do_GET_iff: "calls_do_GET inp = (\<exists>v. dispatch_of inp = Some (''GET'', v))"
  by (cases "dispatch_of inp") (auto simp add: calls_do_GET_def)

lemma handle_GET_facts:
  assumes "calls_do_GET (rfile h)"
  shows "clock (snd (handle_one_request env h)) = clock h + 5 \<and>
   close_connection (snd (handle_one_request env h)) \<and>
   (\<exists>es. trace (snd (handle_one_request env h)) = trace h @ Slept 5 # es \<and>
         slept es = 0 \<and> (sendable h = 0 \<longrightarrow> wire es = [])) \<and>
   (\<forall>e. fst (handle_one_request env h) = Some e \<longrightarrow>
        (e = send_error_exn h \<or> e = AttributeError) \<and> e \<noteq> TimeoutError)"
proof -
  from assms obtain v where d: "dispatch_of (rfile h) = Some (''GET'', v)"
    by (auto simp add: calls_do_GET_iff)
  from handle_one_request_GET [OF d, of env]
  obtain H where eq: "handle_one_request env h = except_TimeoutError env (do_GET env H)"
    and p: "sendable H = sendable h" "send_error_exn H = send_error_exn h"
         "clock H = clock h" "trace H = trace h" "close_connection H"
    by blast
  let ?res = "do_GET env H"
  note g = do_GET_general [of env H]
  note x = except_TimeoutError_facts [of env ?res]
  from g obtain es where es: "trace (snd ?res) = trace H @ Slept 5 # es \<and> slept es = 0 \<and>
         (sendable H = 0 \<longrightarrow> wire es = [])" by (elim conjE exE) (rule that, simp)
  from x obtain es' where es': "trace (snd (except_TimeoutError env ?res)) = trace (snd ?res) @ es' \<and>
      slept es' = 0 \<and> wire es' = []" by (elim conjE exE) (rule that, simp)
  have tr: "\<exists>es. trace (snd (except_TimeoutError env ?res)) = trace h @ Slept 5 # es \<and>
         slept es = 0 \<and> (sendable h = 0 \<longrightarrow> wire es = [])"
    using es es' p by (intro exI [of _ "es @ es'"]) (simp add: slept_append wire_append)
  have c: "clock (snd (except_TimeoutError env ?res)) = clock h + 5"
    using x g p by simp
  have k: "close_connection (snd (except_TimeoutError env ?res))"
    using x g p by simp
  have e: "\<forall>e. fst (except_TimeoutError env ?res) = Some e \<longrightarrow>
        (e = send_error_exn h \<or> e = AttributeError) \<and> e \<noteq> TimeoutError"
    using x g p by simp
  show ?thesis
    unfolding eq by (intro conjI c k tr e)
qed

lemma handle_other_facts:
  assumes "\<not> calls_do_GET (rfile h)"
  shows "clock (snd (handle_one_request env h)) = clock h \<and>
   close_connection (snd (handle_one_request env h)) \<and>
   (\<exists>es. trace (snd (handle_one_request env h)) = trace h @ es \<and>
         slept es = 0 \<and> (sendable h = 0 \<longrightarrow> wire es = [])) \<and>
   (\<forall>e. fst (handle_one_request env h) = Some e \<longrightarrow>
        (e = send_error_exn h \<or> e = AttributeError) \<and> e \<noteq> TimeoutError)"
proof -
  have "\<exists>X. handle_one_request env h = except_TimeoutError env X \<and>
             quiet_step X h \<and> close_connection (snd X)"
  proof (cases "dispatch_of (rfile h)")
    case None
    then show ?thesis by (rule handle_one_request_refused)
  next
    case (Some cv)
    obtain cmd v where cv: "cv = (cmd, v)" by (cases cv)
    have d: "dispatch_of (rfile h) = Some (cmd, v)" using Some cv by simp
    have ng: "cmd \<noteq> ''GET''" using assms d by (auto simp add: calls_do_GET_iff)
    from handle_one_request_other [OF d ng, of env]
    obtain H where eq: "handle_one_request env h =
           except_TimeoutError env
             (send_error env 501 (Some (''Unsupported method ('' @ py_repr env cmd @ '')''))
                None H)"
      and p: "sendable H = sendable h" "send_error_exn H = send_error_exn h"
         "clock H = clock h" "trace H = trace h" "close_connection H"
      by blast
    let ?X = "send_error env 501 (Some (''Unsupported method ('' @ py_repr env cmd @ '')''))
                None H"
    have "quiet_step ?X H" by (rule quiet_at [OF quiet_send_error])
    then have q: "quiet_step ?X h" using p by (simp add: quiet_step_def)
    have c: "close_connection (snd ?X)" by (rule send_error_closes)
    show ?thesis by (rule exI [of _ ?X]) (intro conjI eq q c)
  qed
  then obtain X where eq: "handle_one_request env h = except_TimeoutError env X"
    and q: "quiet_step X h" and c: "close_connection (snd X)" by blast
  from except_quiet [OF q c, of env]
  show ?thesis unfolding eq by simp
qed

lemma handle_one_request_closes: "close_connection (snd (handle_one_request env h))"
  using handle_GET_facts [of h env] handle_other_facts [of h env]
  by (cases "calls_do_GET (rfile h)") simp_all


subsection \<open>The loop of \<^verbatim>\<open>handle\<close> ends after one request\<close>

text \<open>Every path through \<^verbatim>\<open>handle_one_request\<close> leaves \<^verbatim>\<open>close_connection\<close> set, so
  the loop \<^verbatim>\<open>while not self.close_connection\<close> never runs its body.\<close>

termination handle_loop
  by (relation "{}") (simp_all add: handle_one_request_closes)

lemma handle_once: "handle env h = handle_one_request env (h\<lparr>close_connection := True\<rparr>)"
  by (simp add: handle_def handle_one_request_closes Let_def)

lemma handler_setup_close: "(handler_setup c t)\<lparr>close_connection := True\<rparr> = handler_setup c t"
  by (simp add: handler_setup_def)

lemma finish_request_once:
  "finish_request env c t = handle_one_request env (handler_setup c t)"
  by (simp add: finish_request_def handle_once handler_setup_close)

lemma handler_setup_fields:
  "clock (handler_setup c t) = t \<and> trace (handler_setup c t) = [] \<and>
   sendable (handler_setup c t) = accepts c \<and>
   send_error_exn (handler_setup c t) = write_error c \<and>
   headers_buffer (handler_setup c t) = None \<and>
   rfile (handler_setup c t) = input c \<and>
   client_host (handler_setup c t) = client_address c"
  by (simp add: handler_setup_def)


subsection \<open>The trace of \<^verbatim>\<open>do_GET\<close>, case by case\<close>

lemma do_GET_ok:
  assumes "request_version h \<noteq> ''HTTP/0.9''" "headers_buffer h = None" "2 \<le> sendable h"
  shows "do_GET env h =
    (None, h\<lparr>headers_buffer := Some [], sendable := sendable h - 2, clock := clock h + 5,
       trace := trace h @
         [Slept 5,
          Logged (log_line env (client_host h) (clock h + 5)
                    ([CHR 0x22] @ requestline h @ [CHR 0x22] @ '' 200 -'')),
          Sent (''HTTP/1.0 200 OK'' @ CRLF @
                ''Server: BaseHTTP/0.6 '' @ sys_version env @ CRLF @
                ''Date: '' @ date_time_string env (clock h + 5) @ CRLF @
                ''Content-type: text/plain'' @ CRLF @ CRLF),
          Sent ''Response from SLOW SERVER (5s delay)'']\<rparr>)"
  using assms
  by (simp add: do_GET_def prims str_nat_200)

lemma do_GET_ok_09:
  assumes "request_version h = ''HTTP/0.9''" "1 \<le> sendable h"
  shows "do_GET env h =
    (None, h\<lparr>sendable := sendable h - 1, clock := clock h + 5,
       trace := trace h @
         [Slept 5,
          Logged (log_line env (client_host h) (clock h + 5)
                    ([CHR 0x22] @ requestline h @ [CHR 0x22] @ '' 200 -'')),
          Sent ''Response from SLOW SERVER (5s delay)'']\<rparr>)"
  using assms
  by (simp add: do_GET_def prims str_nat_200)

lemma do_GET_peer_gone:
  assumes "headers_buffer h = None" "sendable h = 0"
  shows "fst (do_GET env h) = Some (send_error_exn h) \<and>
     trace (snd (do_GET env h)) = trace h @
         [Slept 5,
          Logged (log_line env (client_host h) (clock h + 5)
                    ([CHR 0x22] @ requestline h @ [CHR 0x22] @ '' 200 -'')),
          SendFailed (send_error_exn h)]"
proof (cases "request_version h = ''HTTP/0.9''")
  case True
  then show ?thesis using assms by (simp add: do_GET_def prims str_nat_200)
next
  case False
  then show ?thesis using assms by (simp add: do_GET_def prims str_nat_200)
qed

lemma do_GET_peer_leaves:
  assumes "request_version h \<noteq> ''HTTP/0.9''" "headers_buffer h = None" "sendable h = 1"
  shows "fst (do_GET env h) = Some (send_error_exn h) \<and>
     trace (snd (do_GET env h)) = trace h @
         [Slept 5,
          Logged (log_line env (client_host h) (clock h + 5)
                    ([CHR 0x22] @ requestline h @ [CHR 0x22] @ '' 200 -'')),
          Sent (''HTTP/1.0 200 OK'' @ CRLF @
                ''Server: BaseHTTP/0.6 '' @ sys_version env @ CRLF @
                ''Date: '' @ date_time_string env (clock h + 5) @ CRLF @
                ''Content-type: text/plain'' @ CRLF @ CRLF),
          SendFailed (send_error_exn h)]"
  using assms by (simp add: do_GET_def prims str_nat_200)

subsection \<open>Reading the body off the reply\<close>







subsection \<open>One connection from accept to close\<close>

lemma except_TimeoutError_None: "except_TimeoutError env (None, h) = (None, h)"
  by (simp add: except_TimeoutError_def)

lemma finish_GET_start:
  assumes "dispatch_of (input c) = Some (''GET'', v)"
  shows "\<exists>H. finish_request env c t = except_TimeoutError env (do_GET env H) \<and>
         request_version H = v \<and>
         requestline H = rstrip_crlf (fst (readline 65537 (input c))) \<and>
         client_host H = client_address c \<and> headers_buffer H = None \<and>
         sendable H = accepts c \<and> send_error_exn H = write_error c \<and>
         clock H = t \<and> trace H = []"
proof -
  have d: "dispatch_of (rfile (handler_setup c t)) = Some (''GET'', v)"
    using assms by (simp add: handler_setup_fields)
  from handle_one_request_GET [OF d, of env]
  obtain H where H: "handle_one_request env (handler_setup c t) =
        except_TimeoutError env (do_GET env H)"
      "request_version H = v"
      "requestline H = rstrip_crlf (fst (readline 65537 (rfile (handler_setup c t))))"
      "client_host H = client_host (handler_setup c t)"
      "headers_buffer H = headers_buffer (handler_setup c t)"
      "sendable H = sendable (handler_setup c t)"
      "send_error_exn H = send_error_exn (handler_setup c t)"
      "clock H = clock (handler_setup c t)" "trace H = trace (handler_setup c t)"
    by blast
  show ?thesis
    by (rule exI [of _ H]) (use H in \<open>simp add: finish_request_once handler_setup_fields\<close>)
qed

lemma finish_GET_ok:
  assumes "dispatch_of (input c) = Some (''GET'', v)" "v \<noteq> ''HTTP/0.9''" "2 \<le> accepts c"
  shows "fst (finish_request env c t) = None \<and>
     clock (snd (finish_request env c t)) = t + 5 \<and>
     trace (snd (finish_request env c t)) =
       [Slept 5,
        Logged (log_line env (client_address c) (t + 5)
                  ([CHR 0x22] @ rstrip_crlf (fst (readline 65537 (input c))) @ [CHR 0x22] @
                   '' 200 -'')),
        Sent (''HTTP/1.0 200 OK'' @ CRLF @
              ''Server: BaseHTTP/0.6 '' @ sys_version env @ CRLF @
              ''Date: '' @ date_time_string env (t + 5) @ CRLF @
              ''Content-type: text/plain'' @ CRLF @ CRLF),
        Sent ''Response from SLOW SERVER (5s delay)'']"
proof -
  from finish_GET_start [OF assms(1), of env t]
  obtain H where eq: "finish_request env c t = except_TimeoutError env (do_GET env H)"
    and p: "request_version H = v"
         "requestline H = rstrip_crlf (fst (readline 65537 (input c)))"
         "client_host H = client_address c" "headers_buffer H = None"
         "sendable H = accepts c" "send_error_exn H = write_error c"
         "clock H = t" "trace H = []"
    by blast
  have "do_GET env H = (None, H\<lparr>headers_buffer := Some [], sendable := sendable H - 2,
       clock := clock H + 5,
       trace := trace H @
         [Slept 5,
          Logged (log_line env (client_host H) (clock H + 5)
                    ([CHR 0x22] @ requestline H @ [CHR 0x22] @ '' 200 -'')),
          Sent (''HTTP/1.0 200 OK'' @ CRLF @
                ''Server: BaseHTTP/0.6 '' @ sys_version env @ CRLF @
                ''Date: '' @ date_time_string env (clock H + 5) @ CRLF @
                ''Content-type: text/plain'' @ CRLF @ CRLF),
          Sent ''Response from SLOW SERVER (5s delay)'']\<rparr>)"
    by (rule do_GET_ok) (use assms p in simp_all)
  then show ?thesis
    by (simp add: eq except_TimeoutError_None p)
qed

lemma finish_GET_ok_09:
  assumes "dispatch_of (input c) = Some (''GET'', ''HTTP/0.9'')" "1 \<le> accepts c"
  shows "fst (finish_request env c t) = None \<and>
     clock (snd (finish_request env c t)) = t + 5 \<and>
     trace (snd (finish_request env c t)) =
       [Slept 5,
        Logged (log_line env (client_address c) (t + 5)
                  ([CHR 0x22] @ rstrip_crlf (fst (readline 65537 (input c))) @ [CHR 0x22] @
                   '' 200 -'')),
        Sent ''Response from SLOW SERVER (5s delay)'']"
proof -
  from finish_GET_start [OF assms(1), of env t]
  obtain H where eq: "finish_request env c t = except_TimeoutError env (do_GET env H)"
    and p: "request_version H = ''HTTP/0.9''"
         "requestline H = rstrip_crlf (fst (readline 65537 (input c)))"
         "client_host H = client_address c" "headers_buffer H = None"
         "sendable H = accepts c" "send_error_exn H = write_error c"
         "clock H = t" "trace H = []"
    by blast
  have "do_GET env H = (None, H\<lparr>sendable := sendable H - 1, clock := clock H + 5,
       trace := trace H @
         [Slept 5,
          Logged (log_line env (client_host H) (clock H + 5)
                    ([CHR 0x22] @ requestline H @ [CHR 0x22] @ '' 200 -'')),
          Sent ''Response from SLOW SERVER (5s delay)'']\<rparr>)"
    by (rule do_GET_ok_09) (use assms p in simp_all)
  then show ?thesis
    by (simp add: eq except_TimeoutError_None p)
qed

lemma finish_GET_gone:
  assumes "dispatch_of (input c) = Some (''GET'', v)" "accepts c = 0"
  shows "trace (snd (finish_request env c t)) =
       [Slept 5,
        Logged (log_line env (client_address c) (t + 5)
                  ([CHR 0x22] @ rstrip_crlf (fst (readline 65537 (input c))) @ [CHR 0x22] @
                   '' 200 -'')),
        SendFailed (write_error c)] @
       (if write_error c = TimeoutError
        then [Logged (log_line env (client_address c) (t + 5)
                        (''Request timed out: '' @ exn_repr env TimeoutError))]
        else [])"
proof -
  from finish_GET_start [OF assms(1), of env t]
  obtain H where eq: "finish_request env c t = except_TimeoutError env (do_GET env H)"
    and p: "request_version H = v"
         "requestline H = rstrip_crlf (fst (readline 65537 (input c)))"
         "client_host H = client_address c" "headers_buffer H = None"
         "sendable H = accepts c" "send_error_exn H = write_error c"
         "clock H = t" "trace H = []"
    by blast
  have g: "fst (do_GET env H) = Some (send_error_exn H) \<and>
     trace (snd (do_GET env H)) = trace H @
         [Slept 5,
          Logged (log_line env (client_host H) (clock H + 5)
                    ([CHR 0x22] @ requestline H @ [CHR 0x22] @ '' 200 -'')),
          SendFailed (send_error_exn H)]"
    by (rule do_GET_peer_gone) (use assms p in simp_all)
  have ck: "clock (snd (do_GET env H)) = t + 5"
    using do_GET_general [of env H] p by simp
  have ch: "client_host (snd (do_GET env H)) = client_address c"
    using p(3) by (simp add: do_GET_def prims split: if_splits option.splits)
  obtain x h' where res: "do_GET env H = (x, h')" by (cases "do_GET env H")
  with g ck ch have x: "x = Some (write_error c)" and tr: "trace h' =
         [Slept 5,
          Logged (log_line env (client_address c) (t + 5)
                  ([CHR 0x22] @ rstrip_crlf (fst (readline 65537 (input c))) @ [CHR 0x22] @
                   '' 200 -'')),
          SendFailed (write_error c)]"
    and ck': "clock h' = t + 5" and ch': "client_host h' = client_address c"
    by (simp_all add: p)
  show ?thesis
    by (simp add: eq res x tr ck' ch' except_TimeoutError_def log_error_def log_message_def)
qed


subsection \<open>Reading concrete requests\<close>

lemma read_headers_numeral:
  "read_headers (numeral k) inp =
     (case readline 65537 inp of (line, rest) \<Rightarrow>
        if 65536 < length line then (Inl LineTooLong, rest)
        else if line = CRLF \<or> line = LF \<or> line = [] then (Inr [line], rest)
        else (case read_headers (pred_numeral k) rest of
                (Inr lines, rest') \<Rightarrow> (Inr (line # lines), rest')
              | (Inl err, rest') \<Rightarrow> (Inl err, rest')))"
  by (simp only: numeral_eq_Suc [of k] read_headers.simps)

lemmas reading = dispatch_of_def parsed_as_def readline_def rstrip_crlf_def split_words_def
  isspace_def version_number_def base_version_number_def isdigit_def int_of_def pair_ge_def
  read_headers_numeral default_request_version_def CRLF_def LF_def Let_def
  example_request_def simple_request_def


subsection \<open>One connection, whatever the peer does\<close>

lemma finish_GET_any:
  assumes "calls_do_GET (input c)"
  shows "clock (snd (finish_request env c t)) = t + 5 \<and>
     (\<exists>es. trace (snd (finish_request env c t)) = Slept 5 # es \<and> slept es = 0 \<and>
           (accepts c = 0 \<longrightarrow> wire es = [])) \<and>
     (\<forall>e. fst (finish_request env c t) = Some e \<longrightarrow>
          (e = write_error c \<or> e = AttributeError) \<and> e \<noteq> TimeoutError)"
proof -
  have a: "calls_do_GET (rfile (handler_setup c t))"
    using assms by (simp add: handler_setup_fields)
  show ?thesis
    using handle_GET_facts [OF a, of env]
    by (simp add: finish_request_once handler_setup_fields)
qed

lemma finish_other_any:
  assumes "\<not> calls_do_GET (input c)"
  shows "clock (snd (finish_request env c t)) = t \<and>
     (\<exists>es. trace (snd (finish_request env c t)) = es \<and> slept es = 0 \<and>
           (accepts c = 0 \<longrightarrow> wire es = [])) \<and>
     (\<forall>e. fst (finish_request env c t) = Some e \<longrightarrow>
          (e = write_error c \<or> e = AttributeError) \<and> e \<noteq> TimeoutError)"
proof -
  have a: "\<not> calls_do_GET (rfile (handler_setup c t))"
    using assms by (simp add: handler_setup_fields)
  show ?thesis
    using handle_other_facts [OF a, of env]
    by (simp add: finish_request_once handler_setup_fields)
qed



subsection \<open>Error replies\<close>

lemma utf8_encode_nonempty: "s \<noteq> [] \<Longrightarrow> utf8_encode s \<noteq> []"
  by (cases s) (simp_all add: utf8_encode_def)

lemma error_message_format_nonempty: "error_message_format code m e \<noteq> []"
  by (simp add: error_message_format_def)

lemma send_error_09:
  assumes "request_version h = ''HTTP/0.9''" and "1 \<le> sendable h"
    and "command h \<noteq> Some ''HEAD''" and "200 \<le> code" and "code \<notin> {204, 205, 304}"
  shows "send_error env code (Some m) x h =
    (None, h\<lparr>close_connection := True, sendable := sendable h - 1,
       trace := trace h @
         [Logged (log_line env (client_host h) (clock h)
                    (''code '' @ str_nat code @ '', message '' @ m)),
          Logged (log_line env (client_host h) (clock h)
                    ([CHR 0x22] @ requestline h @ [CHR 0x22] @ '' '' @ str_nat code @ '' -'')),
          Sent (utf8_encode (error_message_format code (html_escape m)
                  (html_escape (case x of
                      None \<Rightarrow> (case map_of responses code of
                                  Some p \<Rightarrow> snd p | None \<Rightarrow> ''???'')
                    | Some e \<Rightarrow> e))))]\<rparr>)"
proof -
  obtain shortmsg longmsg where sl:
    "(case map_of responses code of Some p \<Rightarrow> p | None \<Rightarrow> (''???'', ''???'')) = (shortmsg, longmsg)"
    by (cases "case map_of responses code of Some p \<Rightarrow> p | None \<Rightarrow> (''???'', ''???'')")
  have lm: "(case map_of responses code of Some p \<Rightarrow> snd p | None \<Rightarrow> ''???'') = longmsg"
    using sl by (cases "map_of responses code") auto
  define page where "page = utf8_encode (error_message_format code (html_escape m)
                  (html_escape (case x of None \<Rightarrow> longmsg | Some e \<Rightarrow> e)))"
  have ne: "page \<noteq> []"
    unfolding page_def by (rule utf8_encode_nonempty [OF error_message_format_nonempty])
  have "send_error env code (Some m) x h =
    (None, h\<lparr>close_connection := True, sendable := sendable h - 1,
       trace := trace h @
         [Logged (log_line env (client_host h) (clock h)
                    (''code '' @ str_nat code @ '', message '' @ m)),
          Logged (log_line env (client_host h) (clock h)
                    ([CHR 0x22] @ requestline h @ [CHR 0x22] @ '' '' @ str_nat code @ '' -'')),
          Sent page]\<rparr>)"
    using assms ne unfolding page_def
    by (simp add: send_error_def sl Let_def log_error_def seq_def time_sleep_def wfile_write_def
          log_message_def log_request_def send_response_only_def send_header_def
          end_headers_def send_response_def lower_Connection lower_close_eq lower_Server
          lower_Date lower_Content_Type lower_Content_Length)
  then show ?thesis unfolding page_def lm .
qed



lemma send_error_501_head:
  assumes "request_version h \<noteq> ''HTTP/0.9''" "headers_buffer h = None" "1 \<le> sendable h"
  shows "\<exists>rest es. trace (snd (send_error env 501 (Some m) None h)) =
           trace h @
           [Logged (log_line env (client_host h) (clock h) (''code 501, message '' @ m)),
            Logged (log_line env (client_host h) (clock h)
                      ([CHR 0x22] @ requestline h @ [CHR 0x22] @ '' 501 -'')),
            Sent (''HTTP/1.0 501 '' @ m @ CRLF @ rest)] @ es"
proof -
  define body where "body = utf8_encode (error_message_format 501 (html_escape m)
      (html_escape ''Server does not support this operation''))"
  define first where "first = block
           [log_error env (''code '' @ str_nat 501 @ '', message '' @ m),
             send_response env 501 (Some m),
             send_header ''Connection'' ''close'',
             send_header ''Content-Type'' error_content_type,
             send_header ''Content-Length'' (str_nat (length body)),
             end_headers]"
  define final :: action where "final = (\<lambda>h. case Some body of
                    None \<Rightarrow> (None, h)
                  | Some b \<Rightarrow> if command h \<noteq> Some ''HEAD'' \<and> b \<noteq> [] then wfile_write b h
                             else (None, h))"
  have "send_error env 501 (Some m) None h =
        block ([log_error env (''code '' @ str_nat 501 @ '', message '' @ m),
             send_response env 501 (Some m),
             send_header ''Connection'' ''close'',
             send_header ''Content-Type'' error_content_type,
             send_header ''Content-Length'' (str_nat (length body)),
             end_headers] @ [final]) h"
    unfolding final_def body_def
    by (simp add: send_error_def responses_def Let_def)
  then have eq: "send_error env 501 (Some m) None h = seq first (block [final]) h"
    unfolding first_def by (simp only: block_append)
  let ?sent = "''HTTP/1.0 501 '' @ m @ CRLF @
        (''Server: BaseHTTP/0.6 '' @ sys_version env @ CRLF @
         ''Date: '' @ date_time_string env (clock h) @ CRLF @
         ''Connection: close'' @ CRLF @
         ''Content-Type: text/html;charset=utf-8'' @ CRLF @
         ''Content-Length: '' @ str_nat (length body) @ CRLF @ CRLF)"
  let ?h1 = "h\<lparr>close_connection := True, headers_buffer := Some [],
      sendable := sendable h - 1,
      trace := trace h @
           [Logged (log_line env (client_host h) (clock h) (''code 501, message '' @ m)),
            Logged (log_line env (client_host h) (clock h)
                      ([CHR 0x22] @ requestline h @ [CHR 0x22] @ '' 501 -'')),
            Sent ?sent]\<rparr>"
  have f: "first h = (None, ?h1)"
    unfolding first_def using assms
    by (simp add: prims0 Let_def log_error_def str_nat_501 error_content_type_def
          lower_Connection lower_close_eq lower_Server lower_Date lower_Content_Type
          lower_Content_Length)
  have "quiet final" unfolding final_def by (rule quiet_error_body)
  then have "quiet (block [final])" by (intro quiet_block) simp
  then have "quiet_step (block [final] ?h1) ?h1" unfolding quiet_def by (rule spec)
  from quiet_stepD_trace [OF this]
  obtain es where es: "trace (snd (block [final] ?h1)) = trace ?h1 @ es \<and> slept es = 0 \<and>
      (sendable ?h1 = 0 \<longrightarrow> wire es = [])" by (rule exE)
  have "send_error env 501 (Some m) None h = block [final] ?h1"
    unfolding eq by (simp add: seq_def f)
  then have "trace (snd (send_error env 501 (Some m) None h)) = trace h @
           [Logged (log_line env (client_host h) (clock h) (''code 501, message '' @ m)),
            Logged (log_line env (client_host h) (clock h)
                      ([CHR 0x22] @ requestline h @ [CHR 0x22] @ '' 501 -'')),
            Sent ?sent] @ es"
    using es by simp
  then show ?thesis by blast
qed

lemma finish_other_start:
  assumes "dispatch_of (input c) = Some (cmd, v)" and "cmd \<noteq> ''GET''"
  shows "\<exists>H. finish_request env c t =
           except_TimeoutError env
             (send_error env 501 (Some (''Unsupported method ('' @ py_repr env cmd @ '')''))
                None H) \<and>
         command H = Some cmd \<and> request_version H = v \<and>
         requestline H = rstrip_crlf (fst (readline 65537 (input c))) \<and>
         client_host H = client_address c \<and> headers_buffer H = None \<and>
         sendable H = accepts c \<and> send_error_exn H = write_error c \<and>
         clock H = t \<and> trace H = []"
proof -
  have d: "dispatch_of (rfile (handler_setup c t)) = Some (cmd, v)"
    using assms by (simp add: handler_setup_fields)
  from handle_one_request_other [OF d assms(2), of env]
  obtain H where H: "handle_one_request env (handler_setup c t) =
        except_TimeoutError env
             (send_error env 501 (Some (''Unsupported method ('' @ py_repr env cmd @ '')''))
                None H)"
      "command H = Some cmd" "request_version H = v"
      "requestline H = rstrip_crlf (fst (readline 65537 (rfile (handler_setup c t))))"
      "client_host H = client_host (handler_setup c t)"
      "headers_buffer H = headers_buffer (handler_setup c t)"
      "sendable H = sendable (handler_setup c t)"
      "send_error_exn H = send_error_exn (handler_setup c t)"
      "clock H = clock (handler_setup c t)" "trace H = trace (handler_setup c t)"
    by blast
  show ?thesis
    by (rule exI [of _ H]) (use H in \<open>simp add: finish_request_once handler_setup_fields\<close>)
qed

lemma finish_other_head:
  assumes "dispatch_of (input c) = Some (cmd, v)" and "cmd \<noteq> ''GET''"
    and "v \<noteq> ''HTTP/0.9''" and "1 \<le> accepts c"
  shows "\<exists>rest. wire (trace (snd (finish_request env c t))) =
     ''HTTP/1.0 501 Unsupported method ('' @ py_repr env cmd @ '')'' @ CRLF @ rest"
proof -
  let ?m = "''Unsupported method ('' @ py_repr env cmd @ '')''"
  from finish_other_start [OF assms(1,2), of env t]
  obtain H where fin: "finish_request env c t =
           except_TimeoutError env (send_error env 501 (Some ?m) None H)"
    and p: "request_version H = v" "headers_buffer H = None" "sendable H = accepts c"
      "trace H = []"
    by blast
  let ?res = "send_error env 501 (Some ?m) None H"
  have "\<exists>rest es. trace (snd ?res) =
           trace H @
           [Logged (log_line env (client_host H) (clock H) (''code 501, message '' @ ?m)),
            Logged (log_line env (client_host H) (clock H)
                      ([CHR 0x22] @ requestline H @ [CHR 0x22] @ '' 501 -'')),
            Sent (''HTTP/1.0 501 '' @ ?m @ CRLF @ rest)] @ es"
    by (rule send_error_501_head) (use assms p in simp_all)
  then obtain rest es where tr: "trace (snd ?res) =
           trace H @
           [Logged (log_line env (client_host H) (clock H) (''code 501, message '' @ ?m)),
            Logged (log_line env (client_host H) (clock H)
                      ([CHR 0x22] @ requestline H @ [CHR 0x22] @ '' 501 -'')),
            Sent (''HTTP/1.0 501 '' @ ?m @ CRLF @ rest)] @ es"
    by blast
  from except_TimeoutError_facts [of env ?res]
  obtain es' where es': "trace (snd (except_TimeoutError env ?res)) = trace (snd ?res) @ es'"
    "wire es' = []" by (elim conjE exE) (rule that, simp_all)
  have "wire (trace (snd (finish_request env c t))) =
     ''HTTP/1.0 501 '' @ ?m @ CRLF @ (rest @ wire es)"
    unfolding fin es'(1) tr by (simp add: wire_append es'(2) p)
  then show ?thesis by (intro exI [of _ "rest @ wire es"]) simp
qed

lemma finish_other_09:
  assumes "dispatch_of (input c) = Some (cmd, ''HTTP/0.9'')" and "cmd \<noteq> ''GET''"
    and "cmd \<noteq> ''HEAD''" and "1 \<le> accepts c"
  shows "wire (trace (snd (finish_request env c t))) =
     utf8_encode (error_message_format 501
       (html_escape (''Unsupported method ('' @ py_repr env cmd @ '')''))
       (html_escape ''Server does not support this operation''))"
proof -
  let ?m = "''Unsupported method ('' @ py_repr env cmd @ '')''"
  from finish_other_start [OF assms(1,2), of env t]
  obtain H where fin: "finish_request env c t =
           except_TimeoutError env (send_error env 501 (Some ?m) None H)"
    and p: "command H = Some cmd" "request_version H = ''HTTP/0.9''" "sendable H = accepts c"
      "trace H = []"
    by blast
  have "send_error env 501 (Some ?m) None H =
    (None, H\<lparr>close_connection := True, sendable := sendable H - 1,
       trace := trace H @
         [Logged (log_line env (client_host H) (clock H)
                    (''code '' @ str_nat 501 @ '', message '' @ ?m)),
          Logged (log_line env (client_host H) (clock H)
                    ([CHR 0x22] @ requestline H @ [CHR 0x22] @ '' '' @ str_nat 501 @ '' -'')),
          Sent (utf8_encode (error_message_format 501 (html_escape ?m)
                  (html_escape (case None of
                      None \<Rightarrow> (case map_of responses 501 of
                                  Some p \<Rightarrow> snd p | None \<Rightarrow> ''???'')
                    | Some e \<Rightarrow> e))))]\<rparr>)"
    by (rule send_error_09) (use assms p in simp_all)
  then show ?thesis
    unfolding fin by (simp add: except_TimeoutError_None p responses_def)
qed

lemma parse_request_simple_other:
  assumes "split_words (rstrip_crlf (raw_requestline h)) = [cmd, p]" and "cmd \<noteq> ''GET''"
  shows "parse_request env h =
     (False, send_error env 400
        (Some (''Bad HTTP/0.9 request type ('' @ py_repr env cmd @ '')'')) None
        (h\<lparr>command := None, request_version := ''HTTP/0.9'',
           requestline := rstrip_crlf (raw_requestline h), close_connection := True\<rparr>))"
  using assms
  by (simp add: parse_request_def parse_version_def parse_command_def refuse_def Let_def
        default_request_version_def)

lemma str_nat_400: "str_nat 400 = ''400''" by code_simp

lemma refused_bad_request:
  assumes "readline 65537 (input c) = (line, rest)" and "line \<noteq> []"
    and "length line \<le> 65536"
    and "split_words (rstrip_crlf line) = [cmd, p]" and "cmd \<noteq> ''GET''"
    and "1 \<le> accepts c"
  shows "finish_request env c t =
    (None, (handler_setup c t)
       \<lparr>raw_requestline := line, rfile := rest, command := None,
        request_version := ''HTTP/0.9'', requestline := rstrip_crlf line,
        close_connection := True, sendable := accepts c - 1,
        trace :=
         [Logged (log_line env (client_address c) t
                    (''code 400, message Bad HTTP/0.9 request type ('' @ py_repr env cmd @ '')'')),
          Logged (log_line env (client_address c) t
                    ([CHR 0x22] @ rstrip_crlf line @ [CHR 0x22] @ '' 400 -'')),
          Sent (utf8_encode (error_message_format 400
                  (html_escape (''Bad HTTP/0.9 request type ('' @ py_repr env cmd @ '')''))
                  (html_escape ''Bad request syntax or unsupported method'')))]\<rparr>)"
proof -
  let ?h1 = "(handler_setup c t)\<lparr>raw_requestline := line, rfile := rest\<rparr>"
  let ?h2 = "?h1\<lparr>command := None, request_version := ''HTTP/0.9'',
           requestline := rstrip_crlf (raw_requestline ?h1), close_connection := True\<rparr>"
  let ?m = "''Bad HTTP/0.9 request type ('' @ py_repr env cmd @ '')''"
  have sw: "split_words (rstrip_crlf (raw_requestline ?h1)) = [cmd, p]"
    using assms(4) by simp
  have pr: "parse_request env ?h1 = (False, send_error env 400 (Some ?m) None ?h2)"
    by (rule parse_request_simple_other [OF sw assms(5)])
  have se: "send_error env 400 (Some ?m) None ?h2 =
    (None, ?h2\<lparr>close_connection := True, sendable := sendable ?h2 - 1,
       trace := trace ?h2 @
         [Logged (log_line env (client_host ?h2) (clock ?h2)
                    (''code '' @ str_nat 400 @ '', message '' @ ?m)),
          Logged (log_line env (client_host ?h2) (clock ?h2)
                    ([CHR 0x22] @ requestline ?h2 @ [CHR 0x22] @ '' '' @ str_nat 400 @ '' -'')),
          Sent (utf8_encode (error_message_format 400 (html_escape ?m)
                  (html_escape (case None of
                      None \<Rightarrow> (case map_of responses 400 of
                                  Some p \<Rightarrow> snd p | None \<Rightarrow> ''???'')
                    | Some e \<Rightarrow> e))))]\<rparr>)"
    by (rule send_error_09) (use assms(6) in \<open>simp_all add: handler_setup_def\<close>)
  have "handle_one_request env (handler_setup c t) =
        except_TimeoutError env (send_error env 400 (Some ?m) None ?h2)"
    using assms(1,2,3) pr
    by (simp add: handle_one_request_def handler_setup_fields Let_def)
  then show ?thesis
    unfolding finish_request_once se
    by (simp add: except_TimeoutError_None handler_setup_def responses_def str_nat_400)
qed

lemma post_without_version:
  "readline 65537 (simple_request ''POST'' ''/'') = (''POST /'' @ CRLF, []) \<and>
   split_words (rstrip_crlf (''POST /'' @ CRLF)) = [''POST'', ''/'']"
  by (simp add: reading)


subsection \<open>The serving loop\<close>

lemma finish_request_raises:
  assumes "fst (finish_request env c t) = Some e"
  shows "(e = write_error c \<or> e = AttributeError) \<and> e \<noteq> TimeoutError"
proof (cases "calls_do_GET (input c)")
  case True
  from finish_GET_any [OF True, of env t] assms show ?thesis by simp
next
  case False
  from finish_other_any [OF False, of env t] assms show ?thesis by simp
qed

lemma handle_request_noblock_frame:
  "server_address (snd (handle_request_noblock env c s)) = server_address s \<and>
   shutdown_flag (snd (handle_request_noblock env c s)) = shutdown_flag s \<and>
   now (snd (handle_request_noblock env c s)) = clock (snd (finish_request env c (now s))) \<and>
   (\<exists>l. served (snd (handle_request_noblock env c s)) = served s @ [l] \<and>
        peer l = client_address c \<and> accepted_at l = now s \<and>
        closed_at l = clock (snd (finish_request env c (now s))))"
proof (cases "finish_request env c (now s)")
  case (Pair x h)
  show ?thesis
  proof (cases x)
    case None
    then show ?thesis using Pair
      by (simp add: handle_request_noblock_def shutdown_request_def)
  next
    case (Some e)
    then show ?thesis using Pair
      by (simp add: handle_request_noblock_def shutdown_request_def)
  qed
qed

lemma handle_request_noblock_caught:
  assumes "is_Exception (write_error c)"
  shows "fst (handle_request_noblock env c s) = None"
proof (cases "finish_request env c (now s)")
  case (Pair x h)
  show ?thesis
  proof (cases x)
    case None
    then show ?thesis using Pair by (simp add: handle_request_noblock_def)
  next
    case (Some e)
    then have "fst (finish_request env c (now s)) = Some e" using Pair by simp
    from finish_request_raises [OF this] assms have "is_Exception e" by auto
    then show ?thesis using Pair Some by (simp add: handle_request_noblock_def)
  qed
qed

lemma serve_forever_frame:
  "\<exists>s'. final_server (serve_forever env xs s) = Some s' \<and>
        server_address s' = server_address s \<and> shutdown_flag s' = shutdown_flag s"
proof (induction xs arbitrary: s)
  case Nil
  show ?case by simp
next
  case (Cons x xs)
  show ?case
  proof (cases x)
    case Sigint
    then show ?thesis by simp
  next
    case Sigterm
    then show ?thesis by simp
  next
    case (Incoming c)
    obtain r s1 where h: "handle_request_noblock env c s = (r, s1)"
      by (cases "handle_request_noblock env c s")
    from handle_request_noblock_frame [of env c s] h
    have f: "server_address s1 = server_address s" "shutdown_flag s1 = shutdown_flag s"
      by simp_all
    show ?thesis
    proof (cases r)
      case None
      from Cons.IH [of s1] f show ?thesis using Incoming h None by auto
    next
      case (Some e)
      then show ?thesis using Incoming h f by simp
    qed
  qed
qed

lemma serve_forever_never_returns:
  "\<not> shutdown_flag s \<Longrightarrow> exit_status (serve_forever env xs s) \<noteq> Exited 0"
proof (induction xs arbitrary: s)
  case Nil
  then show ?case by simp
next
  case (Cons x xs)
  show ?case
  proof (cases x)
    case Sigint
    then show ?thesis using Cons.prems by simp
  next
    case Sigterm
    then show ?thesis using Cons.prems by simp
  next
    case (Incoming c)
    obtain r s1 where h: "handle_request_noblock env c s = (r, s1)"
      by (cases "handle_request_noblock env c s")
    from handle_request_noblock_frame [of env c s] h
    have f: "shutdown_flag s1 = shutdown_flag s" by simp
    show ?thesis
    proof (cases r)
      case None
      from Cons.IH [of s1] f Cons.prems show ?thesis using Incoming h None by simp
    next
      case (Some e)
      then show ?thesis using Incoming h Cons.prems by simp
    qed
  qed
qed


lemma serve_all_get:
  assumes "\<forall>c\<in>set cs. calls_do_GET (input c) \<and> is_Exception (write_error c)"
    and "\<not> shutdown_flag s"
  shows "\<exists>s'. serve_forever env (map Incoming cs) s = Waiting s' \<and>
     map closed_at (served s') =
       map closed_at (served s) @ map (\<lambda>k. now s + 5 * Suc k) [0..<length cs] \<and>
     map accepted_at (served s') =
       map accepted_at (served s) @ map (\<lambda>k. now s + 5 * k) [0..<length cs] \<and>
     map peer (served s') = map peer (served s) @ map client_address cs"
  using assms
proof (induction cs arbitrary: s)
  case Nil
  then show ?case by simp
next
  case (Cons c cs)
  from Cons.prems(1) have g: "calls_do_GET (input c)" and x: "is_Exception (write_error c)"
    and rest: "\<forall>c\<in>set cs. calls_do_GET (input c) \<and> is_Exception (write_error c)"
    by simp_all
  have clk: "clock (snd (finish_request env c (now s))) = now s + 5"
    by (rule finish_GET_any [OF g, THEN conjunct1])
  obtain res s1 where h: "handle_request_noblock env c s = (res, s1)"
    by (cases "handle_request_noblock env c s")
  have res: "res = None" using handle_request_noblock_caught [OF x, of env s] h by simp
  from handle_request_noblock_frame [of env c s] h clk
  obtain l where f: "shutdown_flag s1 = shutdown_flag s" "now s1 = now s + 5"
    "served s1 = served s @ [l]" "accepted_at l = now s" "closed_at l = now s + 5"
    "peer l = client_address c"
    by auto
  from Cons.IH [OF rest, of s1] f(1) Cons.prems(2)
  obtain s' where s': "serve_forever env (map Incoming cs) s1 = Waiting s'"
    "map closed_at (served s') =
       map closed_at (served s1) @ map (\<lambda>k. now s1 + 5 * Suc k) [0..<length cs]"
    "map accepted_at (served s') =
       map accepted_at (served s1) @ map (\<lambda>k. now s1 + 5 * k) [0..<length cs]"
    "map peer (served s') = map peer (served s1) @ map client_address cs"
    by auto
  have run: "serve_forever env (map Incoming (c # cs)) s = Waiting s'"
    using Cons.prems(2) h res s'(1) by simp
  have c1: "map closed_at (served s') =
       map closed_at (served s) @ map (\<lambda>k. now s + 5 * Suc k) [0..<length (c # cs)]"
    using s'(2) f by (simp add: map_upt_Suc del: upt_Suc)
  have c2: "map accepted_at (served s') =
       map accepted_at (served s) @ map (\<lambda>k. now s + 5 * k) [0..<length (c # cs)]"
    using s'(3) f by (simp add: map_upt_Suc del: upt_Suc)
  have c3: "map peer (served s') = map peer (served s) @ map client_address (c # cs)"
    using s'(4) f by simp
  show ?case by (rule exI [of _ s']) (intro conjI run c1 c2 c3)
qed


subsection \<open>What one connection can change for the others\<close>

lemma finish_request_clock_requests:
  assumes "input c' = input c"
  shows "clock (snd (finish_request env c' t)) = clock (snd (finish_request env c t))"
proof (cases "calls_do_GET (input c)")
  case True
  then have c': "calls_do_GET (input c')" using assms by simp
  from finish_GET_any [OF True, of env t] finish_GET_any [OF c', of env t]
  show ?thesis by simp
next
  case False
  then have c': "\<not> calls_do_GET (input c')" using assms by simp
  from finish_other_any [OF False, of env t] finish_other_any [OF c', of env t]
  show ?thesis by simp
qed

lemma finish_request_gone_wire:
  assumes "accepts c = 0"
  shows "wire (trace (snd (finish_request env c t))) = []"
proof (cases "calls_do_GET (input c)")
  case True
  from finish_GET_any [OF True, of env t] assms show ?thesis by auto
next
  case False
  from finish_other_any [OF False, of env t] assms show ?thesis by auto
qed

lemma wire_Traceback: "wire (es @ [Traceback e]) = wire es"
  by (simp add: wire_append)

lemma handle_request_noblock_shape:
  "\<exists>r l. (\<forall>s. now s = n \<longrightarrow>
        handle_request_noblock env c s =
          (r, s\<lparr>now := clock (snd (finish_request env c n)), served := served s @ [l]\<rparr>)) \<and>
      wire (events l) = wire (trace (snd (finish_request env c n)))"
proof (cases "finish_request env c n")
  case (Pair x h)
  show ?thesis
  proof (cases x)
    case None
    let ?l = "\<lparr>peer = client_address c, accepted_at = n, events = trace h, closed_at = clock h\<rparr>"
    have "\<forall>s. now s = n \<longrightarrow> handle_request_noblock env c s =
          (None, s\<lparr>now := clock (snd (finish_request env c n)), served := served s @ [?l]\<rparr>)"
      using Pair None by (simp add: handle_request_noblock_def shutdown_request_def)
    moreover have "wire (events ?l) = wire (trace (snd (finish_request env c n)))"
      using Pair by simp
    ultimately show ?thesis by blast
  next
    case (Some e)
    let ?evs = "if is_Exception e then trace h @ [Traceback e] else trace h"
    let ?l = "\<lparr>peer = client_address c, accepted_at = n, events = ?evs, closed_at = clock h\<rparr>"
    have "\<forall>s. now s = n \<longrightarrow> handle_request_noblock env c s =
          (if is_Exception e then None else Some e,
           s\<lparr>now := clock (snd (finish_request env c n)), served := served s @ [?l]\<rparr>)"
      using Pair Some by (simp add: handle_request_noblock_def shutdown_request_def)
    moreover have "wire (events ?l) = wire (trace (snd (finish_request env c n)))"
      using Pair by (simp add: wire_Traceback)
    ultimately show ?thesis by blast
  qed
qed

lemma serve_forever_append_only:
  assumes "server_address s = server_address s'" "shutdown_flag s = shutdown_flag s'"
    "now s = now s'"
  shows "\<exists>D. served_of (serve_forever env xs s) = served s @ D \<and>
             served_of (serve_forever env xs s') = served s' @ D \<and>
             exit_status (serve_forever env xs s) = exit_status (serve_forever env xs s')"
  using assms
proof (induction xs arbitrary: s s')
  case Nil
  then show ?case by (simp add: served_of_def)
next
  case (Cons x xs)
  show ?case
  proof (cases "shutdown_flag s")
    case True
    then show ?thesis using Cons.prems by (simp add: served_of_def)
  next
    case False
    then have F': "\<not> shutdown_flag s'" using Cons.prems by simp
    show ?thesis
    proof (cases x)
      case Sigint
      then show ?thesis using False F' by (simp add: served_of_def)
    next
      case Sigterm
      then show ?thesis using False F' by (simp add: served_of_def)
    next
      case (Incoming c)
      from handle_request_noblock_shape [of "now s" env c]
      obtain r l where sh: "\<forall>s0. now s0 = now s \<longrightarrow>
        handle_request_noblock env c s0 =
          (r, s0\<lparr>now := clock (snd (finish_request env c (now s))), served := served s0 @ [l]\<rparr>)"
        by blast
      let ?t = "clock (snd (finish_request env c (now s)))"
      let ?s1 = "s\<lparr>now := ?t, served := served s @ [l]\<rparr>"
      let ?s1' = "s'\<lparr>now := ?t, served := served s' @ [l]\<rparr>"
      have h: "handle_request_noblock env c s = (r, ?s1)" using sh by simp
      have h': "handle_request_noblock env c s' = (r, ?s1')" using sh Cons.prems(3) by simp
      show ?thesis
      proof (cases r)
        case (Some e)
        have "served_of (serve_forever env (x # xs) s) = served s @ [l]"
          using Incoming False h Some by (simp add: served_of_def)
        moreover have "served_of (serve_forever env (x # xs) s') = served s' @ [l]"
          using Incoming F' h' Some by (simp add: served_of_def)
        moreover have "exit_status (serve_forever env (x # xs) s) =
            exit_status (serve_forever env (x # xs) s')"
          using Incoming False F' h h' Some by simp
        ultimately show ?thesis by blast
      next
        case None
        have "\<exists>D. served_of (serve_forever env xs ?s1) = served ?s1 @ D \<and>
             served_of (serve_forever env xs ?s1') = served ?s1' @ D \<and>
             exit_status (serve_forever env xs ?s1) = exit_status (serve_forever env xs ?s1')"
          by (rule Cons.IH) (use Cons.prems in simp_all)
        then obtain D where D: "served_of (serve_forever env xs ?s1) = served ?s1 @ D"
             "served_of (serve_forever env xs ?s1') = served ?s1' @ D"
             "exit_status (serve_forever env xs ?s1) = exit_status (serve_forever env xs ?s1')"
          by blast
        have e1: "serve_forever env (x # xs) s = serve_forever env xs ?s1"
          using Incoming False h None by simp
        have e2: "serve_forever env (x # xs) s' = serve_forever env xs ?s1'"
          using Incoming F' h' None by simp
        have "served_of (serve_forever env (x # xs) s) = served s @ (l # D)"
          unfolding e1 D(1) by simp
        moreover have "served_of (serve_forever env (x # xs) s') = served s' @ (l # D)"
          unfolding e2 D(2) by simp
        moreover have "exit_status (serve_forever env (x # xs) s) =
            exit_status (serve_forever env (x # xs) s')"
          unfolding e1 e2 by (rule D(3))
        ultimately show ?thesis by blast
      qed
    qed
  qed
qed

lemma others_middle: "others (length A) (A @ l # D) = A @ D"
  by (simp add: others_def)

lemma isolation:
  assumes x: "is_Exception (write_error c)" and x': "is_Exception (write_error c')"
    and rq: "input c' = input c"
  shows "others (length (served s) + length pre)
           (served_of (serve_forever env (pre @ Incoming c # post) s)) =
         others (length (served s) + length pre)
           (served_of (serve_forever env (pre @ Incoming c' # post) s)) \<and>
         exit_status (serve_forever env (pre @ Incoming c # post) s) =
         exit_status (serve_forever env (pre @ Incoming c' # post) s)"
proof (induction pre arbitrary: s)
  case Nil
  show ?case
  proof (cases "shutdown_flag s")
    case True
    then show ?thesis by simp
  next
    case False
    let ?t = "clock (snd (finish_request env c (now s)))"
    from handle_request_noblock_shape [of "now s" env c]
    obtain r l where sh: "\<forall>s0. now s0 = now s \<longrightarrow>
        handle_request_noblock env c s0 =
          (r, s0\<lparr>now := ?t, served := served s0 @ [l]\<rparr>)"
      by blast
    from handle_request_noblock_shape [of "now s" env c']
    obtain r' l' where sh': "\<forall>s0. now s0 = now s \<longrightarrow>
        handle_request_noblock env c' s0 =
          (r', s0\<lparr>now := clock (snd (finish_request env c' (now s))), served := served s0 @ [l']\<rparr>)"
      by blast
    have t: "clock (snd (finish_request env c' (now s))) = ?t"
      by (rule finish_request_clock_requests [OF rq])
    let ?s1 = "s\<lparr>now := ?t, served := served s @ [l]\<rparr>"
    let ?s1' = "s\<lparr>now := ?t, served := served s @ [l']\<rparr>"
    have h: "handle_request_noblock env c s = (r, ?s1)" using sh by simp
    have h': "handle_request_noblock env c' s = (r', ?s1')" using sh' t by simp
    have r: "r = None" using handle_request_noblock_caught [OF x, of env s] h by simp
    have r': "r' = None" using handle_request_noblock_caught [OF x', of env s] h' by simp
    have "\<exists>D. served_of (serve_forever env post ?s1) = served ?s1 @ D \<and>
             served_of (serve_forever env post ?s1') = served ?s1' @ D \<and>
             exit_status (serve_forever env post ?s1) = exit_status (serve_forever env post ?s1')"
      by (rule serve_forever_append_only) simp_all
    then obtain D where D: "served_of (serve_forever env post ?s1) = served ?s1 @ D"
             "served_of (serve_forever env post ?s1') = served ?s1' @ D"
             "exit_status (serve_forever env post ?s1) = exit_status (serve_forever env post ?s1')"
      by blast
    have e1: "serve_forever env ([] @ Incoming c # post) s = serve_forever env post ?s1"
      using False h r by simp
    have e2: "serve_forever env ([] @ Incoming c' # post) s = serve_forever env post ?s1'"
      using False h' r' by simp
    have o1: "others (length (served s) + length ([]::stimulus list))
        (served_of (serve_forever env ([] @ Incoming c # post) s)) = served s @ D"
      unfolding e1 D(1) using others_middle [of "served s" l D] by simp
    have o2: "others (length (served s) + length ([]::stimulus list))
        (served_of (serve_forever env ([] @ Incoming c' # post) s)) = served s @ D"
      unfolding e2 D(2) using others_middle [of "served s" l' D] by simp
    have B: "exit_status (serve_forever env ([] @ Incoming c # post) s) =
         exit_status (serve_forever env ([] @ Incoming c' # post) s)"
      by (simp only: e1 e2 D(3))
    show ?thesis by (intro conjI trans [OF o1 o2 [symmetric]] B)
  qed
next
  case (Cons y pre)
  show ?case
  proof (cases "shutdown_flag s")
    case True
    then show ?thesis by simp
  next
    case False
    show ?thesis
    proof (cases y)
      case Sigint
      then show ?thesis using False by simp
    next
      case Sigterm
      then show ?thesis using False by simp
    next
      case (Incoming d)
      from handle_request_noblock_shape [of "now s" env d]
      obtain r l where sh: "\<forall>s0. now s0 = now s \<longrightarrow>
        handle_request_noblock env d s0 =
          (r, s0\<lparr>now := clock (snd (finish_request env d (now s))), served := served s0 @ [l]\<rparr>)"
        by blast
      let ?s1 = "s\<lparr>now := clock (snd (finish_request env d (now s))), served := served s @ [l]\<rparr>"
      have h: "handle_request_noblock env d s = (r, ?s1)" using sh by simp
      show ?thesis
      proof (cases r)
        case (Some e)
        then show ?thesis using Incoming False h by simp
      next
        case None
        have e1: "serve_forever env ((y # pre) @ Incoming c # post) s =
            serve_forever env (pre @ Incoming c # post) ?s1"
          using Incoming False h None by simp
        have e2: "serve_forever env ((y # pre) @ Incoming c' # post) s =
            serve_forever env (pre @ Incoming c' # post) ?s1"
          using Incoming False h None by simp
        have n: "length (served s) + length (y # pre) = length (served ?s1) + length pre"
          by simp
        show ?thesis unfolding e1 e2 n by (rule Cons.IH)
      qed
    qed
  qed
qed

lemma main_all_get:
  assumes "\<forall>c\<in>set cs. calls_do_GET (input c) \<and> is_Exception (write_error c)"
  shows "completion_times (main env argv None (map Incoming cs)) =
           map (\<lambda>k. 5 * (k + 1)) [0..<length cs] \<and>
         map accepted_at (served_of (main env argv None (map Incoming cs))) =
           map (\<lambda>k. 5 * k) [0..<length cs] \<and>
         map peer (served_of (main env argv None (map Incoming cs))) = map client_address cs"
proof -
  let ?s0 = "\<lparr>server_address = (''0.0.0.0'', 80), shutdown_flag = False, now = 0, served = []\<rparr>"
  have "\<not> shutdown_flag ?s0" by simp
  from serve_all_get [OF assms this, of env]
  obtain s' where s': "serve_forever env (map Incoming cs) ?s0 = Waiting s'"
    "map closed_at (served s') = map (\<lambda>k. 5 * Suc k) [0..<length cs]"
    "map accepted_at (served s') = map (\<lambda>k. 5 * k) [0..<length cs]"
    "map peer (served s') = map client_address cs"
    by auto
  have m: "main env argv None (map Incoming cs) = Waiting s'"
    using s'(1) by (simp add: main_def HTTPServer_def)
  show ?thesis
    unfolding m using s'(2,3,4) by (simp add: completion_times_def served_of_def)
qed

lemma handle_request_noblock_wire:
  "wire (events (last (served (snd (handle_request_noblock env c s))))) =
   wire (trace (snd (finish_request env c (now s))))"
proof -
  from handle_request_noblock_shape [of "now s" env c]
  obtain r l where sh: "\<forall>s0. now s0 = now s \<longrightarrow>
        handle_request_noblock env c s0 =
          (r, s0\<lparr>now := clock (snd (finish_request env c (now s))), served := served s0 @ [l]\<rparr>)"
    and w: "wire (events l) = wire (trace (snd (finish_request env c (now s))))"
    by blast
  have "handle_request_noblock env c s =
          (r, s\<lparr>now := clock (snd (finish_request env c (now s))), served := served s @ [l]\<rparr>)"
    using sh by simp
  then show ?thesis using w by simp
qed

lemma main_serve:
  "main env argv None xs =
   serve_forever env xs \<lparr>server_address = (''0.0.0.0'', 80), shutdown_flag = False, now = 0, served = []\<rparr>"
  by (simp add: main_def HTTPServer_def)



lemma parse_request_version_2:
  assumes "split_words (rstrip_crlf (raw_requestline h)) = [cmd, p, v]"
    and "version_number v = Some vn" and "pair_ge vn (2, 0)"
  shows "parse_request env h =
     (False, send_error env 505
        (Some (''Invalid HTTP version ('' @ base_version_number v @ '')'')) None
        (h\<lparr>command := None, request_version := ''HTTP/0.9'', close_connection := True,
           requestline := rstrip_crlf (raw_requestline h)\<rparr>))"
  using assms
  by (simp add: parse_request_def parse_version_def refuse_def Let_def
        default_request_version_def)

lemma str_nat_505: "str_nat 505 = ''505''" by code_simp

lemma refused_version:
  assumes "readline 65537 (input c) = (line, rest)" and "line \<noteq> []"
    and "length line \<le> 65536"
    and "split_words (rstrip_crlf line) = [cmd, p, v]"
    and "version_number v = Some vn" and "pair_ge vn (2, 0)"
    and "1 \<le> accepts c"
  shows "finish_request env c t =
    (None, (handler_setup c t)
       \<lparr>raw_requestline := line, rfile := rest, command := None,
        request_version := ''HTTP/0.9'', requestline := rstrip_crlf line,
        close_connection := True, sendable := accepts c - 1,
        trace :=
         [Logged (log_line env (client_address c) t
                    (''code 505, message Invalid HTTP version ('' @ base_version_number v @ '')'')),
          Logged (log_line env (client_address c) t
                    ([CHR 0x22] @ rstrip_crlf line @ [CHR 0x22] @ '' 505 -'')),
          Sent (utf8_encode (error_message_format 505
                  (html_escape (''Invalid HTTP version ('' @ base_version_number v @ '')''))
                  (html_escape ''Cannot fulfill request'')))]\<rparr>)"
proof -
  let ?h1 = "(handler_setup c t)\<lparr>raw_requestline := line, rfile := rest\<rparr>"
  let ?h2 = "?h1\<lparr>command := None, request_version := ''HTTP/0.9'', close_connection := True,
           requestline := rstrip_crlf (raw_requestline ?h1)\<rparr>"
  let ?m = "''Invalid HTTP version ('' @ base_version_number v @ '')''"
  have sw: "split_words (rstrip_crlf (raw_requestline ?h1)) = [cmd, p, v]"
    using assms(4) by simp
  have pr: "parse_request env ?h1 = (False, send_error env 505 (Some ?m) None ?h2)"
    by (rule parse_request_version_2 [OF sw assms(5,6)])
  have se: "send_error env 505 (Some ?m) None ?h2 =
    (None, ?h2\<lparr>close_connection := True, sendable := sendable ?h2 - 1,
       trace := trace ?h2 @
         [Logged (log_line env (client_host ?h2) (clock ?h2)
                    (''code '' @ str_nat 505 @ '', message '' @ ?m)),
          Logged (log_line env (client_host ?h2) (clock ?h2)
                    ([CHR 0x22] @ requestline ?h2 @ [CHR 0x22] @ '' '' @ str_nat 505 @ '' -'')),
          Sent (utf8_encode (error_message_format 505 (html_escape ?m)
                  (html_escape (case None of
                      None \<Rightarrow> (case map_of responses 505 of
                                  Some p \<Rightarrow> snd p | None \<Rightarrow> ''???'')
                    | Some e \<Rightarrow> e))))]\<rparr>)"
    by (rule send_error_09) (use assms(7) in \<open>simp_all add: handler_setup_def\<close>)
  have "handle_one_request env (handler_setup c t) =
        except_TimeoutError env (send_error env 505 (Some ?m) None ?h2)"
    using assms(1,2,3) pr
    by (simp add: handle_one_request_def handler_setup_fields Let_def)
  then show ?thesis
    unfolding finish_request_once se
    by (simp add: except_TimeoutError_None handler_setup_def responses_def str_nat_505)
qed

lemma sleeps_iff_do_GET:
  "slept (trace (snd (finish_request env c t))) = (if calls_do_GET (input c) then 5 else 0) \<and>
   clock (snd (finish_request env c t)) = t + (if calls_do_GET (input c) then 5 else 0)"
proof (cases "calls_do_GET (input c)")
  case True
  from finish_GET_any [OF True, of env t] show ?thesis using True by auto
next
  case False
  from finish_other_any [OF False, of env t] show ?thesis using False by auto
qed


subsection \<open>What happens on the connection\<close>

lemma on_connection_append: "on_connection (xs @ ys) = on_connection xs @ on_connection ys"
  by (induction xs rule: on_connection.induct) auto

lemma send_error_09_HEAD:
  assumes "request_version h = ''HTTP/0.9''" and "command h = Some ''HEAD''"
  shows "send_error env code (Some m) x h =
    (None, h\<lparr>close_connection := True,
       trace := trace h @
         [Logged (log_line env (client_host h) (clock h)
                    (''code '' @ str_nat code @ '', message '' @ m)),
          Logged (log_line env (client_host h) (clock h)
                    ([CHR 0x22] @ requestline h @ [CHR 0x22] @ '' '' @ str_nat code @ '' -''))]\<rparr>)"
proof -
  obtain shortmsg longmsg where sl:
    "(case map_of responses code of Some p \<Rightarrow> p | None \<Rightarrow> (''???'', ''???'')) = (shortmsg, longmsg)"
    by (cases "case map_of responses code of Some p \<Rightarrow> p | None \<Rightarrow> (''???'', ''???'')")
  show ?thesis
    using assms
    by (simp add: send_error_def sl Let_def log_error_def seq_def time_sleep_def wfile_write_def
          log_message_def log_request_def send_response_only_def send_header_def
          end_headers_def send_response_def lower_Connection lower_close_eq lower_Server
          lower_Date lower_Content_Type lower_Content_Length)
qed

lemma finish_other_09_events:
  assumes "dispatch_of (input c) = Some (cmd, ''HTTP/0.9'')" and "cmd \<noteq> ''GET''"
    and "1 \<le> accepts c"
  shows "on_connection (trace (snd (finish_request env c t))) =
     (if cmd = ''HEAD'' then []
      else [Sent (utf8_encode (error_message_format 501
              (html_escape (''Unsupported method ('' @ py_repr env cmd @ '')''))
              (html_escape ''Server does not support this operation'')))])"
proof -
  let ?m = "''Unsupported method ('' @ py_repr env cmd @ '')''"
  from finish_other_start [OF assms(1,2), of env t]
  obtain H where fin: "finish_request env c t =
           except_TimeoutError env (send_error env 501 (Some ?m) None H)"
    and p: "command H = Some cmd" "request_version H = ''HTTP/0.9''" "sendable H = accepts c"
      "trace H = []"
    by blast
  show ?thesis
  proof (cases "cmd = ''HEAD''")
    case True
    have "send_error env 501 (Some ?m) None H =
      (None, H\<lparr>close_connection := True,
       trace := trace H @
         [Logged (log_line env (client_host H) (clock H)
                    (''code '' @ str_nat 501 @ '', message '' @ ?m)),
          Logged (log_line env (client_host H) (clock H)
                    ([CHR 0x22] @ requestline H @ [CHR 0x22] @ '' '' @ str_nat 501 @ '' -''))]\<rparr>)"
      by (rule send_error_09_HEAD) (use True p in simp_all)
    then show ?thesis
      unfolding fin using True by (simp add: except_TimeoutError_None p)
  next
    case False
    have "send_error env 501 (Some ?m) None H =
      (None, H\<lparr>close_connection := True, sendable := sendable H - 1,
       trace := trace H @
         [Logged (log_line env (client_host H) (clock H)
                    (''code '' @ str_nat 501 @ '', message '' @ ?m)),
          Logged (log_line env (client_host H) (clock H)
                    ([CHR 0x22] @ requestline H @ [CHR 0x22] @ '' '' @ str_nat 501 @ '' -'')),
          Sent (utf8_encode (error_message_format 501 (html_escape ?m)
                  (html_escape (case None of
                      None \<Rightarrow> (case map_of responses 501 of
                                  Some p \<Rightarrow> snd p | None \<Rightarrow> ''???'')
                    | Some e \<Rightarrow> e))))]\<rparr>)"
      by (rule send_error_09) (use False assms p in simp_all)
    then show ?thesis
      unfolding fin using False by (simp add: except_TimeoutError_None p responses_def)
  qed
qed

lemma finish_GET_events:
  assumes "dispatch_of (input c) = Some (''GET'', v)" and "2 \<le> accepts c"
  shows "fst (finish_request env c t) = None \<and>
     clock (snd (finish_request env c t)) = t + 5 \<and>
     on_connection (trace (snd (finish_request env c t))) =
       Slept 5 #
       (if v = ''HTTP/0.9'' then []
        else [Sent (''HTTP/1.0 200 OK'' @ CRLF @
                    ''Server: BaseHTTP/0.6 '' @ sys_version env @ CRLF @
                    ''Date: '' @ date_time_string env (t + 5) @ CRLF @
                    ''Content-type: text/plain'' @ CRLF @ CRLF)]) @
       [Sent ''Response from SLOW SERVER (5s delay)''] \<and>
     write_times t (trace (snd (finish_request env c t))) =
       (if v = ''HTTP/0.9'' then [t + 5] else [t + 5, t + 5]) \<and>
     wire (trace (snd (finish_request env c t))) =
       (if v = ''HTTP/0.9'' then []
        else ''HTTP/1.0 200 OK'' @ CRLF @
             ''Server: BaseHTTP/0.6 '' @ sys_version env @ CRLF @
             ''Date: '' @ date_time_string env (t + 5) @ CRLF @
             ''Content-type: text/plain'' @ CRLF @ CRLF) @
       ''Response from SLOW SERVER (5s delay)''"
proof (cases "v = ''HTTP/0.9''")
  case True
  have "1 \<le> accepts c" using assms(2) by simp
  from finish_GET_ok_09 [OF assms(1) [unfolded True] this, of env t]
  show ?thesis using True by simp
next
  case False
  from finish_GET_ok [OF assms(1) False assms(2), of env t]
  show ?thesis using False by simp
qed

lemma finish_GET_gone_events:
  assumes "calls_do_GET (input c)" and "accepts c = 0"
  shows "on_connection (trace (snd (finish_request env c t))) =
           [Slept 5, SendFailed (write_error c)]"
proof -
  from assms(1) obtain v where d: "dispatch_of (input c) = Some (''GET'', v)"
    by (auto simp add: calls_do_GET_iff)
  from finish_GET_gone [OF d assms(2), of env t] show ?thesis by simp
qed

section \<open>The claims\<close>

subsection \<open>C1: connections are served one after the other\<close>

text \<open>
  Claim C1, as amended. The specification has connections issued together handled
  concurrently, each done after about five seconds. The program builds a plain
  \<^verbatim>\<open>HTTPServer\<close>, whose loop handles one request at a time. Of \<open>N\<close> connections that
  are waiting together at the start, each with a request that reaches \<^verbatim>\<open>do_GET\<close> (a
  \<^verbatim>\<open>GET\<close> request that the base class accepts), the server takes them in the order in
  which they wait; it accepts the \<open>k\<close>-th (counting from 0) only at clock value
  \<open>5 * k\<close>, when it has closed the one before, and closes it at \<open>5 * (k + 1)\<close>:
  requests are serialised, and the last is done after \<open>N\<close> times the delay.
\<close>

theorem requests_are_serialised:
  assumes "\<forall>c\<in>set cs. calls_do_GET (input c) \<and> is_Exception (write_error c)"
  shows "completion_times (main env argv None (map Incoming cs)) =
           map (\<lambda>k. 5 * (k + 1)) [0..<length cs] \<and>
         map accepted_at (served_of (main env argv None (map Incoming cs))) =
           map (\<lambda>k. 5 * k) [0..<length cs] \<and>
         map peer (served_of (main env argv None (map Incoming cs))) = map client_address cs"
  using assms by (rule main_all_get)

theorem requests_are_serialised_witness:
  "completion_times (main example_env [] None
      [Incoming (example_connection ''GET'' ''/'' 2),
       Incoming ((example_connection ''GET'' ''/x'' 0)\<lparr>client_address := ''10.0.0.8''\<rparr>),
       Incoming ((example_connection ''GET'' ''/y'' 2)\<lparr>client_address := ''10.0.0.9''\<rparr>)]) =
     [5, 10, 15] \<and>
   map accepted_at (served_of (main example_env [] None
      [Incoming (example_connection ''GET'' ''/'' 2),
       Incoming ((example_connection ''GET'' ''/x'' 0)\<lparr>client_address := ''10.0.0.8''\<rparr>),
       Incoming ((example_connection ''GET'' ''/y'' 2)\<lparr>client_address := ''10.0.0.9''\<rparr>)])) =
     [0, 5, 10] \<and>
   map peer (served_of (main example_env [] None
      [Incoming (example_connection ''GET'' ''/'' 2),
       Incoming ((example_connection ''GET'' ''/x'' 0)\<lparr>client_address := ''10.0.0.8''\<rparr>),
       Incoming ((example_connection ''GET'' ''/y'' 2)\<lparr>client_address := ''10.0.0.9''\<rparr>)])) =
     [''10.0.0.7'', ''10.0.0.8'', ''10.0.0.9'']"
proof -
  let ?cs = "[example_connection ''GET'' ''/'' 2,
              (example_connection ''GET'' ''/x'' 0)\<lparr>client_address := ''10.0.0.8''\<rparr>,
              (example_connection ''GET'' ''/y'' 2)\<lparr>client_address := ''10.0.0.9''\<rparr>]"
  have a: "\<forall>c\<in>set ?cs. calls_do_GET (input c) \<and> is_Exception (write_error c)"
    by (simp add: calls_do_GET_def example_connection_def connection_of_def reading)
  have u: "[0..<length ?cs] = [0, 1, 2]" by (simp add: upt_rec)
  from requests_are_serialised [OF a, of example_env "[]"]
  show ?thesis unfolding u by (simp add: example_connection_def connection_of_def)
qed

text \<open>The claim as stated fails for two connections issued together: the second is
  done after ten seconds, twice the delay.\<close>

theorem second_request_waits_for_first:
  "completion_times (main example_env [] None
      [Incoming (example_connection ''GET'' ''/'' 2),
       Incoming (example_connection ''GET'' ''/'' 2)]) = [5, 10]"
proof -
  let ?cs = "[example_connection ''GET'' ''/'' 2, example_connection ''GET'' ''/'' 2]"
  have a: "\<forall>c\<in>set ?cs. calls_do_GET (input c) \<and> is_Exception (write_error c)"
    by (simp add: calls_do_GET_def example_connection_def connection_of_def reading)
  have u: "[0..<length ?cs] = [0, 1]" by (simp add: upt_rec)
  from main_all_get [OF a, of example_env "[]"]
  show ?thesis unfolding u by simp
qed

subsection \<open>C2: which requests are treated alike\<close>

text \<open>
  Claim C2, as amended. The specification has every request, whatever its method and
  path, answered by the delay and the fixed reply. The handler class defines
  \<^verbatim>\<open>do_GET\<close> and nothing else, and the base class calls a method only for a request it
  accepts and only if the class has a method named after the request's method. So: every
  request that the base class accepts and whose method is \<^verbatim>\<open>GET\<close>, whatever its path,
  the content of its header fields and its body, gets the same behaviour, the delay of
  five seconds followed by the same reply; the reply is the fixed reply with status 200
  when the request line carries a version token other than \<^verbatim>\<open>HTTP/0.9\<close>, and the fixed
  body alone when the request is an HTTP/0.9 request. (The peers read the reply, and the
  two requests are served at the same clock value, which the \<^verbatim>\<open>Date\<close> field shows.) No
  other request is treated this way: a request that does not reach \<^verbatim>\<open>do_GET\<close> (another
  method, or a request line or a block of header lines that the base class refuses) is
  answered without the delay.
\<close>

theorem get_requests_alike:
  assumes "dispatch_of (input c1) = Some (''GET'', v1)" and "2 \<le> accepts c1"
    and "dispatch_of (input c2) = Some (''GET'', v2)" and "2 \<le> accepts c2"
    and "(v1 = ''HTTP/0.9'') = (v2 = ''HTTP/0.9'')"
  shows "clock (snd (finish_request env c1 t)) = t + 5 \<and>
     clock (snd (finish_request env c2 t)) = t + 5 \<and>
     on_connection (trace (snd (finish_request env c1 t))) =
       on_connection (trace (snd (finish_request env c2 t))) \<and>
     wire (trace (snd (finish_request env c1 t))) = wire (trace (snd (finish_request env c2 t))) \<and>
     take 15 (wire (trace (snd (finish_request env c1 t)))) =
       (if v1 = ''HTTP/0.9'' then ''Response from S'' else ''HTTP/1.0 200 OK'') \<and>
     (\<not> calls_do_GET (input c3) \<longrightarrow>
        clock (snd (finish_request env c3 t)) = t \<and>
        slept (trace (snd (finish_request env c3 t))) = 0)"
proof -
  note a = finish_GET_events [OF assms(1,2), of env t]
  note b = finish_GET_events [OF assms(3,4), of env t]
  have k1: "clock (snd (finish_request env c1 t)) = t + 5" using a by simp
  have k2: "clock (snd (finish_request env c2 t)) = t + 5" using b by simp
  have ev: "on_connection (trace (snd (finish_request env c1 t))) =
       on_connection (trace (snd (finish_request env c2 t)))"
    using a b assms(5) by simp
  have w: "wire (trace (snd (finish_request env c1 t))) =
       wire (trace (snd (finish_request env c2 t)))"
    using a b assms(5) by simp
  have hd: "take 15 (wire (trace (snd (finish_request env c1 t)))) =
       (if v1 = ''HTTP/0.9'' then ''Response from S'' else ''HTTP/1.0 200 OK'')"
    using a by simp
  have o: "\<not> calls_do_GET (input c3) \<longrightarrow>
        clock (snd (finish_request env c3 t)) = t \<and>
        slept (trace (snd (finish_request env c3 t))) = 0"
    using sleeps_iff_do_GET [of env c3 t] by simp
  show ?thesis by (intro conjI k1 k2 ev w hd o)
qed

theorem get_requests_alike_witness:
  "wire (trace (snd (finish_request example_env (example_connection ''GET'' ''/'' 2) 0))) =
   wire (trace (snd (finish_request example_env (example_connection ''GET'' ''/a/b?x=1'' 3) 0))) \<and>
   clock (snd (finish_request example_env (example_connection ''GET'' ''/a/b?x=1'' 3) 0)) = 5 \<and>
   take 15 (wire (trace (snd (finish_request example_env (example_connection ''GET'' ''/'' 2) 0)))) =
     ''HTTP/1.0 200 OK'' \<and>
   clock (snd (finish_request example_env
     (connection_of (example_request ''GET'' ''/'' ''HTTP/2.0'') 2) 0)) = 0"
proof -
  let ?c1 = "example_connection ''GET'' ''/'' 2"
  let ?c2 = "example_connection ''GET'' ''/a/b?x=1'' 3"
  let ?c3 = "connection_of (example_request ''GET'' ''/'' ''HTTP/2.0'') 2"
  have d1: "dispatch_of (input ?c1) = Some (''GET'', ''HTTP/1.1'')"
    by (simp add: example_connection_def connection_of_def reading)
  have d2: "dispatch_of (input ?c2) = Some (''GET'', ''HTTP/1.1'')"
    by (simp add: example_connection_def connection_of_def reading)
  have a1: "2 \<le> accepts ?c1" and a2: "2 \<le> accepts ?c2"
    by (simp_all add: example_connection_def connection_of_def)
  have v: "(''HTTP/1.1'' = ''HTTP/0.9'') = (''HTTP/1.1'' = ''HTTP/0.9'')" by simp
  have d3: "\<not> calls_do_GET (input ?c3)"
    by (simp add: calls_do_GET_def connection_of_def reading)
  note th = get_requests_alike [OF d1 a1 d2 a2 v, of example_env 0 ?c3]
  have p1: "wire (trace (snd (finish_request example_env ?c1 0))) =
      wire (trace (snd (finish_request example_env ?c2 0)))"
    by (rule th [THEN conjunct2, THEN conjunct2, THEN conjunct2, THEN conjunct1])
  have p2: "clock (snd (finish_request example_env ?c2 0)) = 5"
    using th [THEN conjunct2, THEN conjunct1] by simp
  have p3: "take 15 (wire (trace (snd (finish_request example_env ?c1 0)))) = ''HTTP/1.0 200 OK''"
    using th [THEN conjunct2, THEN conjunct2, THEN conjunct2, THEN conjunct2, THEN conjunct1]
    by simp
  have p4: "clock (snd (finish_request example_env ?c3 0)) = 0"
    using mp [OF th [THEN conjunct2, THEN conjunct2, THEN conjunct2, THEN conjunct2,
      THEN conjunct2] d3] by simp
  show ?thesis by (intro conjI p1 p2 p3 p4)
qed

text \<open>The claim as stated fails at a \<^verbatim>\<open>POST / HTTP/1.1\<close> request: there is no delay,
  and the reply starts with status 501.\<close>

theorem post_is_not_delayed:
  "clock (snd (finish_request example_env (example_connection ''POST'' ''/'' 2) 0)) = 0 \<and>
   take 12 (wire (trace (snd (finish_request example_env (example_connection ''POST'' ''/'' 2) 0))))
     = ''HTTP/1.0 501''"
proof -
  let ?c = "example_connection ''POST'' ''/'' 2"
  have d: "dispatch_of (input ?c) = Some (''POST'', ''HTTP/1.1'')"
    by (simp add: example_connection_def connection_of_def reading)
  have cmd: "''POST'' \<noteq> ''GET''" by simp
  have v: "''HTTP/1.1'' \<noteq> ''HTTP/0.9''" by simp
  have a: "1 \<le> accepts ?c" by (simp add: example_connection_def connection_of_def)
  have n: "\<not> calls_do_GET (input ?c)" by (simp add: calls_do_GET_def d)
  have c: "clock (snd (finish_request example_env ?c 0)) = 0"
    using finish_other_any [OF n, of example_env 0] by simp
  from finish_other_head [OF d cmd v a, of example_env 0]
  obtain rest where "wire (trace (snd (finish_request example_env ?c 0))) =
     ''HTTP/1.0 501 Unsupported method ('' @ py_repr example_env ''POST'' @ '')'' @ CRLF @ rest"
    by (rule exE)
  then have "take 12 (wire (trace (snd (finish_request example_env ?c 0)))) = ''HTTP/1.0 501''"
    by simp
  with c show ?thesis by simp
qed

subsection \<open>C3: the delay comes before the reply\<close>

text \<open>
  Claim C3, as amended. The specification has every handled request answered, after the
  delay, with status 200, the header \<^verbatim>\<open>Content-type: text/plain\<close> and the fixed body.
  The handler calls \<^verbatim>\<open>send_response\<close>, \<^verbatim>\<open>send_header\<close> and \<^verbatim>\<open>end_headers\<close> of the base
  class, which write nothing for an HTTP/0.9 request. So: for every request that reaches
  the handler (a \<^verbatim>\<open>GET\<close> that the base class accepts) from a peer that reads the reply,
  processing is suspended for five seconds before any byte of the reply is written, and
  what is written then, at clock value \<open>t + 5\<close> where \<open>t\<close> is the clock value at which
  the connection was accepted, is: when the request line carries a version token other
  than \<^verbatim>\<open>HTTP/0.9\<close>, one write with the status line \<^verbatim>\<open>HTTP/1.0 200 OK\<close> and the header
  fields, \<^verbatim>\<open>Content-type: text/plain\<close> the last of them, and one write with the fixed
  body; when the request is an HTTP/0.9 request, the fixed body alone. Within one request
  the delay always precedes the write.
\<close>

theorem delay_precedes_response:
  assumes "dispatch_of (input c) = Some (''GET'', v)" and "2 \<le> accepts c"
  shows "on_connection (trace (snd (finish_request env c t))) =
       Slept 5 #
       (if v = ''HTTP/0.9'' then []
        else [Sent (''HTTP/1.0 200 OK'' @ CRLF @
                    ''Server: BaseHTTP/0.6 '' @ sys_version env @ CRLF @
                    ''Date: '' @ date_time_string env (t + 5) @ CRLF @
                    ''Content-type: text/plain'' @ CRLF @ CRLF)]) @
       [Sent ''Response from SLOW SERVER (5s delay)''] \<and>
     write_times t (trace (snd (finish_request env c t))) =
       (if v = ''HTTP/0.9'' then [t + 5] else [t + 5, t + 5]) \<and>
     clock (snd (finish_request env c t)) = t + 5"
  using finish_GET_events [OF assms, of env t] by simp

theorem delay_precedes_response_witness:
  "write_times 0 (trace (snd (finish_request example_env (example_connection ''GET'' ''/index.html'' 2) 0)))
     = [5, 5] \<and>
   clock (snd (finish_request example_env (example_connection ''GET'' ''/index.html'' 2) 0)) = 5 \<and>
   on_connection (trace (snd (finish_request example_env
       (connection_of (simple_request ''GET'' ''/index.html'') 2) 0))) =
     [Slept 5, Sent ''Response from SLOW SERVER (5s delay)'']"
proof -
  let ?c = "example_connection ''GET'' ''/index.html'' 2"
  let ?b = "connection_of (simple_request ''GET'' ''/index.html'') 2"
  have d: "dispatch_of (input ?c) = Some (''GET'', ''HTTP/1.1'')"
    by (simp add: example_connection_def connection_of_def reading)
  have a: "2 \<le> accepts ?c" by (simp add: example_connection_def connection_of_def)
  have d': "dispatch_of (input ?b) = Some (''GET'', ''HTTP/0.9'')"
    by (simp add: connection_of_def reading)
  have a': "2 \<le> accepts ?b" by (simp add: connection_of_def)
  note th = delay_precedes_response [OF d a, of example_env 0]
  note th' = delay_precedes_response [OF d' a', of example_env 0]
  have p1: "write_times 0 (trace (snd (finish_request example_env ?c 0))) = [5, 5]"
    using th [THEN conjunct2, THEN conjunct1] by simp
  have p2: "clock (snd (finish_request example_env ?c 0)) = 5"
    using th [THEN conjunct2, THEN conjunct2] by simp
  have p3: "on_connection (trace (snd (finish_request example_env ?b 0))) =
     [Slept 5, Sent ''Response from SLOW SERVER (5s delay)'']"
    using th' [THEN conjunct1] by simp
  show ?thesis by (intro conjI p1 p2 p3)
qed

text \<open>The claim as stated fails at the request \<^verbatim>\<open>GET /\<close>, without version token: the
  request is handled (\<^verbatim>\<open>do_GET\<close> runs and sleeps), but no status line and no header field
  is written; the peer receives the body and nothing else.\<close>

theorem get_without_version_has_no_status:
  "calls_do_GET (input (connection_of (simple_request ''GET'' ''/'') 2)) \<and>
   on_connection (trace (snd (finish_request example_env
       (connection_of (simple_request ''GET'' ''/'') 2) 0))) =
     [Slept 5, Sent ''Response from SLOW SERVER (5s delay)''] \<and>
   wire (trace (snd (finish_request example_env
       (connection_of (simple_request ''GET'' ''/'') 2) 0))) =
     ''Response from SLOW SERVER (5s delay)''"
proof -
  let ?b = "connection_of (simple_request ''GET'' ''/'') 2"
  have d: "dispatch_of (input ?b) = Some (''GET'', ''HTTP/0.9'')"
    by (simp add: connection_of_def reading)
  have a: "2 \<le> accepts ?b" by (simp add: connection_of_def)
  have g: "calls_do_GET (input ?b)" by (simp add: calls_do_GET_def d)
  from finish_GET_events [OF d a, of example_env 0] g
  show ?thesis by simp
qed

subsection \<open>C4: the bytes of the reply\<close>

text \<open>
  Claim C4, as amended. The specification prints the reply as the status line
  \<^verbatim>\<open>HTTP/1.1 200 OK\<close>, the single header field \<^verbatim>\<open>Content-type: text/plain\<close>, an empty
  line and the body. The program calls \<^verbatim>\<open>send_response(200)\<close> of the base class, which
  writes the status line with the class's \<^verbatim>\<open>protocol_version\<close>, \<^verbatim>\<open>HTTP/1.0\<close>, and adds
  the header fields \<^verbatim>\<open>Server\<close> and \<^verbatim>\<open>Date\<close> before the program's own. What is written
  to a \<^verbatim>\<open>GET\<close> request that the base class accepts, from a peer that reads the reply,
  is: the status line \<^verbatim>\<open>HTTP/1.0 200 OK\<close>, the fields \<^verbatim>\<open>Server: BaseHTTP/0.6\<close> with the
  interpreter's version, \<^verbatim>\<open>Date\<close> with the time after the delay,
  \<^verbatim>\<open>Content-type: text/plain\<close>, an empty line, and the body
  \<^verbatim>\<open>Response from SLOW SERVER (5s delay)\<close>; and when the request is an HTTP/0.9 request,
  the body alone.
\<close>

theorem reply_bytes:
  assumes "dispatch_of (input c) = Some (''GET'', v)" and "2 \<le> accepts c"
  shows "wire (trace (snd (finish_request env c t))) =
       (if v = ''HTTP/0.9'' then []
        else ''HTTP/1.0 200 OK'' @ CRLF @
             ''Server: BaseHTTP/0.6 '' @ sys_version env @ CRLF @
             ''Date: '' @ date_time_string env (t + 5) @ CRLF @
             ''Content-type: text/plain'' @ CRLF @
             CRLF) @
       ''Response from SLOW SERVER (5s delay)''"
  using finish_GET_events [OF assms, of env t] by simp

theorem reply_bytes_witness:
  "wire (trace (snd (finish_request example_env (example_connection ''GET'' ''/'' 2) 0))) =
       ''HTTP/1.0 200 OK'' @ CRLF @
       ''Server: BaseHTTP/0.6 Python/3.11.10'' @ CRLF @
       ''Date: Wed, 04 Nov 2026 10:00:05 GMT'' @ CRLF @
       ''Content-type: text/plain'' @ CRLF @
       CRLF @
       ''Response from SLOW SERVER (5s delay)''"
proof -
  let ?c = "example_connection ''GET'' ''/'' 2"
  have d5: "str_nat 5 = ''5''" by code_simp
  have d: "dispatch_of (input ?c) = Some (''GET'', ''HTTP/1.1'')"
    by (simp add: example_connection_def connection_of_def reading)
  have a: "2 \<le> accepts ?c" by (simp add: example_connection_def connection_of_def)
  show ?thesis
    using reply_bytes [OF d a, of example_env 0]
    by (simp add: example_env_def d5)
qed

text \<open>The claim as stated fails: the bytes written to a \<^verbatim>\<open>GET / HTTP/1.1\<close> request are
  not the bytes the specification prints.\<close>

theorem reply_differs_from_spec:
  "wire (trace (snd (finish_request example_env (example_connection ''GET'' ''/'' 2) 0)))
     \<noteq> spec_response"
proof -
  let ?c = "example_connection ''GET'' ''/'' 2"
  have d: "dispatch_of (input ?c) = Some (''GET'', ''HTTP/1.1'')"
    by (simp add: example_connection_def connection_of_def reading)
  have a: "2 \<le> accepts ?c" by (simp add: example_connection_def connection_of_def)
  have "wire (trace (snd (finish_request example_env ?c 0))) =
       ''HTTP/1.0 200 OK'' @ CRLF @
       ''Server: BaseHTTP/0.6 '' @ sys_version example_env @ CRLF @
       ''Date: '' @ date_time_string example_env (0 + 5) @ CRLF @
       ''Content-type: text/plain'' @ CRLF @
       CRLF @
       ''Response from SLOW SERVER (5s delay)''"
    using finish_GET_events [OF d a, of example_env 0] by simp
  then show ?thesis by (simp add: spec_response_def)
qed

subsection \<open>C5: the body does not depend on the request\<close>



subsection \<open>C6: the listening address\<close>

text \<open>
  Claim C6. The listener binds to all interfaces (\<^verbatim>\<open>0.0.0.0\<close>) on port 80; the two are
  constants of the program, not configurable and never changed while it runs: whatever
  the interpreter, the command line and what arrives at the process, the server's address
  at the end of the run is \<^verbatim>\<open>("0.0.0.0", 80)\<close>.
\<close>

theorem listener_address_fixed:
  "map_option server_address (final_server (main env argv None stimuli)) = Some (''0.0.0.0'', 80)"
proof -
  let ?s0 = "\<lparr>server_address = (''0.0.0.0'', 80), shutdown_flag = False, now = 0, served = []\<rparr>"
  from serve_forever_frame [of env stimuli ?s0]
  obtain s' where "final_server (serve_forever env stimuli ?s0) = Some s'"
    "server_address s' = server_address ?s0" by auto
  then show ?thesis by (simp add: main_def HTTPServer_def)
qed

subsection \<open>C7: a failure stays with its request\<close>

text \<open>
  Claim C7. Every failure of one request stays with that request. If the peer is gone
  before the delay is over, or a write of the reply fails, then: no exception reaches the
  serving loop (the socket's error is caught, in the handler or by the server, which
  prints a traceback); the listener's address and its shutdown flag are as they were; if
  the peer was gone before the first write, no byte is written; and the record of every
  other connection of the run (the one at position \<open>length pre\<close> left out) and the way
  the run ends are what they would have been had the peer of this connection behaved in
  any other way, such as reading the whole reply.
\<close>

theorem failure_is_isolated:
  assumes "is_Exception (write_error c)" and "is_Exception e'"
  shows "fst (handle_request_noblock env c s) = None \<and>
     server_address (snd (handle_request_noblock env c s)) = server_address s \<and>
     shutdown_flag (snd (handle_request_noblock env c s)) = shutdown_flag s \<and>
     (accepts c = 0 \<longrightarrow>
        wire (events (last (served (snd (handle_request_noblock env c s))))) = []) \<and>
     others (length pre) (served_of (main env argv None (pre @ Incoming c # post))) =
     others (length pre) (served_of (main env argv None
        (pre @ Incoming (c\<lparr>accepts := k', write_error := e'\<rparr>) # post))) \<and>
     exit_status (main env argv None (pre @ Incoming c # post)) =
     exit_status (main env argv None
        (pre @ Incoming (c\<lparr>accepts := k', write_error := e'\<rparr>) # post))"
proof -
  let ?c' = "c\<lparr>accepts := k', write_error := e'\<rparr>"
  let ?s0 = "\<lparr>server_address = (''0.0.0.0'', 80), shutdown_flag = False, now = 0, served = []\<rparr>"
  have a: "fst (handle_request_noblock env c s) = None"
    using assms(1) by (rule handle_request_noblock_caught)
  note f = handle_request_noblock_frame [of env c s]
  have b: "server_address (snd (handle_request_noblock env c s)) = server_address s"
    by (rule f [THEN conjunct1])
  have d: "shutdown_flag (snd (handle_request_noblock env c s)) = shutdown_flag s"
    by (rule f [THEN conjunct2, THEN conjunct1])
  have g: "accepts c = 0 \<longrightarrow>
        wire (events (last (served (snd (handle_request_noblock env c s))))) = []"
    by (simp add: handle_request_noblock_wire finish_request_gone_wire)
  have x': "is_Exception (write_error ?c')" using assms(2) by simp
  have rq: "input ?c' = input c" by simp
  note i = isolation [OF assms(1) x' rq, of ?s0 pre env post]
  have o: "others (length pre) (served_of (main env argv None (pre @ Incoming c # post))) =
     others (length pre) (served_of (main env argv None (pre @ Incoming ?c' # post)))"
    using i [THEN conjunct1] by (simp add: main_serve)
  have e: "exit_status (main env argv None (pre @ Incoming c # post)) =
     exit_status (main env argv None (pre @ Incoming ?c' # post))"
    using i [THEN conjunct2] by (simp add: main_serve)
  show ?thesis by (intro conjI a b d g o e)
qed

theorem failure_is_isolated_witness:
  "fst (handle_request_noblock example_env (example_connection ''GET'' ''/slow'' 0)
      \<lparr>server_address = (''0.0.0.0'', 80), shutdown_flag = False, now = 0, served = []\<rparr>) = None \<and>
   wire (events (last (served (snd (handle_request_noblock example_env
      (example_connection ''GET'' ''/slow'' 0)
      \<lparr>server_address = (''0.0.0.0'', 80), shutdown_flag = False, now = 0, served = []\<rparr>))))) = [] \<and>
   others 1 (served_of (main example_env [] None
      [Incoming (example_connection ''GET'' ''/'' 2),
       Incoming (example_connection ''GET'' ''/slow'' 0),
       Incoming (example_connection ''GET'' ''/after'' 2)])) =
   others 1 (served_of (main example_env [] None
      [Incoming (example_connection ''GET'' ''/'' 2),
       Incoming ((example_connection ''GET'' ''/slow'' 0)\<lparr>accepts := 2, write_error := BrokenPipeError\<rparr>),
       Incoming (example_connection ''GET'' ''/after'' 2)]))"
proof -
  let ?c = "example_connection ''GET'' ''/slow'' 0"
  let ?s = "\<lparr>server_address = (''0.0.0.0'', 80), shutdown_flag = False, now = 0, served = []\<rparr>"
  let ?pre = "[Incoming (example_connection ''GET'' ''/'' 2)]"
  let ?post = "[Incoming (example_connection ''GET'' ''/after'' 2)]"
  have a1: "is_Exception (write_error ?c)"
    by (simp add: example_connection_def connection_of_def)
  have a2: "is_Exception BrokenPipeError" by simp
  have a3: "accepts ?c = 0" by (simp add: example_connection_def connection_of_def)
  have len: "length ?pre = 1" by simp
  note th = failure_is_isolated [OF a1 a2, of example_env ?s ?pre "[]" ?post 2]
  have p1: "fst (handle_request_noblock example_env ?c ?s) = None"
    by (rule th [THEN conjunct1])
  have p2: "wire (events (last (served (snd (handle_request_noblock example_env ?c ?s))))) = []"
    by (rule mp [OF th [THEN conjunct2, THEN conjunct2, THEN conjunct2, THEN conjunct1] a3])
  have p3: "others 1 (served_of (main example_env [] None (?pre @ Incoming ?c # ?post))) =
     others 1 (served_of (main example_env [] None
        (?pre @ Incoming (?c\<lparr>accepts := 2, write_error := BrokenPipeError\<rparr>) # ?post)))"
    using th [THEN conjunct2, THEN conjunct2, THEN conjunct2, THEN conjunct2, THEN conjunct1]
    unfolding len .
  show ?thesis using p1 p2 p3 by (simp only: append.simps simp_thms)
qed

subsection \<open>C8: arguments and exit status\<close>

text \<open>
  Claim C8, as amended. The specification has the process exit with status 0 on a clean
  shutdown, such as one triggered by a signal. The program has no clean shutdown:
  nothing in it ever asks the serving loop to stop, so \<^verbatim>\<open>serve_forever\<close> never returns
  and the program never comes to its end. The loop ends by an exception or a signal only.
  So: the process takes no arguments (it never reads its command line); no run at all
  ends with status 0; a shutdown triggered by a signal ends the process with the signal
  as its status (the interrupt signal, raised as \<^verbatim>\<open>KeyboardInterrupt\<close> and caught
  nowhere: killed by signal 2; the termination signal: killed by signal 15); and when the
  listener cannot bind its address the exception leaves the program and the status is 1.
\<close>

theorem exit_codes:
  "main env argv bind_error stimuli = main env [] bind_error stimuli \<and>
   exit_status (main env argv bind_error stimuli) \<noteq> Exited 0 \<and>
   exit_status (main env argv (Some OSError) stimuli) = Exited 1 \<and>
   exit_status (main env argv None [Sigint]) = Killed 2 \<and>
   exit_status (main env argv None [Sigterm]) = Killed 15"
proof -
  let ?s0 = "\<lparr>server_address = (''0.0.0.0'', 80), shutdown_flag = False, now = 0, served = []\<rparr>"
  have a: "main env argv bind_error stimuli = main env [] bind_error stimuli"
    by (simp add: main_def)
  have "exit_status (serve_forever env stimuli ?s0) \<noteq> Exited 0"
    by (rule serve_forever_never_returns) simp
  then have b: "exit_status (main env argv bind_error stimuli) \<noteq> Exited 0"
    by (cases bind_error) (simp_all add: main_def HTTPServer_def)
  have c: "exit_status (main env argv (Some OSError) stimuli) = Exited 1"
    by (simp add: main_def HTTPServer_def)
  have d: "exit_status (main env argv None [Sigint]) = Killed 2"
    by (simp add: main_serve)
  have e: "exit_status (main env argv None [Sigterm]) = Killed 15"
    by (simp add: main_serve)
  show ?thesis by (intro conjI a b c d e)
qed

text \<open>The claim as stated fails at a shutdown triggered by a signal: after one
  connection is served, the termination signal ends the process with status
  \<open>Killed 15\<close>, and the interrupt signal with \<open>Killed 2\<close>, neither of them the exit
  code 0 of the claim.\<close>

theorem signal_shutdown_is_not_exit_0:
  "exit_status (main example_env [] None
     [Incoming (example_connection ''GET'' ''/'' 2), Sigterm]) = Killed 15 \<and>
   exit_status (main example_env [] None
     [Incoming (example_connection ''GET'' ''/'' 2), Sigint]) = Killed 2"
proof -
  let ?c = "example_connection ''GET'' ''/'' 2"
  let ?s0 = "\<lparr>server_address = (''0.0.0.0'', 80), shutdown_flag = False, now = 0, served = []\<rparr>"
  have x: "is_Exception (write_error ?c)" by (simp add: example_connection_def connection_of_def)
  obtain r s1 where h: "handle_request_noblock example_env ?c ?s0 = (r, s1)"
    by (cases "handle_request_noblock example_env ?c ?s0")
  have r: "r = None" using handle_request_noblock_caught [OF x, of example_env ?s0] h by simp
  have f: "\<not> shutdown_flag s1"
    using handle_request_noblock_frame [of example_env ?c ?s0] h by simp
  show ?thesis using h r f by (simp add: main_serve)
qed

subsection \<open>C9: methods other than GET\<close>

text \<open>
  Claim C9, as amended. The specification's sentence has every request whose method is
  not \<^verbatim>\<open>GET\<close> answered with the error 501. The error 501 is the answer of
  \<^verbatim>\<open>handle_one_request\<close>, which a request reaches only if \<^verbatim>\<open>parse_request\<close> has accepted
  it. So: for every request that the base class accepts (a request line of three words,
  the third a version token below 2.0, and a block of header lines within the limits) and
  whose method is not \<^verbatim>\<open>GET\<close>, the server does not apply the delay and does not send the
  fixed reply with status 200; the base class answers with the error 501,
  \<^verbatim>\<open>Unsupported method\<close>. The clock does not move while the connection is handled and no
  event of its trace is a sleep. If the peer takes the first write, what it receives
  starts with the status line \<^verbatim>\<open>HTTP/1.0 501 Unsupported method (...)\<close>, with \<^verbatim>\<open>repr\<close> of
  the method between the brackets, when the version token is not \<^verbatim>\<open>HTTP/0.9\<close>; when it
  is, the reply has no status line and no header fields, and is the page of the error 501
  alone (and nothing at all if the method is \<^verbatim>\<open>HEAD\<close>). A request that the base class
  does not accept is answered by \<^verbatim>\<open>parse_request\<close> itself, whatever its method, and also
  without the delay.
\<close>

theorem other_methods_get_501:
  assumes "dispatch_of (input c) = Some (cmd, v)" and "cmd \<noteq> ''GET''"
  shows "clock (snd (finish_request env c t)) = t \<and>
     slept (trace (snd (finish_request env c t))) = 0 \<and>
     (v \<noteq> ''HTTP/0.9'' \<and> 1 \<le> accepts c \<longrightarrow>
        (\<exists>rest. wire (trace (snd (finish_request env c t))) =
           ''HTTP/1.0 501 Unsupported method ('' @ py_repr env cmd @ '')'' @ CRLF @ rest)) \<and>
     (v = ''HTTP/0.9'' \<and> 1 \<le> accepts c \<longrightarrow>
        on_connection (trace (snd (finish_request env c t))) =
          (if cmd = ''HEAD'' then []
           else [Sent (utf8_encode (error_message_format 501
                   (html_escape (''Unsupported method ('' @ py_repr env cmd @ '')''))
                   (html_escape ''Server does not support this operation'')))])) \<and>
     (\<not> calls_do_GET (input c') \<longrightarrow>
        clock (snd (finish_request env c' t)) = t \<and>
        slept (trace (snd (finish_request env c' t))) = 0)"
proof -
  have n: "\<not> calls_do_GET (input c)"
    using assms by (simp add: calls_do_GET_def)
  note s = sleeps_iff_do_GET [of env c t]
  have k: "clock (snd (finish_request env c t)) = t" using s n by simp
  have z: "slept (trace (snd (finish_request env c t))) = 0" using s n by simp
  have a: "v \<noteq> ''HTTP/0.9'' \<and> 1 \<le> accepts c \<longrightarrow>
        (\<exists>rest. wire (trace (snd (finish_request env c t))) =
           ''HTTP/1.0 501 Unsupported method ('' @ py_repr env cmd @ '')'' @ CRLF @ rest)"
    using finish_other_head [OF assms, of env t] by simp
  have b: "v = ''HTTP/0.9'' \<and> 1 \<le> accepts c \<longrightarrow>
        on_connection (trace (snd (finish_request env c t))) =
          (if cmd = ''HEAD'' then []
           else [Sent (utf8_encode (error_message_format 501
                   (html_escape (''Unsupported method ('' @ py_repr env cmd @ '')''))
                   (html_escape ''Server does not support this operation'')))])"
  proof
    assume h: "v = ''HTTP/0.9'' \<and> 1 \<le> accepts c"
    then have d: "dispatch_of (input c) = Some (cmd, ''HTTP/0.9'')" using assms(1) by simp
    from h have "1 \<le> accepts c" by simp
    from finish_other_09_events [OF d assms(2) this, of env t]
    show "on_connection (trace (snd (finish_request env c t))) =
          (if cmd = ''HEAD'' then []
           else [Sent (utf8_encode (error_message_format 501
                   (html_escape (''Unsupported method ('' @ py_repr env cmd @ '')''))
                   (html_escape ''Server does not support this operation'')))])" .
  qed
  have o: "\<not> calls_do_GET (input c') \<longrightarrow>
        clock (snd (finish_request env c' t)) = t \<and>
        slept (trace (snd (finish_request env c' t))) = 0"
    using sleeps_iff_do_GET [of env c' t] by simp
  show ?thesis by (intro conjI k z a b o)
qed

theorem other_methods_get_501_witness:
  "clock (snd (finish_request example_env (example_connection ''DELETE'' ''/x'' 2) 7)) = 7 \<and>
   slept (trace (snd (finish_request example_env (example_connection ''DELETE'' ''/x'' 2) 7))) = 0 \<and>
   (\<exists>rest. wire (trace (snd (finish_request example_env (example_connection ''DELETE'' ''/x'' 2) 7))) =
       ''HTTP/1.0 501 Unsupported method ('' @ [CHR 0x27] @ ''DELETE'' @ [CHR 0x27] @ '')'' @ CRLF @ rest) \<and>
   clock (snd (finish_request example_env (connection_of (simple_request ''POST'' ''/'') 2) 7)) = 7 \<and>
   on_connection (trace (snd (finish_request example_env
       (connection_of (example_request ''POST'' ''/'' ''HTTP/0.9'') 2) 7))) =
     [Sent (utf8_encode (error_message_format 501
        (html_escape (''Unsupported method ('' @ [CHR 0x27] @ ''POST'' @ [CHR 0x27] @ '')''))
        (html_escape ''Server does not support this operation'')))]"
proof -
  let ?c = "example_connection ''DELETE'' ''/x'' 2"
  let ?c' = "connection_of (simple_request ''POST'' ''/'') 2"
  have d: "dispatch_of (input ?c) = Some (''DELETE'', ''HTTP/1.1'')"
    by (simp add: example_connection_def connection_of_def reading)
  have m: "''DELETE'' \<noteq> ''GET''" by simp
  have g: "''HTTP/1.1'' \<noteq> ''HTTP/0.9'' \<and> 1 \<le> accepts ?c"
    by (simp add: example_connection_def connection_of_def)
  have n: "\<not> calls_do_GET (input ?c')"
    by (simp add: calls_do_GET_def connection_of_def reading)
  note th = other_methods_get_501 [OF d m, of example_env 7 ?c']
  have p1: "clock (snd (finish_request example_env ?c 7)) = 7"
    by (rule th [THEN conjunct1])
  have p2: "slept (trace (snd (finish_request example_env ?c 7))) = 0"
    by (rule th [THEN conjunct2, THEN conjunct1])
  have "\<exists>rest. wire (trace (snd (finish_request example_env ?c 7))) =
       ''HTTP/1.0 501 Unsupported method ('' @ py_repr example_env ''DELETE'' @ '')'' @ CRLF @ rest"
    by (rule mp [OF th [THEN conjunct2, THEN conjunct2, THEN conjunct1] g])
  then have p3: "\<exists>rest. wire (trace (snd (finish_request example_env ?c 7))) =
       ''HTTP/1.0 501 Unsupported method ('' @ [CHR 0x27] @ ''DELETE'' @ [CHR 0x27] @ '')'' @ CRLF @ rest"
    by (simp add: example_env_def)
  have p4: "clock (snd (finish_request example_env ?c' 7)) = 7"
    using mp [OF th [THEN conjunct2, THEN conjunct2, THEN conjunct2, THEN conjunct2] n]
    by simp
  let ?d = "connection_of (example_request ''POST'' ''/'' ''HTTP/0.9'') 2"
  have d9: "dispatch_of (input ?d) = Some (''POST'', ''HTTP/0.9'')"
    by (simp add: connection_of_def reading)
  have m9: "''POST'' \<noteq> ''GET''" by simp
  have g9: "''HTTP/0.9'' = ''HTTP/0.9'' \<and> 1 \<le> accepts ?d"
    by (simp add: connection_of_def)
  note th9 = other_methods_get_501 [OF d9 m9, of example_env 7 ?c']
  have "on_connection (trace (snd (finish_request example_env ?d 7))) =
          (if ''POST'' = ''HEAD'' then []
           else [Sent (utf8_encode (error_message_format 501
                   (html_escape (''Unsupported method ('' @ py_repr example_env ''POST'' @ '')''))
                   (html_escape ''Server does not support this operation'')))])"
    by (rule mp [OF th9 [THEN conjunct2, THEN conjunct2, THEN conjunct2, THEN conjunct1] g9])
  then have p5: "on_connection (trace (snd (finish_request example_env ?d 7))) =
     [Sent (utf8_encode (error_message_format 501
        (html_escape (''Unsupported method ('' @ [CHR 0x27] @ ''POST'' @ [CHR 0x27] @ '')''))
        (html_escape ''Server does not support this operation'')))]"
    by (simp add: example_env_def)
  show ?thesis by (intro conjI p1 p2 p3 p4 p5)
qed

text \<open>The claim as stated fails at the request \<^verbatim>\<open>POST /\<close>, without version token: its
  method is not \<^verbatim>\<open>GET\<close>, and the answer is not the error 501 but the error 400 of
  \<^verbatim>\<open>parse_request\<close>, \<^verbatim>\<open>Bad HTTP/0.9 request type ('POST')\<close>, sent as a page without
  status line.\<close>

theorem post_without_version_gets_400:
  "trace (snd (finish_request example_env (connection_of (simple_request ''POST'' ''/'') 2) 0)) =
     [Logged (log_line example_env ''10.0.0.7'' 0
        (''code 400, message Bad HTTP/0.9 request type ('' @ [CHR 0x27] @ ''POST'' @ [CHR 0x27] @ '')'')),
      Logged (log_line example_env ''10.0.0.7'' 0
        ([CHR 0x22] @ ''POST /'' @ [CHR 0x22] @ '' 400 -'')),
      Sent (utf8_encode (error_message_format 400
        (html_escape (''Bad HTTP/0.9 request type ('' @ [CHR 0x27] @ ''POST'' @ [CHR 0x27] @ '')''))
        (html_escape ''Bad request syntax or unsupported method'')))]"
proof -
  let ?c = "connection_of (simple_request ''POST'' ''/'') 2"
  have rl: "readline 65537 (input ?c) = (''POST /'' @ CRLF, [])"
    by (simp add: connection_of_def reading)
  have ne: "''POST /'' @ CRLF \<noteq> []" by simp
  have ln: "length (''POST /'' @ CRLF) \<le> 65536" by (simp add: CRLF_def)
  have sw: "split_words (rstrip_crlf (''POST /'' @ CRLF)) = [''POST'', ''/'']"
    by (simp add: reading)
  have m: "''POST'' \<noteq> ''GET''" by simp
  have a: "1 \<le> accepts ?c" by (simp add: connection_of_def)
  have rs: "rstrip_crlf (''POST /'' @ CRLF) = ''POST /''" by (simp add: reading)
  have pr: "py_repr example_env ''POST'' = [CHR 0x27] @ ''POST'' @ [CHR 0x27]"
    by (simp add: example_env_def)
  show ?thesis
    unfolding refused_bad_request [OF rl ne ln sw m a, of example_env 0]
    by (simp add: connection_of_def pr reading)
qed

subsection \<open>C10: the sleep is not cut short by the peer\<close>

text \<open>
  Claim C10. Within one handling of a \<^verbatim>\<open>GET\<close> (a request that reaches \<^verbatim>\<open>do_GET\<close>), the
  sleep of five seconds runs to its end before the handler makes any attempt to write,
  also when the peer has already gone: whatever the peer does (however many writes it
  takes, whatever error the socket raises) the clock moves by five seconds, the first
  event of the trace is the full sleep and there is no other, every attempt to write
  happens at clock value \<open>t + 5\<close>, and the server is back at its loop only five seconds
  after it accepted the connection. When the peer takes no write at all, what happens on
  the connection is the sleep and then the one attempt to write, which fails.
\<close>

theorem sleep_runs_whatever_the_peer_does:
  assumes "calls_do_GET (input c)"
  shows "clock (snd (finish_request env c t)) = t + 5 \<and>
     (\<exists>es. trace (snd (finish_request env c t)) = Slept 5 # es \<and> slept es = 0) \<and>
     (\<forall>w \<in> set (write_times t (trace (snd (finish_request env c t)))). w = t + 5) \<and>
     now (snd (handle_request_noblock env c s)) = now s + 5 \<and>
     (accepts c = 0 \<longrightarrow>
        on_connection (trace (snd (finish_request env c t))) =
          [Slept 5, SendFailed (write_error c)])"
proof -
  note a = finish_GET_any [OF assms, of env t]
  have c: "clock (snd (finish_request env c t)) = t + 5"
    by (rule a [THEN conjunct1])
  have "\<exists>es. trace (snd (finish_request env c t)) = Slept 5 # es \<and> slept es = 0 \<and>
           (accepts c = 0 \<longrightarrow> wire es = [])"
    by (rule a [THEN conjunct2, THEN conjunct1])
  then obtain es where es: "trace (snd (finish_request env c t)) = Slept 5 # es \<and> slept es = 0 \<and>
           (accepts c = 0 \<longrightarrow> wire es = [])"
    by (rule exE)
  have es1: "trace (snd (finish_request env c t)) = Slept 5 # es" and es2: "slept es = 0"
    using es by simp_all
  have tr: "\<exists>es. trace (snd (finish_request env c t)) = Slept 5 # es \<and> slept es = 0"
    by (rule exI [of _ es]) (intro conjI es1 es2)
  have w: "\<forall>w \<in> set (write_times t (trace (snd (finish_request env c t)))). w = t + 5"
  proof
    fix w
    assume "w \<in> set (write_times t (trace (snd (finish_request env c t))))"
    then have "w \<in> set (write_times (t + 5) es)" by (simp add: es1)
    with es2 show "w = t + 5" by (rule write_times_quiet)
  qed
  have n: "now (snd (handle_request_noblock env c s)) = now s + 5"
    using handle_request_noblock_frame [of env c s]
      finish_GET_any [OF assms, of env "now s", THEN conjunct1]
    by simp
  have g: "accepts c = 0 \<longrightarrow>
        on_connection (trace (snd (finish_request env c t))) =
          [Slept 5, SendFailed (write_error c)]"
    using finish_GET_gone_events [OF assms, of env t] by simp
  show ?thesis by (intro conjI c tr w n g)
qed

theorem sleep_runs_whatever_the_peer_does_witness:
  "clock (snd (finish_request example_env (example_connection ''GET'' ''/'' 0) 0)) = 5 \<and>
   on_connection (trace (snd (finish_request example_env (example_connection ''GET'' ''/'' 0) 0))) =
     [Slept 5, SendFailed BrokenPipeError]"
proof -
  let ?c = "example_connection ''GET'' ''/'' 0"
  have a1: "calls_do_GET (input ?c)"
    by (simp add: calls_do_GET_def example_connection_def connection_of_def reading)
  have a3: "accepts ?c = 0" by (simp add: example_connection_def connection_of_def)
  have e: "write_error ?c = BrokenPipeError"
    by (simp add: example_connection_def connection_of_def)
  note th = sleep_runs_whatever_the_peer_does [OF a1, of example_env 0]
  have c: "clock (snd (finish_request example_env ?c 0)) = 5"
    using th [THEN conjunct1] by simp
  have "on_connection (trace (snd (finish_request example_env ?c 0))) =
          [Slept 5, SendFailed (write_error ?c)]"
    by (rule mp [OF th [THEN conjunct2, THEN conjunct2, THEN conjunct2, THEN conjunct2] a3])
  then have tr: "on_connection (trace (snd (finish_request example_env ?c 0))) =
     [Slept 5, SendFailed BrokenPipeError]"
    by (simp add: e)
  show ?thesis by (intro conjI c tr)
qed

end
